theory Spec2Isabelle
  imports Main "HOL-Library.Multiset" "HOL-Library.Sublist"
begin

chapter \<open>The Flow to TypeScript migration codemod\<close>

section \<open>Reporter: data model\<close>

text \<open>
  A \<open>t.SourceLocation\<close> carries a start and an end position; the reporter's
  \<open>Location\<close> adds the path of the file. Lines and columns are the natural numbers
  the parser produces.
\<close>

record position =
  line :: nat
  column :: nat

record location =
  filePath :: string
  loc_start :: position
  loc_end :: position

text \<open>
  \<open>MigrationReport\<close> of \<open>src/typescript/migration_reporter.ts\<close>: four arrays of
  locations.
\<close>

record MigrationReport =
  typeParameterWithVariance :: "location list"
  objectPropertyWithInternalName :: "location list"
  objectPropertyWithMinusVariance :: "location list"
  unsupportedTypeCast :: "location list"

text \<open>
  \<open>MigrationReport\<close> of \<open>src/modules/migration_reporter.ts\<close>. The entries
  \<open>{moduleId, location}\<close> and \<open>{modulePath, count}\<close> are pairs; a count is a JavaScript
  number that the reporter only ever increments by one, modelled as an integer.
\<close>

record ModulesMigrationReport =
  skippedLargeFiles :: "string list"
  requireNotCalled :: "location list"
  requireOtherThanString :: "location list"
  cannotFindModule :: "(string \<times> location) list"
  moduleNotExportAssignment :: "location list"
  requireWasDestructed :: "(string \<times> int) list"
  unableToLoadExternalModule :: "string list"
  importAfterSideEffects :: "location list"

section \<open>Reporter: merging\<close>

text \<open>
  \<open>mergeArrays(k, os)\<close>: two nested loops that push every element of \<open>o[k]\<close> onto one
  array.
\<close>

definition mergeArrays :: "('r \<Rightarrow> 'a list) \<Rightarrow> 'r list \<Rightarrow> 'a list" where
  "mergeArrays k os = fold (\<lambda>ob a. fold (\<lambda>x a. a @ [x]) (k ob) a) os []"

definition mergeReports :: "MigrationReport list \<Rightarrow> MigrationReport" where
  "mergeReports reports =
     \<lparr> typeParameterWithVariance = mergeArrays typeParameterWithVariance reports,
       objectPropertyWithInternalName = mergeArrays objectPropertyWithInternalName reports,
       objectPropertyWithMinusVariance = mergeArrays objectPropertyWithMinusVariance reports,
       unsupportedTypeCast = mergeArrays unsupportedTypeCast reports \<rparr>"

text \<open>
  A JavaScript \<open>Map\<close> iterates in insertion order and \<open>set\<close> on a present key keeps the
  key's place: an association list with distinct keys. \<open>Array.from(map)\<close> is the list
  itself. A JavaScript \<open>Set\<close> is the list of its members in insertion order.
\<close>

definition map_get :: "('k \<times> 'v) list \<Rightarrow> 'k \<Rightarrow> 'v option" where
  "map_get m k = map_of m k"

fun map_set :: "('k \<times> 'v) list \<Rightarrow> 'k \<Rightarrow> 'v \<Rightarrow> ('k \<times> 'v) list" where
  "map_set [] k v = [(k, v)]"
| "map_set ((k', v') # m) k v = (if k' = k then (k, v) # m else (k', v') # map_set m k v)"

definition set_add :: "'a list \<Rightarrow> 'a \<Rightarrow> 'a list" where
  "set_add s x = (if x \<in> set s then s else s @ [x])"

text \<open>
  The first loop of the modules reporter's \<open>mergeReports\<close>:
  \<open>lastCount = requireWasDestructed.get(modulePath) || 0\<close>, then
  \<open>requireWasDestructed.set(modulePath, lastCount + count)\<close>.
\<close>

definition addDestructed :: "string \<times> int \<Rightarrow> (string \<times> int) list \<Rightarrow> (string \<times> int) list" where
  "addDestructed e m =
     (let lastCount = (case map_get m (fst e) of None \<Rightarrow> 0 | Some c \<Rightarrow> c)
      in map_set m (fst e) (lastCount + snd e))"

definition mergeRequireWasDestructed :: "ModulesMigrationReport list \<Rightarrow> (string \<times> int) list" where
  "mergeRequireWasDestructed reports =
     fold (\<lambda>report m. fold addDestructed (requireWasDestructed report) m) reports []"

definition mergeUnableToLoadExternalModule :: "ModulesMigrationReport list \<Rightarrow> string list" where
  "mergeUnableToLoadExternalModule reports =
     fold (\<lambda>report s. fold (\<lambda>modulePath s. set_add s modulePath)
                             (unableToLoadExternalModule report) s) reports []"

definition modules_mergeReports :: "ModulesMigrationReport list \<Rightarrow> ModulesMigrationReport" where
  "modules_mergeReports reports =
     \<lparr> skippedLargeFiles = mergeArrays skippedLargeFiles reports,
       requireNotCalled = mergeArrays requireNotCalled reports,
       requireOtherThanString = mergeArrays requireOtherThanString reports,
       cannotFindModule = mergeArrays cannotFindModule reports,
       moduleNotExportAssignment = mergeArrays moduleNotExportAssignment reports,
       requireWasDestructed = mergeRequireWasDestructed reports,
       unableToLoadExternalModule = mergeUnableToLoadExternalModule reports,
       importAfterSideEffects = mergeArrays importAfterSideEffects reports \<rparr>"

text \<open>
  Equality of two reports category by category: the concatenated categories as
  multisets, the destructure counts as a map from module path to count, the unloadable
  modules as a set.
\<close>

definition report_equiv :: "MigrationReport \<Rightarrow> MigrationReport \<Rightarrow> bool" where
  "report_equiv a b \<longleftrightarrow>
     mset (typeParameterWithVariance a) = mset (typeParameterWithVariance b) \<and>
     mset (objectPropertyWithInternalName a) = mset (objectPropertyWithInternalName b) \<and>
     mset (objectPropertyWithMinusVariance a) = mset (objectPropertyWithMinusVariance b) \<and>
     mset (unsupportedTypeCast a) = mset (unsupportedTypeCast b)"

definition modules_report_equiv :: "ModulesMigrationReport \<Rightarrow> ModulesMigrationReport \<Rightarrow> bool" where
  "modules_report_equiv a b \<longleftrightarrow>
     mset (skippedLargeFiles a) = mset (skippedLargeFiles b) \<and>
     mset (requireNotCalled a) = mset (requireNotCalled b) \<and>
     mset (requireOtherThanString a) = mset (requireOtherThanString b) \<and>
     mset (cannotFindModule a) = mset (cannotFindModule b) \<and>
     mset (moduleNotExportAssignment a) = mset (moduleNotExportAssignment b) \<and>
     map_of (requireWasDestructed a) = map_of (requireWasDestructed b) \<and>
     set (unableToLoadExternalModule a) = set (unableToLoadExternalModule b) \<and>
     mset (importAfterSideEffects a) = mset (importAfterSideEffects b)"

section \<open>Reporter: rendering\<close>

text \<open>
  A number printed in a template string: the decimal digits of a natural number.
\<close>

definition digit :: "nat \<Rightarrow> char" where
  "digit d = char_of (48 + d)"

fun showNat :: "nat \<Rightarrow> string" where
  "showNat n = (if n < 10 then [digit n] else showNat (n div 10) @ [digit (n mod 10)])"

declare showNat.simps [simp del]

text \<open>
  \<open>displayLocation\<close>: \<open>`${path.relative(CWD, filePath)}:${start.line}:${start.column}`\<close>.
  \<open>path.relative(CWD, _)\<close> is Node's; it is the parameter \<open>relative\<close>.
\<close>

definition displayLocation :: "(string \<Rightarrow> string) \<Rightarrow> location \<Rightarrow> string" where
  "displayLocation relative l =
     relative (filePath l) @ '':'' @ showNat (line (loc_start l)) @ '':'' @
     showNat (column (loc_start l))"

text \<open>
  The console is the list of the lines printed. \<open>console.log()\<close> prints an empty line;
  every entry is printed behind a bullet (U+2022, here its UTF-8 bytes) and a space.
\<close>

definition bullet :: string where
  "bullet = [char_of (226::nat), char_of (128::nat), char_of (162::nat)]"

definition bulletLine :: "string \<Rightarrow> string" where
  "bulletLine s = bullet @ '' '' @ s"

text \<open>
  The shape every block of \<open>logReport\<close> has: nothing when the list is empty, otherwise
  an empty line, the heading and one line per entry.
\<close>

definition logSection :: "string \<Rightarrow> string list \<Rightarrow> string list" where
  "logSection heading entries =
     (if length entries > 0 then [''''] @ [heading] @ fold (\<lambda>e out. out @ [e]) entries [] else [])"

text \<open>
  The allowlists of \<open>src/typescript/allowlists.ts\<close> and of the modules migration are
  hand-curated sets of rendered locations (shipped empty in the open-source copy); they
  are parameters of the rendering.
\<close>

record allowlists =
  allow_typeParameterWithVariance :: "string set"

record modules_allowlists =
  allow_requireNotCalled :: "string set"
  allow_requireOtherThanString :: "string set"
  allow_cannotFindModule :: "string set"
  allow_moduleNotExportAssignment :: "string set"

text \<open>The four blocks of \<open>logReport\<close> in \<open>src/typescript/migration_reporter.ts\<close>.\<close>

definition shownTypeParameterWithVariance ::
  "(string \<Rightarrow> string) \<Rightarrow> allowlists \<Rightarrow> MigrationReport \<Rightarrow> string list" where
  "shownTypeParameterWithVariance relative allow report =
     filter (\<lambda>location. location \<notin> allow_typeParameterWithVariance allow)
       (map (\<lambda>location. displayLocation relative location) (typeParameterWithVariance report))"

definition logTypeParameterWithVariance ::
  "(string \<Rightarrow> string) \<Rightarrow> allowlists \<Rightarrow> MigrationReport \<Rightarrow> string list" where
  "logTypeParameterWithVariance relative allow report =
     logSection ''Type parameter with variance:''
       (map bulletLine (shownTypeParameterWithVariance relative allow report))"

definition logObjectPropertyWithInternalName ::
  "(string \<Rightarrow> string) \<Rightarrow> MigrationReport \<Rightarrow> string list" where
  "logObjectPropertyWithInternalName relative report =
     logSection ''Object property with an internal name:''
       (map bulletLine (map (\<lambda>location. displayLocation relative location)
          (objectPropertyWithInternalName report)))"

definition logObjectPropertyWithMinusVariance ::
  "(string \<Rightarrow> string) \<Rightarrow> MigrationReport \<Rightarrow> string list" where
  "logObjectPropertyWithMinusVariance relative report =
     logSection ''Object property with negative variance:''
       (map bulletLine (map (\<lambda>location. displayLocation relative location)
          (objectPropertyWithMinusVariance report)))"

definition logUnsupportedTypeCast ::
  "(string \<Rightarrow> string) \<Rightarrow> MigrationReport \<Rightarrow> string list" where
  "logUnsupportedTypeCast relative report =
     logSection ''Unsupported type cast:''
       (map bulletLine (map (\<lambda>location. displayLocation relative location)
          (unsupportedTypeCast report)))"

definition logReport :: "(string \<Rightarrow> string) \<Rightarrow> allowlists \<Rightarrow> MigrationReport \<Rightarrow> string list" where
  "logReport relative allow report =
     logTypeParameterWithVariance relative allow report @
     logObjectPropertyWithInternalName relative report @
     logObjectPropertyWithMinusVariance relative report @
     logUnsupportedTypeCast relative report"

text \<open>
  The blocks of \<open>logReport\<close> in \<open>src/modules/migration_reporter.ts\<close>. The two commented
  blocks of the source print nothing. The fourth block repeats the third's heading, as
  the source does.
\<close>

definition logSkippedLargeFiles ::
  "(string \<Rightarrow> string) \<Rightarrow> ModulesMigrationReport \<Rightarrow> string list" where
  "logSkippedLargeFiles relative report =
     logSection ''Skipped large files:''
       (map (\<lambda>filePath. bulletLine (relative filePath)) (skippedLargeFiles report))"

definition shownRequireNotCalled ::
  "(string \<Rightarrow> string) \<Rightarrow> modules_allowlists \<Rightarrow> ModulesMigrationReport \<Rightarrow> string list" where
  "shownRequireNotCalled relative allow report =
     filter (\<lambda>location. location \<notin> allow_requireNotCalled allow)
       (map (\<lambda>location. displayLocation relative location) (requireNotCalled report))"

definition shownRequireOtherThanString ::
  "(string \<Rightarrow> string) \<Rightarrow> modules_allowlists \<Rightarrow> ModulesMigrationReport \<Rightarrow> string list" where
  "shownRequireOtherThanString relative allow report =
     filter (\<lambda>location. location \<notin> allow_requireOtherThanString allow)
       (map (\<lambda>location. displayLocation relative location) (requireOtherThanString report))"

definition shownCannotFindModule ::
  "(string \<Rightarrow> string) \<Rightarrow> modules_allowlists \<Rightarrow> ModulesMigrationReport \<Rightarrow> (string \<times> string) list" where
  "shownCannotFindModule relative allow report =
     filter (\<lambda>(moduleId, location). location \<notin> allow_cannotFindModule allow)
       (map (\<lambda>(moduleId, location). (moduleId, displayLocation relative location))
          (cannotFindModule report))"

definition shownModuleNotExportAssignment ::
  "(string \<Rightarrow> string) \<Rightarrow> modules_allowlists \<Rightarrow> ModulesMigrationReport \<Rightarrow> string list" where
  "shownModuleNotExportAssignment relative allow report =
     filter (\<lambda>location. location \<notin> allow_moduleNotExportAssignment allow)
       (map (\<lambda>location. displayLocation relative location) (moduleNotExportAssignment report))"

definition cannotFindModuleLine :: "string \<times> string \<Rightarrow> string" where
  "cannotFindModuleLine e =
     bulletLine (''Cannot find module '' @ [CHR 0x27] @ fst e @ [CHR 0x27] @ '' in '' @
                 [CHR 0x27] @ snd e @ [CHR 0x27])"

definition logRequireNotCalled ::
  "(string \<Rightarrow> string) \<Rightarrow> modules_allowlists \<Rightarrow> ModulesMigrationReport \<Rightarrow> string list" where
  "logRequireNotCalled relative allow report =
     logSection ''Require not called:''
       (map bulletLine (shownRequireNotCalled relative allow report))"

definition logRequireOtherThanString ::
  "(string \<Rightarrow> string) \<Rightarrow> modules_allowlists \<Rightarrow> ModulesMigrationReport \<Rightarrow> string list" where
  "logRequireOtherThanString relative allow report =
     logSection ''Required something other than a string:''
       (map bulletLine (shownRequireOtherThanString relative allow report))"

definition logCannotFindModule ::
  "(string \<Rightarrow> string) \<Rightarrow> modules_allowlists \<Rightarrow> ModulesMigrationReport \<Rightarrow> string list" where
  "logCannotFindModule relative allow report =
     logSection ''Required something other than a string:''
       (map cannotFindModuleLine (shownCannotFindModule relative allow report))"

definition logModuleNotExportAssignment ::
  "(string \<Rightarrow> string) \<Rightarrow> modules_allowlists \<Rightarrow> ModulesMigrationReport \<Rightarrow> string list" where
  "logModuleNotExportAssignment relative allow report =
     logSection ''Module reference is not an exports assignment:''
       (map bulletLine (shownModuleNotExportAssignment relative allow report))"

definition logUnableToLoadExternalModule ::
  "(string \<Rightarrow> string) \<Rightarrow> ModulesMigrationReport \<Rightarrow> string list" where
  "logUnableToLoadExternalModule relative report =
     logSection ''Unable to load external module:''
       (map (\<lambda>modulePath. bulletLine (relative modulePath)) (unableToLoadExternalModule report))"

definition modules_logReport ::
  "(string \<Rightarrow> string) \<Rightarrow> modules_allowlists \<Rightarrow> ModulesMigrationReport \<Rightarrow> string list" where
  "modules_logReport relative allow report =
     logSkippedLargeFiles relative report @
     logRequireNotCalled relative allow report @
     logRequireOtherThanString relative allow report @
     logCannotFindModule relative allow report @
     logModuleNotExportAssignment relative allow report @
     logUnableToLoadExternalModule relative report"

text \<open>
  What a number printed in a template string has to be, said without the printing: \<open>s\<close>
  is the decimal numeral of \<open>n\<close> when it is a non-empty string of the digits \<open>0\<close> to \<open>9\<close>
  (the characters 48 to 57), starts with \<open>0\<close> only when it is \<open>0\<close>, and has the value \<open>n\<close>
  read in base ten.
\<close>

definition decimalNumeral :: "nat \<Rightarrow> string \<Rightarrow> bool" where
  "decimalNumeral n s \<longleftrightarrow>
     s \<noteq> [] \<and>
     list_all (\<lambda>c. 48 \<le> (of_char c :: nat) \<and> (of_char c :: nat) \<le> 57) s \<and>
     (hd s = CHR ''0'') = (s = ''0'') \<and>
     foldl (\<lambda>v c. 10 * v + (of_char c - 48)) 0 s = n"


section \<open>Syntax trees\<close>

subsection \<open>Errors\<close>

text \<open>
  Every \<open>throw new Error(...)\<close> of the migration, the parser's syntax error and a failed
  run of the type oracle. The string is the node kind (or the message) the error names.
\<close>

datatype error =
    UnsupportedASTNode string
  | UnexpectedASTNode string
  | UnrecognizedASTNode string
  | UnexpectedTypeofTypeParameters
  | UnsupportedPropertyKind string
  | UnexpectedProto
  | UnexpectedStatic
  | SyntaxError string
  | ExecError string

definition bindE :: "'e + 'a \<Rightarrow> ('a \<Rightarrow> 'e + 'b) \<Rightarrow> 'e + 'b" where
  "bindE m f = (case m of Inl e \<Rightarrow> Inl e | Inr x \<Rightarrow> f x)"

text \<open>
  \<open>xs.map(f)\<close> where \<open>f\<close> may throw: the elements are visited in order and the first
  throw ends the loop. \<open>mapEi\<close> also passes the index.
\<close>

fun mapE :: "('a \<Rightarrow> 'e + 'b) \<Rightarrow> 'a list \<Rightarrow> 'e + 'b list" where
  "mapE f [] = Inr []"
| "mapE f (x # xs) = bindE (f x) (\<lambda>y. bindE (mapE f xs) (\<lambda>ys. Inr (y # ys)))"

fun mapEi :: "(nat \<Rightarrow> 'a \<Rightarrow> 'e + 'b) \<Rightarrow> nat \<Rightarrow> 'a list \<Rightarrow> 'e + 'b list" where
  "mapEi f i [] = Inr []"
| "mapEi f i (x # xs) = bindE (f i x) (\<lambda>y. bindE (mapEi f (Suc i) xs) (\<lambda>ys. Inr (y # ys)))"

lemma bindE_cong [fundef_cong]:
  "m = m' \<Longrightarrow> (\<And>x. m' = Inr x \<Longrightarrow> f x = g x) \<Longrightarrow> bindE m f = bindE m' g"
  by (auto simp: bindE_def split: sum.splits)

lemma mapE_cong [fundef_cong]:
  "xs = ys \<Longrightarrow> (\<And>x. x \<in> set ys \<Longrightarrow> f x = g x) \<Longrightarrow> mapE f xs = mapE g ys"
  by (induction ys arbitrary: xs) (auto cong: bindE_cong)

lemma mapEi_cong [fundef_cong]:
  "xs = ys \<Longrightarrow> i = j \<Longrightarrow> (\<And>k x. x \<in> set ys \<Longrightarrow> f k x = g k x) \<Longrightarrow> mapEi f i xs = mapEi g j ys"
  by (induction ys arbitrary: xs i j) (auto cong: bindE_cong)

subsection \<open>Flow types\<close>

text \<open>
  The nodes of \<open>t.FlowType\<close> that \<open>actuallyMigrateType\<close> switches on, with the fields the
  migration reads. Source positions and comments are copied from the old node to the new
  one and the reporter is told about variance marks and internal names; neither changes
  the tree that is returned, so locations are kept only where the code computes with
  them (the start line of an object type's member, which orders the members). Numeric
  literal values are compared and copied only; they are integers here. A node of a kind
  outside the union reaches the \<open>default\<close> branch: \<open>OtherTypeAnnotation\<close> with its kind.
\<close>

datatype variance = Plus | Minus

datatype qualifiedId = Id string | QualifiedTypeIdentifier qualifiedId string

datatype propKey = KeyIdentifier string | KeyStringLiteral string

datatype flowType =
    AnyTypeAnnotation
  | ArrayTypeAnnotation flowType
  | BooleanTypeAnnotation
  | BooleanLiteralTypeAnnotation bool
  | NullLiteralTypeAnnotation
  | ExistsTypeAnnotation
  | FunctionTypeAnnotation "typeParameter list option" "functionTypeParam list"
      "functionTypeParam option" flowType
  | GenericTypeAnnotation qualifiedId "flowType list option"
  | InterfaceTypeAnnotation flowType
  | IntersectionTypeAnnotation "flowType list"
  | MixedTypeAnnotation
  | EmptyTypeAnnotation
  | NullableTypeAnnotation flowType
  | NumberLiteralTypeAnnotation int
  | NumberTypeAnnotation
  | ObjectTypeAnnotation "objectMember list" "objectMember list" "objectMember list"
      "objectMember list"
  | StringLiteralTypeAnnotation string
  | StringTypeAnnotation
  | ThisTypeAnnotation
  | TupleTypeAnnotation "flowType list"
  | TypeofTypeAnnotation flowType
  | UnionTypeAnnotation "flowType list"
  | VoidTypeAnnotation
  | OtherTypeAnnotation string
and functionTypeParam =
    FunctionTypeParam "string option" "bool option" flowType
and typeParameter =
    TypeParameter string "variance option" "flowType option" "flowType option"
and objectMember =
    ObjectTypeProperty nat propKey flowType bool "variance option" string bool bool bool
  | ObjectTypeSpreadProperty nat flowType
  | ObjectTypeIndexer nat "string option" flowType flowType "variance option" bool
  | ObjectTypeCallProperty nat flowType bool
  | ObjectTypeInternalSlot nat string flowType bool bool bool

text \<open>
  Fields, in order. \<open>FunctionTypeAnnotation\<close>: typeParameters, params, rest, returnType.
  \<open>GenericTypeAnnotation\<close>: id, typeParameters (the \<open>params\<close> of the instantiation).
  \<open>InterfaceTypeAnnotation\<close>: body. \<open>ObjectTypeAnnotation\<close>: properties, indexers,
  callProperties, internalSlots (an absent array is the empty one, as
  \<open>flowType.indexers || []\<close> reads it; exact and inexact are ignored by the code).
  \<open>FunctionTypeParam\<close>: name, optional, typeAnnotation. \<open>TypeParameter\<close>: name, variance,
  bound, default. \<open>ObjectTypeProperty\<close>: start line, key, value, optional, variance, kind,
  proto, static, method. \<open>ObjectTypeSpreadProperty\<close>: start line, argument.
  \<open>ObjectTypeIndexer\<close>: start line, id, key, value, variance, static.
  \<open>ObjectTypeCallProperty\<close>: start line, value, static. \<open>ObjectTypeInternalSlot\<close>: start
  line, id, value, optional, static, method.
\<close>

fun memberLine :: "objectMember \<Rightarrow> nat" where
  "memberLine (ObjectTypeProperty l _ _ _ _ _ _ _ _) = l"
| "memberLine (ObjectTypeSpreadProperty l _) = l"
| "memberLine (ObjectTypeIndexer l _ _ _ _ _) = l"
| "memberLine (ObjectTypeCallProperty l _ _) = l"
| "memberLine (ObjectTypeInternalSlot l _ _ _ _ _) = l"

subsection \<open>TypeScript types\<close>

datatype tsEntityName = TSIdentifier string | TSQualifiedName tsEntityName string

datatype tsLiteral = LitBoolean bool | LitNumeric int | LitString string

datatype tsType =
    TSAnyKeyword
  | TSBooleanKeyword
  | TSNullKeyword
  | TSUndefinedKeyword
  | TSUnknownKeyword
  | TSNeverKeyword
  | TSNumberKeyword
  | TSStringKeyword
  | TSVoidKeyword
  | TSThisType
  | TSArrayType tsType
  | TSLiteralType tsLiteral
  | TSTypeReference tsEntityName "tsType list option"
  | TSFunctionType "tsTypeParameter list option" "tsParam list" tsType
  | TSTypeOperator string tsType
  | TSIndexedAccessType tsType tsType
  | TSIntersectionType "tsType list"
  | TSUnionType "tsType list"
  | TSParenthesizedType tsType
  | TSTypeLiteral "tsTypeElement list"
  | TSTupleType "tsType list"
  | TSTypeQuery tsEntityName
and tsParam =
    TSParam string "bool option" tsType
  | TSRestElement string tsType
and tsTypeParameter =
    TSTypeParameter string "tsType option" "tsType option"
and tsTypeElement =
    TSPropertySignature propKey tsType bool bool "bool option"
  | TSMethodSignature propKey "tsTypeParameter list option" "tsParam list" tsType bool bool
  | TSIndexSignature "tsParam list" tsType "bool option"

text \<open>
  Fields, in order. \<open>TSTypeReference\<close>: typeName, typeParameters. \<open>TSFunctionType\<close>:
  typeParameters, parameters, return type. \<open>TSTypeOperator\<close>: operator, typeAnnotation.
  \<open>TSParam\<close> is an identifier built by \<open>tsIdentifier\<close>: name, optional (set only when
  the argument is not null), type annotation. \<open>TSRestElement\<close>: argument name, type
  annotation. \<open>TSTypeParameter\<close>: name, constraint, default. \<open>TSPropertySignature\<close>: key,
  type annotation, computed, optional, readonly. \<open>TSMethodSignature\<close>: key,
  typeParameters, parameters, return type, computed, optional. \<open>TSIndexSignature\<close>:
  parameters, type annotation, readonly.
\<close>

text \<open>The \<open>type\<close> tag of a TypeScript type node.\<close>

fun tsKind :: "tsType \<Rightarrow> string" where
  "tsKind TSAnyKeyword = ''TSAnyKeyword''"
| "tsKind TSBooleanKeyword = ''TSBooleanKeyword''"
| "tsKind TSNullKeyword = ''TSNullKeyword''"
| "tsKind TSUndefinedKeyword = ''TSUndefinedKeyword''"
| "tsKind TSUnknownKeyword = ''TSUnknownKeyword''"
| "tsKind TSNeverKeyword = ''TSNeverKeyword''"
| "tsKind TSNumberKeyword = ''TSNumberKeyword''"
| "tsKind TSStringKeyword = ''TSStringKeyword''"
| "tsKind TSVoidKeyword = ''TSVoidKeyword''"
| "tsKind TSThisType = ''TSThisType''"
| "tsKind (TSArrayType _) = ''TSArrayType''"
| "tsKind (TSLiteralType _) = ''TSLiteralType''"
| "tsKind (TSTypeReference _ _) = ''TSTypeReference''"
| "tsKind (TSFunctionType _ _ _) = ''TSFunctionType''"
| "tsKind (TSTypeOperator _ _) = ''TSTypeOperator''"
| "tsKind (TSIndexedAccessType _ _) = ''TSIndexedAccessType''"
| "tsKind (TSIntersectionType _) = ''TSIntersectionType''"
| "tsKind (TSUnionType _) = ''TSUnionType''"
| "tsKind (TSParenthesizedType _) = ''TSParenthesizedType''"
| "tsKind (TSTypeLiteral _) = ''TSTypeLiteral''"
| "tsKind (TSTupleType _) = ''TSTupleType''"
| "tsKind (TSTypeQuery _) = ''TSTypeQuery''"

section \<open>Migrating types\<close>

fun migrateQualifiedIdentifier :: "qualifiedId \<Rightarrow> tsEntityName" where
  "migrateQualifiedIdentifier (Id name) = TSIdentifier name"
| "migrateQualifiedIdentifier (QualifiedTypeIdentifier qualification name) =
     TSQualifiedName (migrateQualifiedIdentifier qualification) name"

definition tsIdentifier :: "string \<Rightarrow> bool option \<Rightarrow> tsType \<Rightarrow> tsParam" where
  "tsIdentifier name optional typeAnnotation = TSParam name optional typeAnnotation"

text \<open>
  The tail of the \<open>GenericTypeAnnotation\<close> case: the chain of special names, tried in
  the order of the source, on the migrated identifier and the migrated type arguments
  (\<open>None\<close> when there are none or the list is empty).
\<close>

definition isFlowAnyExistential :: "tsType \<Rightarrow> bool" where
  "isFlowAnyExistential ty =
     (case ty of TSTypeReference (TSIdentifier n) _ \<Rightarrow> n = ''FlowAnyExistential'' | _ \<Rightarrow> False)"

definition migrateGeneric :: "tsEntityName \<Rightarrow> tsType list option \<Rightarrow> tsType" where
  "migrateGeneric ident params =
     (if ident = TSIdentifier ''Object'' \<and> params = None
        then TSTypeReference (TSIdentifier ''FlowAnyObject'') None
      else if ident = TSIdentifier ''Function'' \<and> params = None
        then TSTypeReference (TSIdentifier ''FlowAnyFunction'') None
      else if ident = TSIdentifier ''$ReadOnlyArray'' \<and> map_option length params = Some 1
        then TSTypeReference (TSIdentifier ''ReadonlyArray'') params
      else if ident = TSIdentifier ''$ReadOnly'' \<and> map_option length params = Some 1
        then TSTypeReference (TSIdentifier ''Readonly'') params
      else if ident = TSIdentifier ''$Keys'' \<and> map_option length params = Some 1
        then TSTypeOperator ''keyof'' (the params ! 0)
      else if ident = TSIdentifier ''$Values'' \<and> map_option length params = Some 1
        then TSTypeReference (TSQualifiedName (TSIdentifier ''h'') ''ObjectValues'') params
      else if ident = TSIdentifier ''$Shape'' \<and> map_option length params = Some 1
        then TSTypeReference (TSIdentifier ''Partial'') params
      else if ident = TSIdentifier ''$Subtype'' \<and> map_option length params = Some 1
        then TSTypeReference (TSIdentifier ''FlowAnySubtype'') params
      else if ident = TSIdentifier ''$PropertyType'' \<and> map_option length params = Some 2
        then TSIndexedAccessType (the params ! 0) (the params ! 1)
      else if ident = TSIdentifier ''$ElementType'' \<and> map_option length params = Some 2
        then TSIndexedAccessType (the params ! 0) (the params ! 1)
      else if ident = TSQualifiedName (TSIdentifier ''React'') ''Node'' \<and> params = None
        then TSTypeReference (TSQualifiedName (TSIdentifier ''React'') ''ReactNode'') None
      else if ident = TSQualifiedName (TSIdentifier ''React'') ''Element'' \<and>
              map_option length params = Some 1
        then (if the params ! 0 = TSAnyKeyword \<or> isFlowAnyExistential (the params ! 0)
              then TSTypeReference (TSQualifiedName (TSIdentifier ''React'') ''ReactElement'') params
              else TSTypeReference (TSQualifiedName (TSIdentifier ''React'') ''ReactElement'')
                     (Some [TSTypeReference
                              (TSQualifiedName (TSIdentifier ''React'') ''ComponentProps'') params]))
      else TSTypeReference ident params)"

text \<open>
  Function types are wrapped in parentheses inside unions and intersections.
\<close>

definition parenthesizeFunction :: "tsType \<Rightarrow> tsType" where
  "parenthesizeFunction tsMemberType =
     (case tsMemberType of TSFunctionType _ _ _ \<Rightarrow> TSParenthesizedType tsMemberType
      | _ \<Rightarrow> tsMemberType)"

text \<open>
  The callback of the union's \<open>map\<close>, after the member is migrated: it keeps
  \<open>anyMemberIndex\<close> (initially \<open>null\<close>) and returns the member, wrapped when it is a
  function type. The members have all been migrated when the loop runs: a member that
  throws ends the whole migration and the local index with it.
\<close>

fun unionMembers :: "nat option \<Rightarrow> nat \<Rightarrow> tsType list \<Rightarrow> nat option \<times> tsType list" where
  "unionMembers anyMemberIndex i [] = (anyMemberIndex, [])"
| "unionMembers anyMemberIndex i (tsMemberType # rest) =
     (let anyMemberIndex' =
            (if anyMemberIndex \<noteq> None \<and> tsMemberType = TSAnyKeyword then Some i
             else anyMemberIndex);
          (final, types) = unionMembers anyMemberIndex' (Suc i) rest
      in (final, parenthesizeFunction tsMemberType # types))"

definition finishUnion :: "tsType list \<Rightarrow> tsType" where
  "finishUnion tsMembers =
     (let (anyMemberIndex, types) = unionMembers None 0 tsMembers
      in case anyMemberIndex of Some i \<Rightarrow> types ! i | None \<Rightarrow> TSUnionType types)"

text \<open>
  The object type's loop over its members, sorted by start line: a spread becomes a
  parenthesized reference, any other member joins the last literal of
  \<open>intersectionTypes\<close> or opens a new one.
\<close>

datatype intersectionEntry = LiteralEntry "tsTypeElement list" | ReferenceEntry tsType

datatype migratedMember = SpreadMember tsType | ElementMember tsTypeElement

fun pushMember :: "intersectionEntry list \<Rightarrow> migratedMember \<Rightarrow> intersectionEntry list" where
  "pushMember intersectionTypes (SpreadMember tsArgument) =
     intersectionTypes @ [ReferenceEntry tsArgument]"
| "pushMember intersectionTypes (ElementMember tsMember) =
     (if intersectionTypes = [] then [LiteralEntry [tsMember]]
      else case last intersectionTypes of
             LiteralEntry members \<Rightarrow> butlast intersectionTypes @ [LiteralEntry (members @ [tsMember])]
           | ReferenceEntry _ \<Rightarrow> intersectionTypes @ [LiteralEntry [tsMember]])"

text \<open>
  The \<open>map\<close> over \<open>intersectionTypes\<close>: a literal whose only member is an index
  signature keyed by something other than \<open>string\<close> or \<open>number\<close> becomes
  \<open>h.ObjectMap<K, V>\<close>. \<open>onlyIndexSignature\<close> is the test
  \<open>members.length === 1\<close> and \<open>onlyMember.type === 'TSIndexSignature'\<close>, with the type
  annotations of \<open>parameters[0]\<close> and of the signature.
\<close>

fun onlyIndexSignature :: "tsTypeElement list \<Rightarrow> (tsType \<times> tsType) option" where
  "onlyIndexSignature [TSIndexSignature (TSParam _ _ indexType # _) valueType _] =
     Some (indexType, valueType)"
| "onlyIndexSignature _ = None"

fun entryType :: "intersectionEntry \<Rightarrow> tsType" where
  "entryType (ReferenceEntry ty) = ty"
| "entryType (LiteralEntry members) =
     (case onlyIndexSignature members of
        Some (indexType, valueType) \<Rightarrow>
          (if indexType \<noteq> TSStringKeyword \<and> indexType \<noteq> TSNumberKeyword
           then TSTypeReference (TSQualifiedName (TSIdentifier ''h'') ''ObjectMap'')
                  (Some [indexType, valueType])
           else TSTypeLiteral members)
      | None \<Rightarrow> TSTypeLiteral members)"

definition finishObject :: "migratedMember list \<Rightarrow> tsType" where
  "finishObject migrated =
     (let intersectionTypes = fold (\<lambda>m acc. pushMember acc m) migrated []
      in if length intersectionTypes = 0 then TSTypeLiteral []
         else let types = map entryType intersectionTypes
              in if length types = 1 then types ! 0 else TSIntersectionType types)"

text \<open>
  \<open>migrateType\<close> (which is \<open>actuallyMigrateType\<close> followed by the copy of location and
  comments), \<open>migrateTypeParameterDeclaration\<close> (its callback is
  \<open>migrateTypeParameter\<close>), the callback of the function type's parameters
  (\<open>migrateFunctionParam\<close>) and what is done with its rest parameter
  (\<open>migrateFunctionRest\<close>), \<open>migrateObjectMember\<close>, and the body of the object type's
  loop (\<open>migrateFlowMember\<close>).
\<close>

fun migrateType :: "flowType \<Rightarrow> error + tsType"
  and migrateTypeParameter :: "typeParameter \<Rightarrow> error + tsTypeParameter"
  and migrateFunctionParam :: "nat \<Rightarrow> functionTypeParam \<Rightarrow> error + tsParam"
  and migrateFunctionRest :: "functionTypeParam \<Rightarrow> error + tsParam"
  and migrateObjectMember :: "objectMember \<Rightarrow> error + tsTypeElement"
  and migrateFlowMember :: "objectMember \<Rightarrow> error + migratedMember"
where
  "migrateType AnyTypeAnnotation = Inr TSAnyKeyword"
| "migrateType (ArrayTypeAnnotation elementType) =
     bindE (migrateType elementType) (\<lambda>ty. Inr (TSArrayType ty))"
| "migrateType BooleanTypeAnnotation = Inr TSBooleanKeyword"
| "migrateType (BooleanLiteralTypeAnnotation b) = Inr (TSLiteralType (LitBoolean b))"
| "migrateType NullLiteralTypeAnnotation = Inr TSNullKeyword"
| "migrateType ExistsTypeAnnotation = Inr (TSTypeReference (TSIdentifier ''FlowAnyExistential'') None)"
| "migrateType (FunctionTypeAnnotation typeParameters params rest returnType) =
     bindE (case typeParameters of None \<Rightarrow> Inr None
            | Some tps \<Rightarrow> bindE (mapE migrateTypeParameter tps) (\<lambda>r. Inr (Some r)))
     (\<lambda>typeParams.
     bindE (mapEi migrateFunctionParam 0 params)
     (\<lambda>tsParams.
     bindE (case rest of None \<Rightarrow> Inr []
            | Some flowRest \<Rightarrow> bindE (migrateFunctionRest flowRest) (\<lambda>r. Inr [r]))
     (\<lambda>tsRest.
     bindE (migrateType returnType)
     (\<lambda>tsReturn. Inr (TSFunctionType typeParams (tsParams @ tsRest) tsReturn)))))"
| "migrateType (GenericTypeAnnotation ident typeParameters) =
     bindE (case typeParameters of
              None \<Rightarrow> Inr None
            | Some ps \<Rightarrow> (if length ps > 0 then bindE (mapE migrateType ps) (\<lambda>r. Inr (Some r))
                          else Inr None))
       (\<lambda>params. Inr (migrateGeneric (migrateQualifiedIdentifier ident) params))"
| "migrateType (InterfaceTypeAnnotation body) = Inl (UnsupportedASTNode ''InterfaceTypeAnnotation'')"
| "migrateType (IntersectionTypeAnnotation types) =
     bindE (mapE migrateType types)
       (\<lambda>tsMembers. Inr (TSIntersectionType (map parenthesizeFunction tsMembers)))"
| "migrateType MixedTypeAnnotation = Inr TSUnknownKeyword"
| "migrateType EmptyTypeAnnotation = Inr TSNeverKeyword"
| "migrateType (NullableTypeAnnotation ty) =
     bindE (migrateType ty) (\<lambda>ts. Inr (TSUnionType [ts, TSNullKeyword, TSUndefinedKeyword]))"
| "migrateType (NumberLiteralTypeAnnotation n) = Inr (TSLiteralType (LitNumeric n))"
| "migrateType NumberTypeAnnotation = Inr TSNumberKeyword"
| "migrateType (ObjectTypeAnnotation properties indexers callProperties internalSlots) =
     bindE (mapE migrateFlowMember
              (sort_key memberLine (properties @ indexers @ callProperties @ internalSlots)))
       (\<lambda>migrated. Inr (finishObject migrated))"
| "migrateType (StringLiteralTypeAnnotation s) = Inr (TSLiteralType (LitString s))"
| "migrateType StringTypeAnnotation = Inr TSStringKeyword"
| "migrateType ThisTypeAnnotation = Inr TSThisType"
| "migrateType (TupleTypeAnnotation types) =
     bindE (mapE migrateType types) (\<lambda>tsTypes. Inr (TSTupleType tsTypes))"
| "migrateType (TypeofTypeAnnotation argument) =
     bindE (migrateType argument)
       (\<lambda>tsType. case tsType of
            TSTypeReference typeName typeParameters \<Rightarrow>
              (if typeParameters \<noteq> None then Inl UnexpectedTypeofTypeParameters
               else Inr (TSTypeQuery typeName))
          | _ \<Rightarrow> Inl (UnexpectedASTNode (tsKind tsType)))"
| "migrateType (UnionTypeAnnotation types) =
     bindE (mapE migrateType types) (\<lambda>tsMembers. Inr (finishUnion tsMembers))"
| "migrateType VoidTypeAnnotation = Inr TSVoidKeyword"
| "migrateType (OtherTypeAnnotation kind) = Inl (UnexpectedASTNode kind)"
| "migrateTypeParameter (TypeParameter name variance bound dflt) =
     bindE (case bound of None \<Rightarrow> Inr None
            | Some b \<Rightarrow> bindE (migrateType b) (\<lambda>ty. Inr (Some ty)))
     (\<lambda>tsBound.
     bindE (case dflt of None \<Rightarrow> Inr None
            | Some d \<Rightarrow> bindE (migrateType d) (\<lambda>ty. Inr (Some ty)))
     (\<lambda>tsDefault. Inr (TSTypeParameter name tsBound tsDefault)))"
| "migrateFunctionParam i (FunctionTypeParam name optional typeAnnotation) =
     bindE (migrateType typeAnnotation)
       (\<lambda>ty. Inr (tsIdentifier (case name of Some n \<Rightarrow> n | None \<Rightarrow> ''arg'' @ showNat (i + 1))
                     optional ty))"
| "migrateFunctionRest (FunctionTypeParam name optional typeAnnotation) =
     bindE (migrateType typeAnnotation)
       (\<lambda>ty. Inr (TSRestElement (case name of Some n \<Rightarrow> n | None \<Rightarrow> ''rest'') ty))"
| "migrateObjectMember (ObjectTypeProperty l key val optional variance kind proto static method) =
     (if \<not> (kind \<noteq> [] \<or> kind = ''init'') then Inl (UnsupportedPropertyKind kind)
      else if proto then Inl UnexpectedProto
      else if static then Inl UnexpectedStatic
      else bindE (migrateType val)
        (\<lambda>tsValue.
           if \<not> method then
             Inr (TSPropertySignature key tsValue
                    (case key of KeyIdentifier _ \<Rightarrow> False | KeyStringLiteral _ \<Rightarrow> True)
                    optional
                    (case variance of Some v \<Rightarrow> Some (v = Plus) | None \<Rightarrow> None))
           else (case tsValue of
                   TSFunctionType typeParameters parameters typeAnnotation \<Rightarrow>
                     Inr (TSMethodSignature key typeParameters parameters typeAnnotation
                            (case key of KeyIdentifier _ \<Rightarrow> False | KeyStringLiteral _ \<Rightarrow> True)
                            optional)
                 | _ \<Rightarrow> Inl (UnexpectedASTNode (tsKind tsValue)))))"
| "migrateObjectMember (ObjectTypeIndexer l ident key val variance static) =
     (if static then Inl UnexpectedStatic
      else bindE (migrateType key)
        (\<lambda>tsKey. bindE (migrateType val)
        (\<lambda>tsValue.
           Inr (TSIndexSignature
                  [tsIdentifier (case ident of Some n \<Rightarrow> n | None \<Rightarrow> ''key'') None tsKey]
                  tsValue
                  (case variance of Some v \<Rightarrow> Some (v = Plus) | None \<Rightarrow> None)))))"
| "migrateObjectMember (ObjectTypeCallProperty l val static) =
     Inl (UnsupportedASTNode ''ObjectTypeCallProperty'')"
| "migrateObjectMember (ObjectTypeInternalSlot l ident val optional static method) =
     Inl (UnsupportedASTNode ''ObjectTypeInternalSlot'')"
| "migrateObjectMember (ObjectTypeSpreadProperty l argument) =
     Inl (UnrecognizedASTNode ''ObjectTypeSpreadProperty'')"
| "migrateFlowMember (ObjectTypeSpreadProperty l argument) =
     bindE (migrateType argument) (\<lambda>ty. Inr (SpreadMember (TSParenthesizedType ty)))"
| "migrateFlowMember (ObjectTypeProperty l key val optional variance kind proto static method) =
     bindE (migrateObjectMember
              (ObjectTypeProperty l key val optional variance kind proto static method))
       (\<lambda>m. Inr (ElementMember m))"
| "migrateFlowMember (ObjectTypeIndexer l ident key val variance static) =
     bindE (migrateObjectMember (ObjectTypeIndexer l ident key val variance static))
       (\<lambda>m. Inr (ElementMember m))"
| "migrateFlowMember (ObjectTypeCallProperty l val static) =
     bindE (migrateObjectMember (ObjectTypeCallProperty l val static))
       (\<lambda>m. Inr (ElementMember m))"
| "migrateFlowMember (ObjectTypeInternalSlot l ident val optional static method) =
     bindE (migrateObjectMember (ObjectTypeInternalSlot l ident val optional static method))
       (\<lambda>m. Inr (ElementMember m))"

section \<open>The type oracle: reading an answer\<close>

text \<open>
  A JavaScript string is the list of its code units; \<open>length\<close> counts them.
  \<open>s.split(sep)\<close> for a one-character separator always has a first element.
\<close>

fun splitOn :: "char \<Rightarrow> string \<Rightarrow> string list" where
  "splitOn sep [] = [[]]"
| "splitOn sep (c # cs) =
     (if c = sep then [] # splitOn sep cs
      else case splitOn sep cs of w # ws \<Rightarrow> (c # w) # ws | [] \<Rightarrow> [[c]])"

definition split_limit :: "char \<Rightarrow> nat \<Rightarrow> string \<Rightarrow> string list" where
  "split_limit sep limit s = take limit (splitOn sep s)"

text \<open>
  \<open>s.replace(/ \((implicit|explicit)\)$/, '')\<close>: the regular expression is tried at
  every position from the left; anchored by \<open>$\<close> (without the multiline flag) it matches
  at a position when the rest of the string is one of the two qualifiers, and the match
  is replaced by the empty string.
\<close>

fun replaceQualifier :: "string \<Rightarrow> string" where
  "replaceQualifier [] = []"
| "replaceQualifier (c # cs) =
     (if c # cs = '' (implicit)'' \<or> c # cs = '' (explicit)'' then []
      else c # replaceQualifier cs)"

text \<open>
  \<open>processFlowTypeAtPosStdout\<close>. The parser is Babel's; \<open>parse\<close> stands for
  \<open>parse(src, {plugins: ['flow']}).program.body[0].right\<close>, which throws a syntax error
  on text that is no type alias.
\<close>

definition processFlowTypeAtPosStdout ::
  "(string \<Rightarrow> error + flowType) \<Rightarrow> string \<Rightarrow> error + flowType option" where
  "processFlowTypeAtPosStdout parse stdout =
     (let flowTypeString = replaceQualifier (hd (split_limit (CHR 0x0A) 2 stdout))
      in if flowTypeString = ''(unknown)'' then Inr None
         else if length flowTypeString \<ge> 100 then Inr None
         else bindE (parse (''type T = '' @ flowTypeString)) (\<lambda>flowType. Inr (Some flowType)))"

section \<open>What the migration covers\<close>

text \<open>
  The target kinds enumerated for each origin kind: the kinds of node the matching case
  of \<open>actuallyMigrateType\<close> can return. The two kinds with an empty list are never
  migrated: the case throws.
\<close>

fun targetKinds :: "flowType \<Rightarrow> string list" where
  "targetKinds AnyTypeAnnotation = [''TSAnyKeyword'']"
| "targetKinds (ArrayTypeAnnotation _) = [''TSArrayType'']"
| "targetKinds BooleanTypeAnnotation = [''TSBooleanKeyword'']"
| "targetKinds (BooleanLiteralTypeAnnotation _) = [''TSLiteralType'']"
| "targetKinds NullLiteralTypeAnnotation = [''TSNullKeyword'']"
| "targetKinds ExistsTypeAnnotation = [''TSTypeReference'']"
| "targetKinds (FunctionTypeAnnotation _ _ _ _) = [''TSFunctionType'']"
| "targetKinds (GenericTypeAnnotation _ _) =
     [''TSTypeReference'', ''TSTypeOperator'', ''TSIndexedAccessType'']"
| "targetKinds (InterfaceTypeAnnotation _) = []"
| "targetKinds (IntersectionTypeAnnotation _) = [''TSIntersectionType'']"
| "targetKinds MixedTypeAnnotation = [''TSUnknownKeyword'']"
| "targetKinds EmptyTypeAnnotation = [''TSNeverKeyword'']"
| "targetKinds (NullableTypeAnnotation _) = [''TSUnionType'']"
| "targetKinds (NumberLiteralTypeAnnotation _) = [''TSLiteralType'']"
| "targetKinds NumberTypeAnnotation = [''TSNumberKeyword'']"
| "targetKinds (ObjectTypeAnnotation _ _ _ _) =
     [''TSTypeLiteral'', ''TSTypeReference'', ''TSParenthesizedType'', ''TSIntersectionType'']"
| "targetKinds (StringLiteralTypeAnnotation _) = [''TSLiteralType'']"
| "targetKinds StringTypeAnnotation = [''TSStringKeyword'']"
| "targetKinds ThisTypeAnnotation = [''TSThisType'']"
| "targetKinds (TupleTypeAnnotation _) = [''TSTupleType'']"
| "targetKinds (TypeofTypeAnnotation _) = [''TSTypeQuery'']"
| "targetKinds (UnionTypeAnnotation _) = [''TSUnionType'']"
| "targetKinds VoidTypeAnnotation = [''TSVoidKeyword'']"
| "targetKinds (OtherTypeAnnotation _) = []"

text \<open>
  The errors the migration of a type throws, as opposed to the parser's and the
  oracle's.
\<close>

fun unsupportedConstructError :: "error \<Rightarrow> bool" where
  "unsupportedConstructError (SyntaxError _) = False"
| "unsupportedConstructError (ExecError _) = False"
| "unsupportedConstructError _ = True"

text \<open>
  The trees without an unsupported construct. Unsupported are: an interface type, a kind
  outside the union, a call property, an internal slot, a property with an empty kind or
  marked proto or static, a static indexer, a method whose value is not a function type,
  and a \<open>typeof\<close> whose argument is not a plain name (an existential or a generic type
  without type arguments).
\<close>

fun isFunctionTypeAnnotation :: "flowType \<Rightarrow> bool" where
  "isFunctionTypeAnnotation (FunctionTypeAnnotation _ _ _ _) = True"
| "isFunctionTypeAnnotation _ = False"

fun isPlainName :: "flowType \<Rightarrow> bool" where
  "isPlainName ExistsTypeAnnotation = True"
| "isPlainName (GenericTypeAnnotation _ typeParameters) =
     (typeParameters = None \<or> typeParameters = Some [])"
| "isPlainName _ = False"

fun supportedType :: "flowType \<Rightarrow> bool"
  and supportedParam :: "functionTypeParam \<Rightarrow> bool"
  and supportedTypeParameter :: "typeParameter \<Rightarrow> bool"
  and supportedMember :: "objectMember \<Rightarrow> bool"
where
  "supportedType AnyTypeAnnotation = True"
| "supportedType (ArrayTypeAnnotation elementType) = supportedType elementType"
| "supportedType BooleanTypeAnnotation = True"
| "supportedType (BooleanLiteralTypeAnnotation _) = True"
| "supportedType NullLiteralTypeAnnotation = True"
| "supportedType ExistsTypeAnnotation = True"
| "supportedType (FunctionTypeAnnotation typeParameters params rest returnType) =
     ((case typeParameters of None \<Rightarrow> True | Some tps \<Rightarrow> list_all supportedTypeParameter tps) \<and>
      list_all supportedParam params \<and>
      (case rest of None \<Rightarrow> True | Some r \<Rightarrow> supportedParam r) \<and>
      supportedType returnType)"
| "supportedType (GenericTypeAnnotation _ typeParameters) =
     (case typeParameters of None \<Rightarrow> True | Some ps \<Rightarrow> list_all supportedType ps)"
| "supportedType (InterfaceTypeAnnotation _) = False"
| "supportedType (IntersectionTypeAnnotation types) = list_all supportedType types"
| "supportedType MixedTypeAnnotation = True"
| "supportedType EmptyTypeAnnotation = True"
| "supportedType (NullableTypeAnnotation ty) = supportedType ty"
| "supportedType (NumberLiteralTypeAnnotation _) = True"
| "supportedType NumberTypeAnnotation = True"
| "supportedType (ObjectTypeAnnotation properties indexers callProperties internalSlots) =
     list_all supportedMember (properties @ indexers @ callProperties @ internalSlots)"
| "supportedType (StringLiteralTypeAnnotation _) = True"
| "supportedType StringTypeAnnotation = True"
| "supportedType ThisTypeAnnotation = True"
| "supportedType (TupleTypeAnnotation types) = list_all supportedType types"
| "supportedType (TypeofTypeAnnotation argument) = (supportedType argument \<and> isPlainName argument)"
| "supportedType (UnionTypeAnnotation types) = list_all supportedType types"
| "supportedType VoidTypeAnnotation = True"
| "supportedType (OtherTypeAnnotation _) = False"
| "supportedParam (FunctionTypeParam _ _ typeAnnotation) = supportedType typeAnnotation"
| "supportedTypeParameter (TypeParameter _ _ bound dflt) =
     ((case bound of None \<Rightarrow> True | Some b \<Rightarrow> supportedType b) \<and>
      (case dflt of None \<Rightarrow> True | Some d \<Rightarrow> supportedType d))"
| "supportedMember (ObjectTypeProperty _ _ val _ _ kind proto static method) =
     (kind \<noteq> [] \<and> \<not> proto \<and> \<not> static \<and> supportedType val \<and>
      (if method then isFunctionTypeAnnotation val else True))"
| "supportedMember (ObjectTypeSpreadProperty _ argument) = supportedType argument"
| "supportedMember (ObjectTypeIndexer _ _ key val _ static) =
     (\<not> static \<and> supportedType key \<and> supportedType val)"
| "supportedMember (ObjectTypeCallProperty _ _ _) = False"
| "supportedMember (ObjectTypeInternalSlot _ _ _ _ _ _) = False"

text \<open>
  Invariants of the object type's loop: every spread that was migrated, and so every
  reference entry of \<open>intersectionTypes\<close>, is a parenthesized type.
\<close>

fun parenthesizedSpread :: "migratedMember \<Rightarrow> bool" where
  "parenthesizedSpread (SpreadMember ty) = (tsKind ty = ''TSParenthesizedType'')"
| "parenthesizedSpread (ElementMember _) = True"

fun parenthesizedReference :: "intersectionEntry \<Rightarrow> bool" where
  "parenthesizedReference (ReferenceEntry ty) = (tsKind ty = ''TSParenthesizedType'')"
| "parenthesizedReference (LiteralEntry _) = True"

text \<open>
  A spread among the members of an object type: it closes the literal before it.
\<close>

fun isSpread :: "objectMember \<Rightarrow> bool" where
  "isSpread (ObjectTypeSpreadProperty _ _) = True"
| "isSpread _ = False"

section \<open>Expressions and the type cast visitor\<close>

text \<open>
  The expressions the cast visitor tells apart. The literals are the members of Babel's
  \<open>Literal\<close> alias, which \<open>t.isLiteral\<close> tests; a template literal is one whatever it
  interpolates. An element of an array expression is a hole (\<open>null\<close>), a spread or an
  expression. A property of an object expression is a method, a spread or a property
  with key, computed flag and value (\<open>None\<close> for a value that is no expression). Any
  other expression is \<open>OtherExpression\<close> with its kind and children. The last four
  constructors before it are what the visitor builds.
\<close>

datatype expr =
    Identifier string
  | StringLiteral string
  | NumericLiteral int
  | NullLiteral
  | BooleanLiteral bool
  | RegExpLiteral string string
  | TemplateLiteral "string list" "expr list"
  | BigIntLiteral string
  | ArrayExpression "arrayElement list"
  | ObjectExpression "objectProperty list"
  | TypeCastExpression expr flowType
  | CallExpression expr "expr list" "tsType list option"
  | MemberExpression expr expr
  | TSAsExpression expr tsType
  | ParenthesizedExpression expr
  | OtherExpression string "expr list"
and arrayElement =
    Hole
  | SpreadElement expr
  | Element expr
and objectProperty =
    ObjectMethod
  | SpreadProperty expr
  | ObjectProperty expr bool "expr option"

text \<open>
  \<open>isComplexLiteral\<close>: the loops over elements and properties return false at the
  first one that is no literal.
\<close>

fun isComplexLiteral :: "expr \<Rightarrow> bool"
  and isLiteralElement :: "arrayElement \<Rightarrow> bool"
  and isLiteralProperty :: "objectProperty \<Rightarrow> bool"
where
  "isComplexLiteral (StringLiteral _) = True"
| "isComplexLiteral (NumericLiteral _) = True"
| "isComplexLiteral NullLiteral = True"
| "isComplexLiteral (BooleanLiteral _) = True"
| "isComplexLiteral (RegExpLiteral _ _) = True"
| "isComplexLiteral (TemplateLiteral _ _) = True"
| "isComplexLiteral (BigIntLiteral _) = True"
| "isComplexLiteral (Identifier name) = (name = ''undefined'')"
| "isComplexLiteral (ArrayExpression elements) = list_all isLiteralElement elements"
| "isComplexLiteral (ObjectExpression properties) = list_all isLiteralProperty properties"
| "isComplexLiteral (TypeCastExpression _ _) = False"
| "isComplexLiteral (CallExpression _ _ _) = False"
| "isComplexLiteral (MemberExpression _ _) = False"
| "isComplexLiteral (TSAsExpression _ _) = False"
| "isComplexLiteral (ParenthesizedExpression _) = False"
| "isComplexLiteral (OtherExpression _ _) = False"
| "isLiteralElement Hole = True"
| "isLiteralElement (SpreadElement argument) = isComplexLiteral argument"
| "isLiteralElement (Element element) = isComplexLiteral element"
| "isLiteralProperty ObjectMethod = False"
| "isLiteralProperty (SpreadProperty _) = False"
| "isLiteralProperty (ObjectProperty key computed val) =
     (if computed \<and> \<not> isComplexLiteral key then False
      else case val of Some v \<Rightarrow> isComplexLiteral v | None \<Rightarrow> True)"

text \<open>
  A path is the node's ancestors, the parent first. \<open>isInsideCreateReactClass\<close> looks
  for a call whose callee is the identifier \<open>createReactClass\<close>; the cast itself is no
  call, so the search is over its ancestors.
\<close>

datatype pathNode = CallExpressionNode "string option" | NodeOfType string

fun isInsideCreateReactClass :: "pathNode list \<Rightarrow> bool" where
  "isInsideCreateReactClass [] = False"
| "isInsideCreateReactClass (node # parentPath) =
     (if node = CallExpressionNode (Some ''createReactClass'') then True
      else isInsideCreateReactClass parentPath)"

definition parentIsObjectProperty :: "pathNode list \<Rightarrow> bool" where
  "parentIsObjectProperty ancestors =
     (case ancestors of parent # _ \<Rightarrow> parent = NodeOfType ''ObjectProperty'' | [] \<Rightarrow> False)"

text \<open>
  \<open>importUtils\<close>: the identifier \<open>u\<close>, and \<open>shouldImportUtils\<close> set when the scope
  has no binding of that name.
\<close>

definition importUtils :: "bool \<Rightarrow> bool \<Rightarrow> expr \<times> bool" where
  "importUtils scopeHasBindingU shouldImportUtils =
     (Identifier ''u'', if \<not> scopeHasBindingU then True else shouldImportUtils)"

text \<open>
  The first test of the visitor: the expression is itself a cast and its annotation is
  \<open>any\<close>, or a generic type that has type parameters and is named \<open>Object\<close> or
  \<open>Function\<close>. The result is the inner expression and the inner annotation.
\<close>

fun nestedAnyCast :: "expr \<Rightarrow> (expr \<times> flowType) option" where
  "nestedAnyCast (TypeCastExpression inner AnyTypeAnnotation) = Some (inner, AnyTypeAnnotation)"
| "nestedAnyCast (TypeCastExpression inner (GenericTypeAnnotation ident typeParameters)) =
     (if typeParameters \<noteq> None \<and> (ident = Id ''Object'' \<or> ident = Id ''Function'')
      then Some (inner, GenericTypeAnnotation ident typeParameters) else None)"
| "nestedAnyCast _ = None"

text \<open>The third test: a string or numeric literal cast to the type of its own value.\<close>

fun isSelfLiteralCast :: "expr \<Rightarrow> flowType \<Rightarrow> bool" where
  "isSelfLiteralCast (StringLiteral v) (StringLiteralTypeAnnotation w) = (v = w)"
| "isSelfLiteralCast (NumericLiteral v) (NumberLiteralTypeAnnotation w) = (v = w)"
| "isSelfLiteralCast _ _ = False"

text \<open>
  The visitor \<open>TypeCastExpression\<close>, on a cast of \<open>expression\<close> to \<open>typeAnnotation\<close>: the
  node that replaces the cast, and \<open>shouldImportUtils\<close> afterwards.
\<close>

definition visitTypeCastExpression ::
  "pathNode list \<Rightarrow> bool \<Rightarrow> bool \<Rightarrow> expr \<Rightarrow> flowType \<Rightarrow> error + (expr \<times> bool)" where
  "visitTypeCastExpression ancestors scopeHasBindingU shouldImportUtils expression typeAnnotation =
     (case nestedAnyCast expression of
        Some (innerExpression, innerAnnotation) \<Rightarrow>
          (if parentIsObjectProperty ancestors \<and> isInsideCreateReactClass ancestors
           then bindE (migrateType innerAnnotation) (\<lambda>tsInner.
                bindE (migrateType typeAnnotation) (\<lambda>tsOuter.
                  Inr (TSAsExpression
                         (ParenthesizedExpression (TSAsExpression innerExpression tsInner))
                         tsOuter,
                       shouldImportUtils)))
           else bindE (migrateType typeAnnotation) (\<lambda>tsOuter.
                  Inr (TSAsExpression innerExpression tsOuter, shouldImportUtils)))
      | None \<Rightarrow>
          (if typeAnnotation = AnyTypeAnnotation
           then bindE (migrateType typeAnnotation) (\<lambda>tsType.
                  Inr (TSAsExpression expression tsType, shouldImportUtils))
           else if isSelfLiteralCast expression typeAnnotation
           then Inr (TSAsExpression expression (TSTypeReference (TSIdentifier ''const'') None),
                     shouldImportUtils)
           else if isComplexLiteral expression
           then bindE (migrateType typeAnnotation) (\<lambda>tsType.
                  Inr (TSAsExpression expression tsType, shouldImportUtils))
           else (let (u, shouldImportUtils') = importUtils scopeHasBindingU shouldImportUtils
                 in bindE (migrateType typeAnnotation) (\<lambda>tsType.
                      Inr (CallExpression (MemberExpression u (Identifier ''cast''))
                             [expression] (Some [tsType]),
                           shouldImportUtils')))))"

text \<open>
  A cast of a cast whose annotation is a generic type named \<open>Object\<close> or \<open>Function\<close>,
  with type parameters or without.
\<close>

fun castThroughObjectOrFunction :: "expr \<Rightarrow> bool" where
  "castThroughObjectOrFunction (TypeCastExpression _ (GenericTypeAnnotation ident _)) =
     (ident = Id ''Object'' \<or> ident = Id ''Function'')"
| "castThroughObjectOrFunction _ = False"

section \<open>Function parameters\<close>

text \<open>
  A parameter of a function is a pattern, or an assignment pattern (a pattern with a
  default). Of a pattern the visitors read the node type, the \<open>optional\<close> property
  (\<open>None\<close> when the property is absent or deleted) and the type annotation, which is
  Flow's before the annotation is visited and TypeScript's after. The node of an
  assignment pattern has a type annotation property of its own, absent from a parsed
  tree and no child the traversal visits; only the test-file branch of
  \<open>FunctionDeclaration.enter\<close> reads and sets it. \<open>AssignmentPattern\<close>: left, right (the
  default, which these visitors leave alone), the node's own type annotation.
\<close>

datatype annotation = NoAnnotation | TypeAnnotation flowType | TSTypeAnnotation tsType

datatype patternKind =
    IdentifierPattern string
  | ObjectPattern
  | ArrayPattern
  | RestElement
  | OtherPattern string

datatype pattern = Pattern patternKind "bool option" annotation

datatype param = Param pattern | AssignmentPattern pattern expr annotation

fun isIdentifierPattern :: "patternKind \<Rightarrow> bool" where
  "isIdentifierPattern (IdentifierPattern _) = True"
| "isIdentifierPattern _ = False"

text \<open>
  \<open>FunctionDeclaration.enter\<close>, after the call of \<open>annotateParamsWithFlowTypeAtPos\<close>: in a
  test file every parameter node without type annotation gets the annotation \<open>any\<close>.
  The test is on the parameter node itself, so for a parameter with a default it is on
  the assignment pattern, not on its left side.
\<close>

fun anyIfAbsent :: "annotation \<Rightarrow> annotation" where
  "anyIfAbsent NoAnnotation = TSTypeAnnotation TSAnyKeyword"
| "anyIfAbsent a = a"

fun enterParam :: "bool \<Rightarrow> param \<Rightarrow> param" where
  "enterParam isTestFile (Param (Pattern k optional a)) =
     Param (Pattern k optional (if isTestFile then anyIfAbsent a else a))"
| "enterParam isTestFile (AssignmentPattern left right a) =
     AssignmentPattern left right (if isTestFile then anyIfAbsent a else a)"

text \<open>
  The visitor \<open>TypeAnnotation\<close> on the annotation of a pattern. Its first test is that
  the parent is an identifier and the grandparent no variable declarator; then a
  nullable type makes the identifier optional and becomes a union with \<open>null\<close>, and a
  union with \<open>void\<close> members makes it optional and loses them; last the annotation is
  migrated.
\<close>

fun nullableToUnion :: "bool \<Rightarrow> bool option \<times> flowType \<Rightarrow> bool option \<times> flowType" where
  "nullableToUnion applies (optional, NullableTypeAnnotation ty) =
     (if applies then (Some True, UnionTypeAnnotation [ty, NullLiteralTypeAnnotation])
      else (optional, NullableTypeAnnotation ty))"
| "nullableToUnion applies (optional, ty) = (optional, ty)"

fun voidToOptional :: "bool \<Rightarrow> bool option \<times> flowType \<Rightarrow> bool option \<times> flowType" where
  "voidToOptional applies (optional, UnionTypeAnnotation types) =
     (if applies \<and> list_ex (\<lambda>unionType. unionType = VoidTypeAnnotation) types
      then (Some True,
            UnionTypeAnnotation (filter (\<lambda>unionType. unionType \<noteq> VoidTypeAnnotation) types))
      else (optional, UnionTypeAnnotation types))"
| "voidToOptional applies (optional, ty) = (optional, ty)"

fun visitTypeAnnotation :: "bool \<Rightarrow> pattern \<Rightarrow> error + pattern" where
  "visitTypeAnnotation grandparentIsVariableDeclarator (Pattern k optional (TypeAnnotation ty)) =
     (let applies = (isIdentifierPattern k \<and> \<not> grandparentIsVariableDeclarator);
          (optional', ty') = voidToOptional applies (nullableToUnion applies (optional, ty))
      in bindE (migrateType ty') (\<lambda>tsType. Inr (Pattern k optional' (TSTypeAnnotation tsType))))"
| "visitTypeAnnotation grandparentIsVariableDeclarator (Pattern k optional a) =
     Inr (Pattern k optional a)"

text \<open>
  The visitor \<open>AssignmentPattern\<close>: an optional identifier with a default loses the
  mark.
\<close>

fun clearOptionalLeft :: "pattern \<Rightarrow> pattern" where
  "clearOptionalLeft (Pattern k optional a) =
     (if isIdentifierPattern k \<and> optional = Some True then Pattern k (Some False) a
      else Pattern k optional a)"

text \<open>
  Visiting one parameter of a function: the node, then its children. The parent of a
  parameter's identifier is the function or the assignment pattern, never a variable
  declarator.
\<close>

fun visitParam :: "param \<Rightarrow> error + param" where
  "visitParam (Param p) = bindE (visitTypeAnnotation False p) (\<lambda>p'. Inr (Param p'))"
| "visitParam (AssignmentPattern left right a) =
     bindE (visitTypeAnnotation False (clearOptionalLeft left))
       (\<lambda>left'. Inr (AssignmentPattern left' right a))"

text \<open>
  \<open>FunctionDeclaration.exit\<close>. The loop runs over the parameters from the last to the
  first and keeps \<open>optional\<close>, true until a parameter without default and without
  optional mark is met. \<open>makeRequired\<close> is what is done to a marked parameter that comes
  before such a one: \<open>optional\<close> is deleted and \<open>undefined\<close> joins a TypeScript annotation.
\<close>

fun addUndefined :: "annotation \<Rightarrow> annotation" where
  "addUndefined (TSTypeAnnotation (TSUnionType types)) =
     TSTypeAnnotation (TSUnionType (types @ [TSUndefinedKeyword]))"
| "addUndefined (TSTypeAnnotation ty) = TSTypeAnnotation (TSUnionType [ty, TSUndefinedKeyword])"
| "addUndefined a = a"

fun makeRequiredPattern :: "pattern \<Rightarrow> pattern" where
  "makeRequiredPattern (Pattern k optional a) = Pattern k None (addUndefined a)"

fun makeRequired :: "param \<Rightarrow> param" where
  "makeRequired (Param p) = Param (makeRequiredPattern p)"
| "makeRequired (AssignmentPattern left right a) =
     AssignmentPattern (makeRequiredPattern left) right a"

fun isOptionalParam :: "param \<Rightarrow> bool" where
  "isOptionalParam (Param (Pattern k optional a)) = (isIdentifierPattern k \<and> optional = Some True)"
| "isOptionalParam (AssignmentPattern left right a) = False"

fun exitParam :: "bool \<Rightarrow> param \<Rightarrow> bool \<times> param" where
  "exitParam optional (AssignmentPattern left right a) =
     (let param = AssignmentPattern (clearOptionalLeft left) right a
      in if \<not> optional then (optional, makeRequired param) else (optional, param))"
| "exitParam optional (Param p) =
     (if \<not> isOptionalParam (Param p) then (False, Param p)
      else if \<not> optional then (optional, makeRequired (Param p))
      else (optional, Param p))"

fun exitLoop :: "bool \<Rightarrow> param list \<Rightarrow> param list" where
  "exitLoop optional [] = []"
| "exitLoop optional (param # rest) =
     (let (optional', param') = exitParam optional param in param' # exitLoop optional' rest)"

definition exitFunctionDeclaration :: "param list \<Rightarrow> param list" where
  "exitFunctionDeclaration params = rev (exitLoop True (rev params))"

text \<open>
  The parameters of a function declaration through the traversal: the entry of the
  declaration, the visit of each parameter, the exit of the declaration. The answers of
  the type oracle come after the traversal; they are the subject of the section on the
  oracle below.
\<close>

definition rewriteFunctionParams :: "bool \<Rightarrow> param list \<Rightarrow> error + param list" where
  "rewriteFunctionParams isTestFile params =
     bindE (mapE visitParam (map (enterParam isTestFile) params))
       (\<lambda>visited. Inr (exitFunctionDeclaration visited))"

text \<open>
  The words of the specification. A parameter carries an absence marker when it is an
  optional identifier or has a default (the test of the exit loop). In a list without an
  optional parameter before a required one, every parameter after an optional one
  carries a marker.
\<close>

fun hasAbsenceMarker :: "param \<Rightarrow> bool" where
  "hasAbsenceMarker (AssignmentPattern left right a) = True"
| "hasAbsenceMarker (Param p) = isOptionalParam (Param p)"

fun noOptionalBeforeRequired :: "param list \<Rightarrow> bool" where
  "noOptionalBeforeRequired [] = True"
| "noOptionalBeforeRequired (p # ps) =
     ((if isOptionalParam p then list_all hasAbsenceMarker ps else True) \<and>
      noOptionalBeforeRequired ps)"

text \<open>
  In the origin a parameter may be left out by the caller when it carries an absence
  marker, and also when it is an identifier whose type accepts \<open>void\<close>: a nullable type,
  or a union type with a member \<open>void\<close>.
\<close>

fun acceptsVoid :: "annotation \<Rightarrow> bool" where
  "acceptsVoid (TypeAnnotation (NullableTypeAnnotation ty)) = True"
| "acceptsVoid (TypeAnnotation (UnionTypeAnnotation types)) =
     list_ex (\<lambda>unionType. unionType = VoidTypeAnnotation) types"
| "acceptsVoid a = False"

fun omissible :: "param \<Rightarrow> bool" where
  "omissible (AssignmentPattern left right a) = True"
| "omissible (Param (Pattern k optional a)) =
     (isIdentifierPattern k \<and> (optional = Some True \<or> acceptsVoid a))"

text \<open>
  A parameter made required with \<open>undefined\<close> unioned into its type: the same pattern
  without optional mark, its TypeScript annotation, when it has one, replaced by the
  union of the members of its type (the type itself when it is no union) and
  \<open>undefined\<close>.
\<close>

fun undefinedUnioned :: "annotation \<Rightarrow> annotation \<Rightarrow> bool" where
  "undefinedUnioned (TSTypeAnnotation ty) a' =
     (a' = TSTypeAnnotation (TSUnionType
        ((case ty of TSUnionType members \<Rightarrow> members | _ \<Rightarrow> [ty]) @ [TSUndefinedKeyword])))"
| "undefinedUnioned a a' = (a' = a)"

fun requiredPattern :: "pattern \<Rightarrow> pattern \<Rightarrow> bool" where
  "requiredPattern (Pattern k optional a) (Pattern k' optional' a') =
     (k' = k \<and> optional' = None \<and> undefinedUnioned a a')"

fun requiredWithUndefined :: "param \<Rightarrow> param \<Rightarrow> bool" where
  "requiredWithUndefined (Param p) (Param p') = requiredPattern p p'"
| "requiredWithUndefined (AssignmentPattern left right a) (AssignmentPattern left' right' a') =
     (requiredPattern left left' \<and> right' = right \<and> a' = a)"
| "requiredWithUndefined p p' = False"


section \<open>The orchestrator\<close>

text \<open>
  The primary of \<open>src/typescript/run.ts\<close>. \<open>popBatch\<close> pops up to \<open>BATCH\<close> paths from
  the end of the shuffled list; the list given to the model is the shuffled one.
\<close>

definition BATCH :: nat where
  "BATCH = 50"

fun popFiles :: "nat \<Rightarrow> string list \<Rightarrow> string list \<Rightarrow> string list \<times> string list" where
  "popFiles 0 files batch = (batch, files)"
| "popFiles (Suc n) files batch = popFiles n (butlast files) (batch @ [last files])"

definition popBatch :: "string list \<Rightarrow> (string list \<times> string list) option" where
  "popBatch files =
     (if length files = 0 then None
      else Some (popFiles (min BATCH (length files)) files []))"

text \<open>
  What the primary knows of a worker it forked: the worker holds a batch, or was asked
  for its report, or was killed after reporting. A worker (\<open>runWorkerAsync\<close>) answers a
  batch with \<open>next\<close> when the batch is processed and answers the request for a report
  with its report; it sends nothing else.
\<close>

datatype worker = Processing "string list" | ReportRequested | Killed

record primary =
  workerCount :: nat
  flowFilePaths :: "string list"
  workers :: "worker list"
  reports :: "MigrationReport list"
  merged :: "MigrationReport option"

text \<open>
  The spawning loop: at most \<open>CPUS\<close> rounds, each pops a batch, stops the loop when
  there is none, and otherwise forks a worker and sends it the batch.
\<close>

fun spawn :: "nat \<Rightarrow> string list \<Rightarrow> worker list \<Rightarrow> string list \<times> worker list" where
  "spawn 0 files ws = (files, ws)"
| "spawn (Suc n) files ws =
     (case popBatch files of
        None \<Rightarrow> (files, ws)
      | Some (initialBatch, rest) \<Rightarrow> spawn n rest (ws @ [Processing initialBatch]))"

definition runPrimaryAsync :: "nat \<Rightarrow> string list \<Rightarrow> primary" where
  "runPrimaryAsync cpus files =
     (let (rest, ws) = spawn cpus files []
      in \<lparr>workerCount = cpus, flowFilePaths = rest, workers = ws, reports = [], merged = None\<rparr>)"

text \<open>
  \<open>finish\<close> deletes the old files, merges the reports and logs the merged report;
  \<open>merged\<close> records that it ran, and what \<open>logReport\<close> was given.
\<close>

definition finish :: "primary \<Rightarrow> primary" where
  "finish s = s\<lparr>merged := Some (mergeReports (reports s))\<rparr>"

text \<open>The message handler of worker \<open>i\<close>, for \<open>next\<close> and for \<open>report\<close>.\<close>

definition onNext :: "nat \<Rightarrow> primary \<Rightarrow> primary" where
  "onNext i s =
     (case popBatch (flowFilePaths s) of
        Some (nextBatch, rest) \<Rightarrow>
          s\<lparr>flowFilePaths := rest, workers := (workers s)[i := Processing nextBatch]\<rparr>
      | None \<Rightarrow> s\<lparr>workers := (workers s)[i := ReportRequested]\<rparr>)"

definition onReport :: "nat \<Rightarrow> MigrationReport \<Rightarrow> primary \<Rightarrow> primary" where
  "onReport i report s =
     (let s' = s\<lparr>reports := reports s @ [report], workers := (workers s)[i := Killed]\<rparr>
      in if length (reports s') = workerCount s' then finish s' else s')"

text \<open>
  One step of the run: the primary receives the message worker \<open>i\<close> owes it.
  \<open>reportOf i\<close> is the report worker \<open>i\<close> generates. A run delivers the messages in
  the order of a schedule, any order the workers may answer in.
\<close>

definition deliver :: "(nat \<Rightarrow> MigrationReport) \<Rightarrow> nat \<Rightarrow> primary \<Rightarrow> primary" where
  "deliver reportOf i s =
     (if i < length (workers s) then
        (case workers s ! i of
           Processing batch \<Rightarrow> onNext i s
         | ReportRequested \<Rightarrow> onReport i (reportOf i) s
         | Killed \<Rightarrow> s)
      else s)"

definition run :: "(nat \<Rightarrow> MigrationReport) \<Rightarrow> nat list \<Rightarrow> primary \<Rightarrow> primary" where
  "run reportOf schedule s = fold (deliver reportOf) schedule s"

text \<open>The number of batches a corpus makes.\<close>

definition batchCount :: "string list \<Rightarrow> nat" where
  "batchCount files = (length files + BATCH - 1) div BATCH"

text \<open>
  What holds of the primary throughout a run: as many reports as workers killed, no more
  workers than \<open>workerCount\<close>, and \<open>finish\<close> has run exactly when the reports are
  \<open>workerCount\<close> many.
\<close>

definition consistent :: "primary \<Rightarrow> bool" where
  "consistent s \<longleftrightarrow>
     length (reports s) = length (filter (\<lambda>w. w = Killed) (workers s)) \<and>
     length (workers s) \<le> workerCount s \<and>
     0 < workerCount s \<and>
     (merged s \<noteq> None) = (length (reports s) = workerCount s)"

section \<open>Asking the type oracle for unannotated parameters\<close>

text \<open>
  \<open>executeFlowTypeAtPos\<close> runs \<open>flow type-at-pos\<close> on a file at the start of a location;
  its promise resolves with the standard output of the command, or rejects with the
  error of the command. A \<open>typeOracle\<close> stands for the command.

  \<open>processFlowTypeAtPosQueue\<close> only serialises the commands: it takes the entries one by
  one in the order of the calls, and whether the command of an entry succeeded or failed
  it goes on with the rest of the queue and then resolves the entry with the output of
  its own command, or rejects it with its error. So the promise of \<open>flowTypeAtPos\<close> is the
  result of its own command, followed by \<open>processFlowTypeAtPosStdout\<close>, which is not run on
  a rejection and rejects itself when the parser throws.
\<close>

type_synonym typeOracle = "string \<Rightarrow> position \<Rightarrow> error + string"

definition flowTypeAtPos ::
  "typeOracle \<Rightarrow> (string \<Rightarrow> error + flowType) \<Rightarrow> string \<Rightarrow> position \<Rightarrow> error + flowType option" where
  "flowTypeAtPos exec parse jsFilePath location =
     bindE (exec jsFilePath location) (processFlowTypeAtPosStdout parse)"

text \<open>
  The nodes of a file that the model follows through \<open>migrateToTypeScript\<close>: the three
  kinds of function whose visitor calls \<open>annotateParamsWithFlowTypeAtPos\<close>, with their
  parameters, each with the start of its location; and the type alias, whose visitor
  migrates a type outside any function. \<open>ObjectMethod\<close>: whether the method is inside
  \<open>createReactClass\<close>, parameters. \<open>TypeAlias\<close>: name, type parameters, right side.
  \<open>TSTypeAliasDeclaration\<close> is what the visitor replaces a type alias by. Of the rest of
  a file the model keeps \<open>hasJsx\<close>: whether it holds a JSX element or fragment, which the
  traversal records in \<open>fileStats\<close>.
\<close>

datatype node =
    FunctionDeclaration "(position \<times> param) list"
  | ClassMethod "(position \<times> param) list"
  | ObjectMethod bool "(position \<times> param) list"
  | TypeAlias string "typeParameter list option" flowType
  | TSTypeAliasDeclaration string "tsTypeParameter list option" tsType

record sourceFile =
  nodes :: "node list"
  hasJsx :: bool

text \<open>
  \<open>annotateParamsWithFlowTypeAtPos\<close> is called when the traversal enters the function.
  Its loop runs at once: for each parameter that is an identifier without type
  annotation at that moment it starts an asynchronous function, which calls
  \<open>flowTypeAtPos\<close> and waits. \<open>queries\<close> is what the loop starts, parameter by parameter:
  the position asked about, or nothing. An object method outside \<open>createReactClass\<close>
  asks nothing.
\<close>

fun unannotatedIdentifier :: "position \<times> param \<Rightarrow> position option" where
  "unannotatedIdentifier (loc, Param (Pattern (IdentifierPattern name) optional NoAnnotation)) =
     Some loc"
| "unannotatedIdentifier (loc, p) = None"

fun queries :: "node \<Rightarrow> position option list" where
  "queries (FunctionDeclaration params) = map unannotatedIdentifier params"
| "queries (ClassMethod params) = map unannotatedIdentifier params"
| "queries (ObjectMethod insideCreateReactClass params) =
     (if insideCreateReactClass then map unannotatedIdentifier params
      else map (\<lambda>p. None) params)"
| "queries (TypeAlias name typeParameters right) = []"
| "queries (TSTypeAliasDeclaration name typeParameters right) = []"

text \<open>
  The traversal of one node, which is synchronous: an error thrown by a visitor leaves
  \<open>migrateToTypeScript\<close> at once. A function declaration has the visitors of the section on
  function parameters; the parameters of a method are visited, without the entry and the
  exit of a declaration; a type alias is replaced by the declaration of the migrated
  type.
\<close>

fun visitNode :: "bool \<Rightarrow> node \<Rightarrow> error + node" where
  "visitNode isTestFile (FunctionDeclaration params) =
     bindE (rewriteFunctionParams isTestFile (map snd params))
       (\<lambda>out. Inr (FunctionDeclaration (zip (map fst params) out)))"
| "visitNode isTestFile (ClassMethod params) =
     bindE (mapE visitParam (map snd params))
       (\<lambda>out. Inr (ClassMethod (zip (map fst params) out)))"
| "visitNode isTestFile (ObjectMethod insideCreateReactClass params) =
     bindE (mapE visitParam (map snd params))
       (\<lambda>out. Inr (ObjectMethod insideCreateReactClass (zip (map fst params) out)))"
| "visitNode isTestFile (TypeAlias name typeParameters right) =
     bindE (case typeParameters of None \<Rightarrow> Inr None
            | Some tps \<Rightarrow> bindE (mapE migrateTypeParameter tps) (\<lambda>r. Inr (Some r)))
       (\<lambda>tsTypeParameters.
          bindE (migrateType right)
            (\<lambda>tsRight. Inr (TSTypeAliasDeclaration name tsTypeParameters tsRight)))"
| "visitNode isTestFile (TSTypeAliasDeclaration name typeParameters right) =
     Inr (TSTypeAliasDeclaration name typeParameters right)"

text \<open>
  The rest of an asynchronous function of \<open>annotateParamsWithFlowTypeAtPos\<close>, run when the
  oracle has answered, which is after the traversal: no answer leaves the parameter as
  the traversal left it; a type is migrated (\<open>empty\<close> counts as \<open>any\<close>, and \<open>any\<close> is named
  \<open>FlowAnyInferred\<close>) and becomes the parameter's annotation, in place of any the traversal
  gave it. Nothing catches a rejection of \<open>flowTypeAtPos\<close> or an error thrown by
  \<open>migrateType\<close>.
\<close>

fun setTypeAnnotation :: "annotation \<Rightarrow> param \<Rightarrow> param" where
  "setTypeAnnotation a' (Param (Pattern k optional a)) = Param (Pattern k optional a')"
| "setTypeAnnotation a' (AssignmentPattern left right a) = AssignmentPattern left right a'"

fun answer ::
  "typeOracle \<Rightarrow> (string \<Rightarrow> error + flowType) \<Rightarrow> string \<Rightarrow>
   position option \<times> position \<times> param \<Rightarrow> error + position \<times> param" where
  "answer exec parse jsFilePath (None, l, param) = Inr (l, param)"
| "answer exec parse jsFilePath (Some loc, l, param) =
     bindE (flowTypeAtPos exec parse jsFilePath loc) (\<lambda>flowType.
       case flowType of
         None \<Rightarrow> Inr (l, param)
       | Some ty \<Rightarrow>
           bindE (case ty of EmptyTypeAnnotation \<Rightarrow> Inr TSAnyKeyword | _ \<Rightarrow> migrateType ty)
             (\<lambda>tsType.
               Inr (l, setTypeAnnotation
                 (TSTypeAnnotation
                   (case tsType of
                      TSAnyKeyword \<Rightarrow> TSTypeReference (TSIdentifier ''FlowAnyInferred'') None
                    | _ \<Rightarrow> tsType))
                 param)))"

text \<open>
  \<open>Promise.all\<close> resolves when every promise has resolved and rejects with the first
  rejection. The queue answers in the order of the calls, so the first rejection is that
  of the first parameter, in the order of the list, whose promise rejects.
  \<open>annotateParamsWithFlowTypeAtPos\<close> is here the promise the call returns: the queries
  started at the call, met with the parameters as the traversal has left them.
\<close>

definition annotateParamsWithFlowTypeAtPos ::
  "typeOracle \<Rightarrow> (string \<Rightarrow> error + flowType) \<Rightarrow> string \<Rightarrow> position option list \<Rightarrow>
   (position \<times> param) list \<Rightarrow> error + (position \<times> param) list" where
  "annotateParamsWithFlowTypeAtPos exec parse jsFilePath started params =
     mapE (answer exec parse jsFilePath) (zip started params)"

fun awaitNode ::
  "typeOracle \<Rightarrow> (string \<Rightarrow> error + flowType) \<Rightarrow> string \<Rightarrow> position option list \<Rightarrow> node \<Rightarrow>
   error + node" where
  "awaitNode exec parse jsFilePath started (FunctionDeclaration params) =
     bindE (annotateParamsWithFlowTypeAtPos exec parse jsFilePath started params)
       (\<lambda>params'. Inr (FunctionDeclaration params'))"
| "awaitNode exec parse jsFilePath started (ClassMethod params) =
     bindE (annotateParamsWithFlowTypeAtPos exec parse jsFilePath started params)
       (\<lambda>params'. Inr (ClassMethod params'))"
| "awaitNode exec parse jsFilePath started (ObjectMethod insideCreateReactClass params) =
     bindE (annotateParamsWithFlowTypeAtPos exec parse jsFilePath started params)
       (\<lambda>params'. Inr (ObjectMethod insideCreateReactClass params'))"
| "awaitNode exec parse jsFilePath started (TypeAlias name typeParameters right) =
     Inr (TypeAlias name typeParameters right)"
| "awaitNode exec parse jsFilePath started (TSTypeAliasDeclaration name typeParameters right) =
     Inr (TSTypeAliasDeclaration name typeParameters right)"

text \<open>
  \<open>migrateToTypeScript\<close>: the traversal of the file, then \<open>Promise.all(awaitPromises)\<close>.
  A file is a test file when its path ends in \<open>.test.js\<close>. \<open>traverse\<close> throws the first
  error a visitor throws, and then no promise is returned; otherwise the promise
  resolves when every query has been answered and rejects with the first rejection.
  When the traversal has thrown, the queries it had started are answered with nobody
  waiting for them; what the runtime does with a rejection that has no handler is
  outside the model.
\<close>

definition isTestFilePath :: "string \<Rightarrow> bool" where
  "isTestFilePath jsFilePath = suffix ''.test.js'' jsFilePath"

definition traverse :: "string \<Rightarrow> sourceFile \<Rightarrow> error + node list" where
  "traverse jsFilePath file = mapE (visitNode (isTestFilePath jsFilePath)) (nodes file)"

definition migrateToTypeScript ::
  "typeOracle \<Rightarrow> (string \<Rightarrow> error + flowType) \<Rightarrow> string \<Rightarrow> sourceFile \<Rightarrow> error + sourceFile" where
  "migrateToTypeScript exec parse jsFilePath file =
     bindE (traverse jsFilePath file) (\<lambda>visited.
       bindE (mapE (\<lambda>(original, node). awaitNode exec parse jsFilePath (queries original) node)
                (zip (nodes file) visited))
         (\<lambda>answered. Inr (file\<lparr>nodes := answered\<rparr>)))"

text \<open>
  \<open>processBatchAsync\<close>. Each file of the batch has its own \<open>try\<close>: the file is read and
  parsed (\<open>readFile\<close> stands for both), migrated, and when the promise of the migration has
  resolved the tree is printed and written beside the original, \<open>.js\<close> at the end of the
  path replaced by \<open>.tsx\<close> or \<open>.ts\<close>. An error thrown, or a promise rejected, anywhere
  before is caught: the error is logged, and nothing is written for the file. So the
  promise of a file always resolves, and the batch is the \<open>Promise.all\<close> of these.
\<close>

definition tsFilePath :: "string \<Rightarrow> bool \<Rightarrow> string" where
  "tsFilePath jsFilePath jsx =
     (if suffix ''.js'' jsFilePath
      then take (length jsFilePath - 3) jsFilePath @ (if jsx then ''.tsx'' else ''.ts'')
      else jsFilePath)"

datatype outcome = Written string sourceFile | Logged error

definition processFile ::
  "typeOracle \<Rightarrow> (string \<Rightarrow> error + flowType) \<Rightarrow> (string \<Rightarrow> error + sourceFile) \<Rightarrow> string \<Rightarrow> outcome" where
  "processFile exec parse readFile jsFilePath =
     (case bindE (readFile jsFilePath) (migrateToTypeScript exec parse jsFilePath) of
        Inl e \<Rightarrow> Logged e
      | Inr file \<Rightarrow> Written (tsFilePath jsFilePath (hasJsx file)) file)"





chapter \<open>Properties\<close>

section \<open>Merging reports\<close>

lemma fold_push: "fold (\<lambda>x a. a @ [x]) xs a = a @ xs"
  by (induction xs arbitrary: a) auto

lemma mergeArrays_acc: "fold (\<lambda>ob a. fold (\<lambda>x a. a @ [x]) (k ob) a) os a = a @ concat (map k os)"
  by (induction os arbitrary: a) (auto simp: fold_push)

lemma mergeArrays_concat: "mergeArrays k os = concat (map k os)"
  by (simp add: mergeArrays_def mergeArrays_acc)

lemma mset_concat_map:
  "mset (concat (map k rs)) = \<Sum>\<^sub># (image_mset (\<lambda>r. mset (k r)) (mset rs))"
  by (induction rs) auto

lemma mset_mergeArrays_cong:
  assumes "mset rs = mset rs'"
  shows "mset (mergeArrays k rs) = mset (mergeArrays k rs')"
  unfolding mergeArrays_concat mset_concat_map using assms by simp

lemma map_of_map_set: "map_of (map_set m k v) = (map_of m)(k \<mapsto> v)"
  by (induction m) (auto simp: fun_eq_iff)

lemma keys_map_set: "fst ` set (map_set m k v) = insert k (fst ` set m)"
  by (simp add: map_of_map_set flip: dom_map_of_conv_image_fst)

lemma distinct_map_set: "distinct (map fst m) \<Longrightarrow> distinct (map fst (map_set m k v))"
  by (induction m) (auto simp: keys_map_set)

lemma map_of_addDestructed:
  "map_of (addDestructed e m) =
     (map_of m)(fst e \<mapsto> (case map_of m (fst e) of None \<Rightarrow> 0 | Some c \<Rightarrow> c) + snd e)"
  by (simp add: addDestructed_def map_get_def map_of_map_set)

lemma distinct_fold_addDestructed:
  "distinct (map fst m) \<Longrightarrow> distinct (map fst (fold addDestructed es m))"
  by (induction es arbitrary: m) (auto simp: addDestructed_def distinct_map_set)

lemma map_of_fold_addDestructed:
  "map_of (fold addDestructed es m) k =
     (if k \<in> fst ` set es \<or> k \<in> dom (map_of m)
      then Some ((case map_of m k of None \<Rightarrow> 0 | Some c \<Rightarrow> c) +
                 sum_list (map snd (filter (\<lambda>e. fst e = k) es)))
      else None)"
proof (induction es arbitrary: m)
  case Nil
  then show ?case by (auto split: option.splits)
next
  case (Cons e es)
  show ?case
    by (simp add: Cons.IH map_of_addDestructed) (auto split: option.splits)
qed

lemma fold_fold_concat:
  "fold (\<lambda>r m. fold f (k r) m) rs m = fold f (concat (map k rs)) m"
  by (induction rs arbitrary: m) auto

lemma mergeRequireWasDestructed_concat:
  "mergeRequireWasDestructed rs = fold addDestructed (concat (map requireWasDestructed rs)) []"
  by (simp add: mergeRequireWasDestructed_def fold_fold_concat)

lemma sum_filter_mset_cong:
  assumes "mset es = mset es'"
  shows "sum_list (map snd (filter P es)) = (sum_list (map snd (filter P es')) :: int)"
proof -
  have "sum_list (map snd (filter P xs)) = sum_mset (image_mset snd (filter_mset P (mset xs)))"
    for xs :: "('a \<times> int) list"
    by (simp flip: sum_mset_sum_list)
  then show ?thesis using assms by simp
qed

lemma sum_filter_distinct:
  "distinct (map fst m) \<Longrightarrow>
   sum_list (map snd (filter (\<lambda>e. fst e = k) m)) = (case map_of m k of None \<Rightarrow> 0 | Some v \<Rightarrow> (v::int))"
proof (induction m)
  case Nil
  then show ?case by simp
next
  case (Cons e m)
  then show ?case
    by (cases e) (auto split: option.splits simp: map_of_eq_None_iff image_iff dest: map_of_SomeD)
qed


lemma modules_mergeReports_sel:
  "skippedLargeFiles (modules_mergeReports rs) = mergeArrays skippedLargeFiles rs"
  "requireNotCalled (modules_mergeReports rs) = mergeArrays requireNotCalled rs"
  "requireOtherThanString (modules_mergeReports rs) = mergeArrays requireOtherThanString rs"
  "cannotFindModule (modules_mergeReports rs) = mergeArrays cannotFindModule rs"
  "moduleNotExportAssignment (modules_mergeReports rs) = mergeArrays moduleNotExportAssignment rs"
  "requireWasDestructed (modules_mergeReports rs) = mergeRequireWasDestructed rs"
  "unableToLoadExternalModule (modules_mergeReports rs) = mergeUnableToLoadExternalModule rs"
  "importAfterSideEffects (modules_mergeReports rs) = mergeArrays importAfterSideEffects rs"
  by (simp_all add: modules_mergeReports_def)

lemma map_of_mergeRequireWasDestructed:
  "map_of (mergeRequireWasDestructed rs) k =
     (if k \<in> fst ` set (concat (map requireWasDestructed rs))
      then Some (sum_list (map snd (filter (\<lambda>e. fst e = k) (concat (map requireWasDestructed rs)))))
      else None)"
  by (simp add: mergeRequireWasDestructed_concat map_of_fold_addDestructed)

lemma distinct_mergeRequireWasDestructed:
  "distinct (map fst (mergeRequireWasDestructed rs))"
  by (simp add: mergeRequireWasDestructed_concat distinct_fold_addDestructed)

lemma mergeRequireWasDestructed_cong:
  assumes "mset rs = mset rs'"
  shows "map_of (mergeRequireWasDestructed rs) = map_of (mergeRequireWasDestructed rs')"
proof
  fix k
  have m: "mset (concat (map requireWasDestructed rs)) = mset (concat (map requireWasDestructed rs'))"
    unfolding mset_concat_map using assms by simp
  have s: "set (concat (map requireWasDestructed rs)) = set (concat (map requireWasDestructed rs'))"
    by (rule mset_eq_setD [OF m])
  show "map_of (mergeRequireWasDestructed rs) k = map_of (mergeRequireWasDestructed rs') k"
    unfolding map_of_mergeRequireWasDestructed s
    using sum_filter_mset_cong [OF m, of "\<lambda>e. fst e = k"] by simp
qed

lemma sum_filter_merged:
  "sum_list (map snd (filter (\<lambda>e. fst e = k) (mergeRequireWasDestructed rs))) =
   sum_list (map snd (filter (\<lambda>e. fst e = k) (concat (map requireWasDestructed rs))))"
proof -
  have "sum_list (map snd (filter (\<lambda>e. fst e = k) (concat (map requireWasDestructed rs)))) = 0"
    if "k \<notin> fst ` set (concat (map requireWasDestructed rs))"
  proof -
    have "filter (\<lambda>e. fst e = k) (concat (map requireWasDestructed rs)) = []"
      using that by (auto simp: filter_empty_conv image_iff)
    then show ?thesis by simp
  qed
  then show ?thesis
    by (simp add: sum_filter_distinct [OF distinct_mergeRequireWasDestructed]
        map_of_mergeRequireWasDestructed)
qed

lemma keys_mergeRequireWasDestructed:
  "fst ` set (mergeRequireWasDestructed rs) = fst ` set (concat (map requireWasDestructed rs))"
proof -
  have "dom (map_of (mergeRequireWasDestructed rs)) = fst ` set (concat (map requireWasDestructed rs))"
    by (auto simp: dom_def map_of_mergeRequireWasDestructed)
  then show ?thesis by (simp add: dom_map_of_conv_image_fst)
qed

lemma mergeRequireWasDestructed_nested_left:
  "map_of (mergeRequireWasDestructed [modules_mergeReports [x, y], z]) =
   map_of (mergeRequireWasDestructed [x, y, z])"
proof
  fix k
  have r: "requireWasDestructed (modules_mergeReports [x, y]) = mergeRequireWasDestructed [x, y]"
    by (simp add: modules_mergeReports_sel)
  show "map_of (mergeRequireWasDestructed [modules_mergeReports [x, y], z]) k =
        map_of (mergeRequireWasDestructed [x, y, z]) k"
    unfolding map_of_mergeRequireWasDestructed
    using sum_filter_merged [of k "[x, y]"] keys_mergeRequireWasDestructed [of "[x, y]"]
    by (simp add: r image_Un)
qed

lemma mergeRequireWasDestructed_nested_right:
  "map_of (mergeRequireWasDestructed [x, modules_mergeReports [y, z]]) =
   map_of (mergeRequireWasDestructed [x, y, z])"
proof
  fix k
  have r: "requireWasDestructed (modules_mergeReports [y, z]) = mergeRequireWasDestructed [y, z]"
    by (simp add: modules_mergeReports_sel)
  show "map_of (mergeRequireWasDestructed [x, modules_mergeReports [y, z]]) k =
        map_of (mergeRequireWasDestructed [x, y, z]) k"
    unfolding map_of_mergeRequireWasDestructed
    using sum_filter_merged [of k "[y, z]"] keys_mergeRequireWasDestructed [of "[y, z]"]
    by (simp add: r image_Un)
qed

lemma set_fold_set_add: "set (fold (\<lambda>x s. set_add s x) xs s) = set s \<union> set xs"
  by (induction xs arbitrary: s) (auto simp: set_add_def)

lemma set_mergeUnableToLoadExternalModule:
  "set (mergeUnableToLoadExternalModule rs) = set (concat (map unableToLoadExternalModule rs))"
  by (simp add: mergeUnableToLoadExternalModule_def fold_fold_concat set_fold_set_add)

lemma mergeUnableToLoadExternalModule_cong:
  assumes "mset rs = mset rs'"
  shows "set (mergeUnableToLoadExternalModule rs) = set (mergeUnableToLoadExternalModule rs')"
proof -
  have "set rs = set rs'" by (rule mset_eq_setD [OF assms])
  then show ?thesis by (simp add: set_mergeUnableToLoadExternalModule)
qed

lemma mergeReports_perm:
  assumes "mset rs = mset rs'"
  shows "report_equiv (mergeReports rs) (mergeReports rs')"
  by (simp add: report_equiv_def mergeReports_def mset_mergeArrays_cong [OF assms])

lemma modules_mergeReports_perm:
  assumes "mset rs = mset rs'"
  shows "modules_report_equiv (modules_mergeReports rs) (modules_mergeReports rs')"
  by (simp add: modules_report_equiv_def modules_mergeReports_sel mset_mergeArrays_cong [OF assms]
      mergeRequireWasDestructed_cong [OF assms] mergeUnableToLoadExternalModule_cong [OF assms])

lemma mergeReports_assoc:
  "report_equiv (mergeReports [mergeReports [a, b], c]) (mergeReports [a, mergeReports [b, c]])"
  by (simp add: report_equiv_def mergeReports_def mergeArrays_concat)

lemma modules_mergeReports_assoc:
  "modules_report_equiv (modules_mergeReports [modules_mergeReports [x, y], z])
     (modules_mergeReports [x, modules_mergeReports [y, z]])"
proof -
  have u: "set (mergeUnableToLoadExternalModule [modules_mergeReports [x, y], z]) =
        set (mergeUnableToLoadExternalModule [x, modules_mergeReports [y, z]])"
    by (auto simp: set_mergeUnableToLoadExternalModule modules_mergeReports_sel)
  show ?thesis
    unfolding modules_report_equiv_def modules_mergeReports_sel
    by (simp add: mergeArrays_concat modules_mergeReports_sel u
        mergeRequireWasDestructed_nested_left mergeRequireWasDestructed_nested_right)
qed

text \<open>
  Claim C6. Merging is commutative and associative in every category under the category's
  semantics (\<open>report_equiv\<close>, \<open>modules_report_equiv\<close>): any reordering of the list of
  reports gives an equivalent merged report, in particular \<open>merge [A, B]\<close> and
  \<open>merge [B, A]\<close>, and merging in two stages gives the same as either nesting.
\<close>

theorem mergeReports_commutative_associative:
  assumes "mset rs = mset rs'" and "mset ms = mset ms'"
  shows "report_equiv (mergeReports rs) (mergeReports rs') \<and>
         modules_report_equiv (modules_mergeReports ms) (modules_mergeReports ms') \<and>
         report_equiv (mergeReports [a, b]) (mergeReports [b, a]) \<and>
         modules_report_equiv (modules_mergeReports [x, y]) (modules_mergeReports [y, x]) \<and>
         report_equiv (mergeReports [mergeReports [a, b], c])
           (mergeReports [a, mergeReports [b, c]]) \<and>
         modules_report_equiv (modules_mergeReports [modules_mergeReports [x, y], z])
           (modules_mergeReports [x, modules_mergeReports [y, z]])"
proof -
  have ab: "mset [a, b] = mset [b, a]" and xy: "mset [x, y] = mset [y, x]"
    by simp_all
  show ?thesis
    using mergeReports_perm [OF assms(1)] modules_mergeReports_perm [OF assms(2)]
      mergeReports_perm [OF ab] modules_mergeReports_perm [OF xy]
      mergeReports_assoc modules_mergeReports_assoc
    by blast
qed

theorem mergeReports_commutative_associative_witness:
  "report_equiv
     (mergeReports
        [\<lparr>typeParameterWithVariance =
             [\<lparr>filePath = ''a.js'', loc_start = \<lparr>line = 1, column = 2\<rparr>,
               loc_end = \<lparr>line = 1, column = 5\<rparr>\<rparr>],
           objectPropertyWithInternalName = [], objectPropertyWithMinusVariance = [],
           unsupportedTypeCast = []\<rparr>,
         \<lparr>typeParameterWithVariance =
             [\<lparr>filePath = ''b.js'', loc_start = \<lparr>line = 7, column = 0\<rparr>,
               loc_end = \<lparr>line = 7, column = 3\<rparr>\<rparr>],
           objectPropertyWithInternalName = [], objectPropertyWithMinusVariance = [],
           unsupportedTypeCast = []\<rparr>])
     (mergeReports
        [\<lparr>typeParameterWithVariance =
             [\<lparr>filePath = ''b.js'', loc_start = \<lparr>line = 7, column = 0\<rparr>,
               loc_end = \<lparr>line = 7, column = 3\<rparr>\<rparr>],
           objectPropertyWithInternalName = [], objectPropertyWithMinusVariance = [],
           unsupportedTypeCast = []\<rparr>,
         \<lparr>typeParameterWithVariance =
             [\<lparr>filePath = ''a.js'', loc_start = \<lparr>line = 1, column = 2\<rparr>,
               loc_end = \<lparr>line = 1, column = 5\<rparr>\<rparr>],
           objectPropertyWithInternalName = [], objectPropertyWithMinusVariance = [],
           unsupportedTypeCast = []\<rparr>]) \<and>
   modules_report_equiv
     (modules_mergeReports
        [\<lparr>skippedLargeFiles = [''big.js''], requireNotCalled = [], requireOtherThanString = [],
           cannotFindModule = [], moduleNotExportAssignment = [],
           requireWasDestructed = [(''m'', 2), (''n'', 1)],
           unableToLoadExternalModule = [''u''], importAfterSideEffects = []\<rparr>,
         \<lparr>skippedLargeFiles = [], requireNotCalled = [], requireOtherThanString = [],
           cannotFindModule = [], moduleNotExportAssignment = [],
           requireWasDestructed = [(''n'', 4)],
           unableToLoadExternalModule = [''u'', ''w''], importAfterSideEffects = []\<rparr>])
     (modules_mergeReports
        [\<lparr>skippedLargeFiles = [], requireNotCalled = [], requireOtherThanString = [],
           cannotFindModule = [], moduleNotExportAssignment = [],
           requireWasDestructed = [(''n'', 4)],
           unableToLoadExternalModule = [''u'', ''w''], importAfterSideEffects = []\<rparr>,
         \<lparr>skippedLargeFiles = [''big.js''], requireNotCalled = [], requireOtherThanString = [],
           cannotFindModule = [], moduleNotExportAssignment = [],
           requireWasDestructed = [(''m'', 2), (''n'', 1)],
           unableToLoadExternalModule = [''u''], importAfterSideEffects = []\<rparr>])"
  using mergeReports_commutative_associative
    [of "[\<lparr>typeParameterWithVariance =
             [\<lparr>filePath = ''a.js'', loc_start = \<lparr>line = 1, column = 2\<rparr>,
               loc_end = \<lparr>line = 1, column = 5\<rparr>\<rparr>],
           objectPropertyWithInternalName = [], objectPropertyWithMinusVariance = [],
           unsupportedTypeCast = []\<rparr>,
         \<lparr>typeParameterWithVariance =
             [\<lparr>filePath = ''b.js'', loc_start = \<lparr>line = 7, column = 0\<rparr>,
               loc_end = \<lparr>line = 7, column = 3\<rparr>\<rparr>],
           objectPropertyWithInternalName = [], objectPropertyWithMinusVariance = [],
           unsupportedTypeCast = []\<rparr>]"
        "[\<lparr>typeParameterWithVariance =
             [\<lparr>filePath = ''b.js'', loc_start = \<lparr>line = 7, column = 0\<rparr>,
               loc_end = \<lparr>line = 7, column = 3\<rparr>\<rparr>],
           objectPropertyWithInternalName = [], objectPropertyWithMinusVariance = [],
           unsupportedTypeCast = []\<rparr>,
         \<lparr>typeParameterWithVariance =
             [\<lparr>filePath = ''a.js'', loc_start = \<lparr>line = 1, column = 2\<rparr>,
               loc_end = \<lparr>line = 1, column = 5\<rparr>\<rparr>],
           objectPropertyWithInternalName = [], objectPropertyWithMinusVariance = [],
           unsupportedTypeCast = []\<rparr>]"
        "[\<lparr>skippedLargeFiles = [''big.js''], requireNotCalled = [], requireOtherThanString = [],
           cannotFindModule = [], moduleNotExportAssignment = [],
           requireWasDestructed = [(''m'', 2), (''n'', 1)],
           unableToLoadExternalModule = [''u''], importAfterSideEffects = []\<rparr>,
         \<lparr>skippedLargeFiles = [], requireNotCalled = [], requireOtherThanString = [],
           cannotFindModule = [], moduleNotExportAssignment = [],
           requireWasDestructed = [(''n'', 4)],
           unableToLoadExternalModule = [''u'', ''w''], importAfterSideEffects = []\<rparr>]"
        "[\<lparr>skippedLargeFiles = [], requireNotCalled = [], requireOtherThanString = [],
           cannotFindModule = [], moduleNotExportAssignment = [],
           requireWasDestructed = [(''n'', 4)],
           unableToLoadExternalModule = [''u'', ''w''], importAfterSideEffects = []\<rparr>,
         \<lparr>skippedLargeFiles = [''big.js''], requireNotCalled = [], requireOtherThanString = [],
           cannotFindModule = [], moduleNotExportAssignment = [],
           requireWasDestructed = [(''m'', 2), (''n'', 1)],
           unableToLoadExternalModule = [''u''], importAfterSideEffects = []\<rparr>]"]
  by simp

section \<open>Rendering with allowlists\<close>

lemma digit_zero: "char_of (48::nat) = CHR ''0''"
  by (simp add: char_of_eq_iff)

lemma showNat_nonempty: "showNat n \<noteq> []"
  by (subst showNat.simps) simp

lemma showNat_digits:
  "list_all (\<lambda>c. 48 \<le> (of_char c :: nat) \<and> (of_char c :: nat) \<le> 57) (showNat n)"
proof (induction n rule: showNat.induct)
  case (1 n)
  show ?case
  proof (cases "n < 10")
    case True
    then show ?thesis by (subst showNat.simps) (simp add: digit_def)
  next
    case False
    have "n mod 10 < 10" by simp
    then have "48 + n mod 10 < 256" by linarith
    then show ?thesis using False 1 by (subst showNat.simps) (simp add: digit_def)
  qed
qed

lemma showNat_value: "foldl (\<lambda>v c. 10 * v + (of_char c - 48)) 0 (showNat n) = n"
proof (induction n rule: showNat.induct)
  case (1 n)
  show ?case
  proof (cases "n < 10")
    case True
    then show ?thesis by (subst showNat.simps) (simp add: digit_def)
  next
    case False
    have "n mod 10 < 10" by simp
    then have "48 + n mod 10 < 256" by linarith
    then show ?thesis using False 1 by (subst showNat.simps) (simp add: digit_def)
  qed
qed

lemma showNat_zero: "showNat n = ''0'' \<longleftrightarrow> n = 0"
proof
  assume "showNat n = ''0''"
  then have "foldl (\<lambda>v c. 10 * v + (of_char c - 48)) 0 ''0'' = n"
    using showNat_value [of n] by simp
  then show "n = 0" by simp
next
  assume "n = 0"
  then show "showNat n = ''0''" by (subst showNat.simps) (simp add: digit_def digit_zero)
qed

lemma showNat_leading: "(hd (showNat n) = CHR ''0'') = (showNat n = ''0'')"
proof (induction n rule: showNat.induct)
  case (1 n)
  show ?case
  proof (cases "n < 10")
    case True
    then have s: "showNat n = [digit n]" by (subst showNat.simps) simp
    have "(digit n = CHR ''0'') = (n = 0)"
    proof
      assume "digit n = CHR ''0''"
      then have "of_char (digit n) = (of_char (CHR ''0'') :: nat)" by simp
      then show "n = 0" using True by (simp add: digit_def)
    next
      assume "n = 0"
      then show "digit n = CHR ''0''" by (simp add: digit_def digit_zero)
    qed
    then show ?thesis using showNat_zero [of n] by (simp add: s)
  next
    case False
    then have s: "showNat n = showNat (n div 10) @ [digit (n mod 10)]"
      by (subst showNat.simps) simp
    have "n div 10 \<noteq> 0" using False by simp
    then have "showNat (n div 10) \<noteq> ''0''" by (simp add: showNat_zero)
    then have "hd (showNat (n div 10)) \<noteq> CHR ''0''" using 1 False by simp
    moreover have "showNat n \<noteq> ''0''" using False by (simp add: showNat_zero)
    ultimately show ?thesis by (simp add: s showNat_nonempty)
  qed
qed

lemma showNat_decimal: "decimalNumeral n (showNat n)"
  unfolding decimalNumeral_def
  using showNat_nonempty [of n] showNat_digits [of n] showNat_leading [of n] showNat_value [of n]
  by blast

lemma logSection_block:
  "logSection heading entries = (if entries = [] then [] else [[], heading] @ entries)"
  by (simp add: logSection_def fold_push)

lemma bulletLine_chars: "bulletLine s = [CHR 0xE2, CHR 0x80, CHR 0xA2] @ '' '' @ s"
  by (simp add: bulletLine_def bullet_def char_of_eq_iff)

text \<open>
  Claim C7. What either \<open>logReport\<close> prints, block by block. A location is printed as
  the path relative to the working directory, the line and the column of its start,
  joined by colons, the two numbers as decimal numerals. In a block that has an allowlist
  the rendered locations are computed first and those in the category's allowlist are
  removed before anything is printed, heading included: a finding whose rendered
  location is in the allowlist is printed by no line of its block, whatever else the
  category holds. Every entry left is printed on a line of its own behind a bullet. The
  other blocks print every entry.
\<close>

theorem logReport_allowlist_suppression:
  "\<exists>decimal. (\<forall>n. decimalNumeral n (decimal n)) \<and>
     (let render = (\<lambda>l. relative (filePath l) @ '':'' @ decimal (line (loc_start l)) @ '':'' @
                         decimal (column (loc_start l)));
          bulleted = (\<lambda>s. [CHR 0xE2, CHR 0x80, CHR 0xA2] @ '' '' @ s);
          block = (\<lambda>heading entries.
                     if entries = [] then [] else [[], heading] @ map bulleted entries)
      in logReport relative allow report =
           block ''Type parameter with variance:''
             (filter (\<lambda>s. s \<notin> allow_typeParameterWithVariance allow)
                (map render (typeParameterWithVariance report))) @
           block ''Object property with an internal name:''
             (map render (objectPropertyWithInternalName report)) @
           block ''Object property with negative variance:''
             (map render (objectPropertyWithMinusVariance report)) @
           block ''Unsupported type cast:''
             (map render (unsupportedTypeCast report)) \<and>
         modules_logReport relative mallow mreport =
           block ''Skipped large files:''
             (map relative (skippedLargeFiles mreport)) @
           block ''Require not called:''
             (filter (\<lambda>s. s \<notin> allow_requireNotCalled mallow)
                (map render (requireNotCalled mreport))) @
           block ''Required something other than a string:''
             (filter (\<lambda>s. s \<notin> allow_requireOtherThanString mallow)
                (map render (requireOtherThanString mreport))) @
           block ''Required something other than a string:''
             (map (\<lambda>(moduleId, s). ''Cannot find module '' @ [CHR 0x27] @ moduleId @ [CHR 0x27] @
                                    '' in '' @ [CHR 0x27] @ s @ [CHR 0x27])
                (filter (\<lambda>(moduleId, s). s \<notin> allow_cannotFindModule mallow)
                   (map (\<lambda>(moduleId, l). (moduleId, render l)) (cannotFindModule mreport)))) @
           block ''Module reference is not an exports assignment:''
             (filter (\<lambda>s. s \<notin> allow_moduleNotExportAssignment mallow)
                (map render (moduleNotExportAssignment mreport))) @
           block ''Unable to load external module:''
             (map relative (unableToLoadExternalModule mreport)))"
proof (rule exI [of _ showNat], intro conjI allI)
  show "decimalNumeral n (showNat n)" for n
    by (rule showNat_decimal)
  have r: "(\<lambda>l. relative (filePath l) @ '':'' @ showNat (line (loc_start l)) @ '':'' @
                showNat (column (loc_start l))) = displayLocation relative"
    by (rule ext) (simp add: displayLocation_def)
  have b: "(\<lambda>s. [CHR 0xE2, CHR 0x80, CHR 0xA2] @ '' '' @ s) = bulletLine"
    by (rule ext) (simp only: bulletLine_chars)
  have c: "(\<lambda>(moduleId, s). ''Cannot find module '' @ [CHR 0x27] @ moduleId @ [CHR 0x27] @
              '' in '' @ [CHR 0x27] @ s @ [CHR 0x27]) =
           (\<lambda>e. ''Cannot find module '' @ [CHR 0x27] @ fst e @ [CHR 0x27] @
              '' in '' @ [CHR 0x27] @ snd e @ [CHR 0x27])"
    by (rule ext) (simp add: case_prod_unfold)
  have cl: "cannotFindModuleLine =
      bulletLine \<circ> (\<lambda>e. ''Cannot find module '' @ [CHR 0x27] @ fst e @ [CHR 0x27] @
              '' in '' @ [CHR 0x27] @ snd e @ [CHR 0x27])"
    by (rule ext) (simp add: cannotFindModuleLine_def)
  have l1: "logReport relative allow report =
      logSection ''Type parameter with variance:''
        (map bulletLine (filter (\<lambda>s. s \<notin> allow_typeParameterWithVariance allow)
           (map (displayLocation relative) (typeParameterWithVariance report)))) @
      logSection ''Object property with an internal name:''
        (map bulletLine (map (displayLocation relative) (objectPropertyWithInternalName report))) @
      logSection ''Object property with negative variance:''
        (map bulletLine (map (displayLocation relative) (objectPropertyWithMinusVariance report))) @
      logSection ''Unsupported type cast:''
        (map bulletLine (map (displayLocation relative) (unsupportedTypeCast report)))"
    by (simp add: logReport_def logTypeParameterWithVariance_def
        shownTypeParameterWithVariance_def logObjectPropertyWithInternalName_def
        logObjectPropertyWithMinusVariance_def logUnsupportedTypeCast_def)
  have l2: "modules_logReport relative mallow mreport =
      logSection ''Skipped large files:''
        (map bulletLine (map relative (skippedLargeFiles mreport))) @
      logSection ''Require not called:''
        (map bulletLine (filter (\<lambda>s. s \<notin> allow_requireNotCalled mallow)
           (map (displayLocation relative) (requireNotCalled mreport)))) @
      logSection ''Required something other than a string:''
        (map bulletLine (filter (\<lambda>s. s \<notin> allow_requireOtherThanString mallow)
           (map (displayLocation relative) (requireOtherThanString mreport)))) @
      logSection ''Required something other than a string:''
        (map (bulletLine \<circ> (\<lambda>e. ''Cannot find module '' @ [CHR 0x27] @ fst e @ [CHR 0x27] @
              '' in '' @ [CHR 0x27] @ snd e @ [CHR 0x27]))
           (filter (\<lambda>(moduleId, s). s \<notin> allow_cannotFindModule mallow)
              (map (\<lambda>(moduleId, l). (moduleId, displayLocation relative l))
                 (cannotFindModule mreport)))) @
      logSection ''Module reference is not an exports assignment:''
        (map bulletLine (filter (\<lambda>s. s \<notin> allow_moduleNotExportAssignment mallow)
           (map (displayLocation relative) (moduleNotExportAssignment mreport)))) @
      logSection ''Unable to load external module:''
        (map bulletLine (map relative (unableToLoadExternalModule mreport)))"
    by (simp add: modules_logReport_def logSkippedLargeFiles_def logRequireNotCalled_def
        shownRequireNotCalled_def logRequireOtherThanString_def shownRequireOtherThanString_def
        logCannotFindModule_def shownCannotFindModule_def cl
        logModuleNotExportAssignment_def shownModuleNotExportAssignment_def
        logUnableToLoadExternalModule_def comp_def)
  show "let render = (\<lambda>l. relative (filePath l) @ '':'' @ showNat (line (loc_start l)) @ '':'' @
                         showNat (column (loc_start l)));
          bulleted = (\<lambda>s. [CHR 0xE2, CHR 0x80, CHR 0xA2] @ '' '' @ s);
          block = (\<lambda>heading entries.
                     if entries = [] then [] else [[], heading] @ map bulleted entries)
      in logReport relative allow report =
           block ''Type parameter with variance:''
             (filter (\<lambda>s. s \<notin> allow_typeParameterWithVariance allow)
                (map render (typeParameterWithVariance report))) @
           block ''Object property with an internal name:''
             (map render (objectPropertyWithInternalName report)) @
           block ''Object property with negative variance:''
             (map render (objectPropertyWithMinusVariance report)) @
           block ''Unsupported type cast:''
             (map render (unsupportedTypeCast report)) \<and>
         modules_logReport relative mallow mreport =
           block ''Skipped large files:''
             (map relative (skippedLargeFiles mreport)) @
           block ''Require not called:''
             (filter (\<lambda>s. s \<notin> allow_requireNotCalled mallow)
                (map render (requireNotCalled mreport))) @
           block ''Required something other than a string:''
             (filter (\<lambda>s. s \<notin> allow_requireOtherThanString mallow)
                (map render (requireOtherThanString mreport))) @
           block ''Required something other than a string:''
             (map (\<lambda>(moduleId, s). ''Cannot find module '' @ [CHR 0x27] @ moduleId @ [CHR 0x27] @
                                    '' in '' @ [CHR 0x27] @ s @ [CHR 0x27])
                (filter (\<lambda>(moduleId, s). s \<notin> allow_cannotFindModule mallow)
                   (map (\<lambda>(moduleId, l). (moduleId, render l)) (cannotFindModule mreport)))) @
           block ''Module reference is not an exports assignment:''
             (filter (\<lambda>s. s \<notin> allow_moduleNotExportAssignment mallow)
                (map render (moduleNotExportAssignment mreport))) @
           block ''Unable to load external module:''
             (map relative (unableToLoadExternalModule mreport))"
    unfolding Let_def r b c l1 l2 logSection_block
    by (simp add: comp_def)
qed

text \<open>
  Two type parameters with variance, the second in the allowlist, and one unsupported
  cast at the allowlisted location: the allowlisted type parameter is not printed, the
  cast is, its category having no allowlist.
\<close>

lemma logReport_example:
  "logReport (\<lambda>p. drop 5 p)
     \<lparr>allow_typeParameterWithVariance = {''src/b.js:12:0''}\<rparr>
     \<lparr>typeParameterWithVariance =
        [\<lparr>filePath = ''/app/src/a.js'', loc_start = \<lparr>line = 3, column = 14\<rparr>,
          loc_end = \<lparr>line = 3, column = 16\<rparr>\<rparr>,
         \<lparr>filePath = ''/app/src/b.js'', loc_start = \<lparr>line = 12, column = 0\<rparr>,
          loc_end = \<lparr>line = 12, column = 2\<rparr>\<rparr>],
      objectPropertyWithInternalName = [],
      objectPropertyWithMinusVariance = [],
      unsupportedTypeCast =
        [\<lparr>filePath = ''/app/src/b.js'', loc_start = \<lparr>line = 12, column = 0\<rparr>,
          loc_end = \<lparr>line = 12, column = 9\<rparr>\<rparr>]\<rparr> =
   ['''', ''Type parameter with variance:'',
    [CHR 0xE2, CHR 0x80, CHR 0xA2] @ '' src/a.js:3:14'',
    '''', ''Unsupported type cast:'',
    [CHR 0xE2, CHR 0x80, CHR 0xA2] @ '' src/b.js:12:0'']"
  by code_simp

section \<open>Reading the oracle's answer\<close>

lemma splitOn_nonempty: "splitOn sep s \<noteq> []"
  by (induction s) (auto split: list.splits)

lemma hd_splitOn: "hd (splitOn sep s) = takeWhile (\<lambda>c. c \<noteq> sep) s"
  by (induction s) (auto split: list.splits simp: splitOn_nonempty)

lemma first_line: "hd (split_limit sep 2 s) = takeWhile (\<lambda>c. c \<noteq> sep) s"
proof -
  obtain w ws where "splitOn sep s = w # ws"
    using splitOn_nonempty [of sep s] by (cases "splitOn sep s") auto
  then show ?thesis
    using hd_splitOn [of sep s] by (simp add: split_limit_def numeral_2_eq_2)
qed

lemma replaceQualifier_append:
  "q = '' (implicit)'' \<or> q = '' (explicit)'' \<Longrightarrow> replaceQualifier (p @ q) = p"
proof (induction p)
  case Nil
  then show ?case by auto
next
  case (Cons c p)
  have "length (c # p @ q) \<noteq> length q" by simp
  then have "c # p @ q \<noteq> '' (implicit)''" "c # p @ q \<noteq> '' (explicit)''"
    using Cons.prems by auto
  then show ?case using Cons by simp
qed

lemma replaceQualifier_other:
  "\<not> suffix '' (implicit)'' l \<Longrightarrow> \<not> suffix '' (explicit)'' l \<Longrightarrow> replaceQualifier l = l"
proof (induction l)
  case Nil
  then show ?case by simp
next
  case (Cons c l)
  have "\<not> suffix '' (implicit)'' l" "\<not> suffix '' (explicit)'' l"
    using Cons.prems by (auto simp: suffix_Cons)
  moreover have "c # l \<noteq> '' (implicit)''" "c # l \<noteq> '' (explicit)''"
    using Cons.prems by auto
  ultimately show ?case using Cons.IH by simp
qed

lemma replaceQualifier_suffix:
  "replaceQualifier l =
     (if suffix '' (implicit)'' l \<or> suffix '' (explicit)'' l then take (length l - 11) l else l)"
proof (cases "suffix '' (implicit)'' l \<or> suffix '' (explicit)'' l")
  case True
  then obtain p q where l: "l = p @ q" and q: "q = '' (implicit)'' \<or> q = '' (explicit)''"
    by (auto simp: suffix_def)
  have "length q = 11" using q by auto
  then have "take (length l - 11) l = p" by (simp add: l)
  then show ?thesis using True replaceQualifier_append [OF q, of p] l by simp
next
  case False
  then show ?thesis by (simp add: replaceQualifier_other)
qed

text \<open>
  Claim C2. Of the oracle's raw answer only the first line counts, without a trailing
  qualifier \<open>(implicit)\<close> or \<open>(explicit)\<close> (and the space before it). When what is left is
  \<open>(unknown)\<close> the result is none; when it has 100 characters or more the result is none;
  when it has 99 or fewer and is not \<open>(unknown)\<close> it is handed to the parser (as the right
  side of a type alias) and the parsed type is the result.
\<close>

theorem processFlowTypeAtPosStdout_guard:
  "(let l = takeWhile (\<lambda>c. c \<noteq> CHR 0x0A) stdout;
        s = (if suffix '' (implicit)'' l \<or> suffix '' (explicit)'' l
             then take (length l - 11) l else l)
    in (s = ''(unknown)'' \<longrightarrow> processFlowTypeAtPosStdout parse stdout = Inr None) \<and>
       (100 \<le> length s \<longrightarrow> processFlowTypeAtPosStdout parse stdout = Inr None) \<and>
       (length s \<le> 99 \<and> s \<noteq> ''(unknown)'' \<longrightarrow>
          processFlowTypeAtPosStdout parse stdout =
            (case parse (''type T = '' @ s) of Inl e \<Rightarrow> Inl e | Inr t \<Rightarrow> Inr (Some t))))"
  unfolding processFlowTypeAtPosStdout_def first_line replaceQualifier_suffix
  by (auto simp: Let_def bindE_def)

theorem processFlowTypeAtPosStdout_guard_witness:
  "processFlowTypeAtPosStdout (\<lambda>s. if s = ''type T = string'' then Inr StringTypeAnnotation else Inl (SyntaxError s)) (''(unknown) (explicit)'' @ [CHR 0x0A]) = Inr None \<and>
   processFlowTypeAtPosStdout (\<lambda>s. if s = ''type T = string'' then Inr StringTypeAnnotation else Inl (SyntaxError s)) ''aaaaaaaaaaaaaaaaaaaaaaaaaaaaaaaaaaaaaaaaaaaaaaaaaaaaaaaaaaaaaaaaaaaaaaaaaaaaaaaaaaaaaaaaaaaaaaaaaaaa'' = Inr None \<and>
   processFlowTypeAtPosStdout (\<lambda>s. if s = ''type T = string'' then Inr StringTypeAnnotation else Inl (SyntaxError s)) (''string (implicit)'' @ [CHR 0x0A] @ ''more'') =
     Inr (Some StringTypeAnnotation) \<and>
   processFlowTypeAtPosStdout (\<lambda>s. if s = ''type T = string'' then Inr StringTypeAnnotation else Inl (SyntaxError s)) ''(ccccccccccccccccccccccccccccccccccccccccccccccccccccccccccccccccccccccccccccccccccccccccccccccccc)'' = Inl (SyntaxError ''type T = (ccccccccccccccccccccccccccccccccccccccccccccccccccccccccccccccccccccccccccccccccccccccccccccccccc)'')"
  using processFlowTypeAtPosStdout_guard
      [where parse = "(\<lambda>s. if s = ''type T = string'' then Inr StringTypeAnnotation else Inl (SyntaxError s))" and stdout = "''(unknown) (explicit)'' @ [CHR 0x0A]"]
    processFlowTypeAtPosStdout_guard
      [where parse = "(\<lambda>s. if s = ''type T = string'' then Inr StringTypeAnnotation else Inl (SyntaxError s))" and stdout = "''aaaaaaaaaaaaaaaaaaaaaaaaaaaaaaaaaaaaaaaaaaaaaaaaaaaaaaaaaaaaaaaaaaaaaaaaaaaaaaaaaaaaaaaaaaaaaaaaaaaa''"]
    processFlowTypeAtPosStdout_guard
      [where parse = "(\<lambda>s. if s = ''type T = string'' then Inr StringTypeAnnotation else Inl (SyntaxError s))" and stdout = "''string (implicit)'' @ [CHR 0x0A] @ ''more''"]
    processFlowTypeAtPosStdout_guard
      [where parse = "(\<lambda>s. if s = ''type T = string'' then Inr StringTypeAnnotation else Inl (SyntaxError s))" and stdout = "''(ccccccccccccccccccccccccccccccccccccccccccccccccccccccccccccccccccccccccccccccccccccccccccccccccc)''"]
  by (simp_all add: suffix_to_prefix Let_def)

section \<open>Migrating types: loops that may throw\<close>

lemma bindE_Inr_iff: "bindE m f = Inr y \<longleftrightarrow> (\<exists>x. m = Inr x \<and> f x = Inr y)"
  by (cases m) (auto simp: bindE_def)

lemma bindE_Inl_iff: "bindE m f = Inl e \<longleftrightarrow> m = Inl e \<or> (\<exists>x. m = Inr x \<and> f x = Inl e)"
  by (cases m) (auto simp: bindE_def)

lemma bindE_simps [simp]: "bindE (Inl e) f = Inl e" "bindE (Inr x) f = f x"
  by (simp_all add: bindE_def)

lemma mapE_Inr_iff: "mapE f xs = Inr ys \<longleftrightarrow> map f xs = map Inr ys"
proof (induction xs arbitrary: ys)
  case Nil
  then show ?case by auto
next
  case (Cons x xs)
  show ?case
  proof (cases ys)
    case Nil
    then show ?thesis by (auto simp: bindE_Inr_iff)
  next
    case (Cons y ys')
    then show ?thesis using Cons.IH [of ys'] by (auto simp: bindE_Inr_iff)
  qed
qed

section \<open>Union types\<close>

lemma unionMembers_None:
  "unionMembers None i tsMembers = (None, map parenthesizeFunction tsMembers)"
  by (induction tsMembers arbitrary: i) auto

lemma finishUnion_eq: "finishUnion tsMembers = TSUnionType (map parenthesizeFunction tsMembers)"
  by (simp add: finishUnion_def unionMembers_None)

lemma parenthesized_members:
  "list_all2 (\<lambda>tsMember member.
      if \<exists>typeParameters parameters returnType.
           tsMember = TSFunctionType typeParameters parameters returnType
      then member = TSParenthesizedType tsMember else member = tsMember) tsMembers members \<longleftrightarrow>
   members = map parenthesizeFunction tsMembers"
proof (induction tsMembers arbitrary: members)
  case Nil
  then show ?case by simp
next
  case (Cons t ts)
  show ?case
  proof (cases members)
    case Nil
    then show ?thesis by simp
  next
    case (Cons m ms)
    have "(if \<exists>typeParameters parameters returnType.
              t = TSFunctionType typeParameters parameters returnType
           then m = TSParenthesizedType t else m = t) \<longleftrightarrow> m = parenthesizeFunction t"
      by (cases t) (simp_all add: parenthesizeFunction_def)
    then show ?thesis using Cons.IH [of ms] Cons by simp
  qed
qed

text \<open>
  Claim C10. A union type migrates exactly when every member does, and then to a union
  type with one member for each member of the origin, in the origin's order: the
  migrated member itself, or the migrated member inside a parenthesized type when it is
  a function type. The result is never the bare \<open>any\<close>: \<open>anyMemberIndex\<close> is only ever set
  when it is already set, so a member that migrates to \<open>any\<close> does not replace the union.
\<close>

theorem union_one_member_each_never_collapsed:
  "(migrateType (UnionTypeAnnotation types) = Inr r \<longleftrightarrow>
      (\<exists>tsMembers members.
          map migrateType types = map Inr tsMembers \<and>
          list_all2 (\<lambda>tsMember member.
              if \<exists>typeParameters parameters returnType.
                   tsMember = TSFunctionType typeParameters parameters returnType
              then member = TSParenthesizedType tsMember else member = tsMember)
            tsMembers members \<and>
          r = TSUnionType members)) \<and>
   migrateType (UnionTypeAnnotation types) \<noteq> Inr TSAnyKeyword"
  unfolding parenthesized_members
  by (auto simp: bindE_Inr_iff mapE_Inr_iff finishUnion_eq)

text \<open>
  \<open>any | (string => void) | string\<close>: the member \<open>any\<close> stays a member, the function type is
  parenthesized.
\<close>

lemma union_with_any_member:
  "migrateType (UnionTypeAnnotation
      [AnyTypeAnnotation,
       FunctionTypeAnnotation None [FunctionTypeParam None None StringTypeAnnotation] None
         VoidTypeAnnotation,
       StringTypeAnnotation]) =
     Inr (TSUnionType
      [TSAnyKeyword,
       TSParenthesizedType
         (TSFunctionType None [TSParam ''arg1'' None TSStringKeyword] TSVoidKeyword),
       TSStringKeyword])"
  by code_simp

section \<open>Kinds returned and constructs refused\<close>

lemma migrateGeneric_kind:
  "tsKind (migrateGeneric ident params) \<in> {''TSTypeReference'', ''TSTypeOperator'', ''TSIndexedAccessType''}"
  by (simp add: migrateGeneric_def)

lemma migrateGeneric_None: "\<exists>n. migrateGeneric ident None = TSTypeReference n None"
  by (simp add: migrateGeneric_def)

lemma migrateGeneric_Some: "migrateGeneric ident (Some ps) \<noteq> TSTypeReference n None"
  by (simp add: migrateGeneric_def)

lemma pushMember_refs:
  assumes "list_all parenthesizedReference acc" and "parenthesizedSpread m"
  shows "list_all parenthesizedReference (pushMember acc m)"
proof (cases m)
  case (SpreadMember ty)
  then show ?thesis using assms by simp
next
  case (ElementMember el)
  show ?thesis
  proof (cases "acc = []")
    case True
    then show ?thesis using ElementMember by simp
  next
    case False
    then obtain b l where acc: "acc = b @ [l]" by (metis rev_exhaust)
    then show ?thesis using ElementMember assms(1)
      by (cases l) simp_all
  qed
qed

lemma fold_pushMember_refs:
  "list_all parenthesizedReference acc \<Longrightarrow> list_all parenthesizedSpread ms \<Longrightarrow>
   list_all parenthesizedReference (fold (\<lambda>m acc. pushMember acc m) ms acc)"
proof (induction ms arbitrary: acc)
  case Nil
  then show ?case by simp
next
  case (Cons m ms)
  then show ?case using pushMember_refs [of acc m] by simp
qed

lemma entryType_kind:
  assumes "parenthesizedReference e"
  shows "tsKind (entryType e) \<in> {''TSTypeLiteral'', ''TSTypeReference'', ''TSParenthesizedType''}"
proof (cases e)
  case (LiteralEntry members)
  then show ?thesis by (cases "onlyIndexSignature members") auto
next
  case (ReferenceEntry ty)
  then show ?thesis using assms by simp
qed

lemma finishObject_kind:
  assumes "list_all parenthesizedSpread ms"
  shows "tsKind (finishObject ms) \<in>
           {''TSTypeLiteral'', ''TSTypeReference'', ''TSParenthesizedType'', ''TSIntersectionType''}"
proof -
  let ?its = "fold (\<lambda>m acc. pushMember acc m) ms []"
  have refs: "list_all parenthesizedReference ?its"
    using fold_pushMember_refs [of "[]" ms] assms by simp
  show ?thesis
  proof (cases "length ?its = 1")
    case True
    then obtain e where e: "?its = [e]" by (cases ?its) auto
    then have "parenthesizedReference e" using refs by simp
    then show ?thesis using entryType_kind [of e] e
      by (auto simp: finishObject_def)
  next
    case False
    then show ?thesis by (simp add: finishObject_def Let_def)
  qed
qed

lemma mapE_list_all:
  assumes "mapE f xs = Inr ys" and "\<And>x y. x \<in> set xs \<Longrightarrow> f x = Inr y \<Longrightarrow> P y"
  shows "list_all P ys"
  using assms
proof (induction xs arbitrary: ys)
  case Nil
  then show ?case by simp
next
  case (Cons x xs)
  from Cons.prems(1) obtain y ys' where y: "f x = Inr y" and ys': "mapE f xs = Inr ys'"
    and ys: "ys = y # ys'"
    by (auto simp: bindE_Inr_iff)
  have "P y" using Cons.prems(2) [of x y] y by simp
  moreover have "list_all P ys'"
  proof (rule Cons.IH [OF ys'])
    fix x' y' assume "x' \<in> set xs" "f x' = Inr y'"
    then show "P y'" using Cons.prems(2) [of x' y'] by simp
  qed
  ultimately show ?case using ys by simp
qed

lemma migrateFlowMember_parenthesized:
  "migrateFlowMember m = Inr r \<Longrightarrow> parenthesizedSpread r"
  by (cases m) (auto simp: bindE_Inr_iff)

lemma migrateType_kind:
  "migrateType t = Inr ts \<Longrightarrow> tsKind ts \<in> set (targetKinds t)"
proof (cases t)
  case (GenericTypeAnnotation ident ps)
  assume "migrateType t = Inr ts"
  then show ?thesis using GenericTypeAnnotation migrateGeneric_kind
    by (auto simp: bindE_Inr_iff)
next
  case (ObjectTypeAnnotation a b c d)
  assume "migrateType t = Inr ts"
  then obtain ms where ms: "mapE migrateFlowMember (sort_key memberLine (a @ b @ c @ d)) = Inr ms"
    and ts: "ts = finishObject ms"
    using ObjectTypeAnnotation by (auto simp: bindE_Inr_iff)
  have "list_all parenthesizedSpread ms"
    by (rule mapE_list_all [OF ms]) (rule migrateFlowMember_parenthesized)
  then show ?thesis using finishObject_kind [of ms] ts ObjectTypeAnnotation by simp
next
  case (TypeofTypeAnnotation arg)
  assume "migrateType t = Inr ts"
  then obtain x where "migrateType arg = Inr x"
    and "(case x of TSTypeReference typeName typeParameters \<Rightarrow>
            (if typeParameters \<noteq> None then Inl UnexpectedTypeofTypeParameters
             else Inr (TSTypeQuery typeName))
          | _ \<Rightarrow> Inl (UnexpectedASTNode (tsKind x))) = Inr ts"
    using TypeofTypeAnnotation by (auto simp: bindE_Inr_iff)
  then show ?thesis using TypeofTypeAnnotation
    by (cases x) (auto split: if_splits)
qed (auto simp: bindE_Inr_iff finishUnion_eq)


lemma mapE_success:
  assumes "\<And>x. x \<in> set xs \<Longrightarrow> (\<exists>y. f x = Inr y) \<longleftrightarrow> Q x"
  shows "(\<exists>ys. mapE f xs = Inr ys) \<longleftrightarrow> list_all Q xs"
  using assms
proof (induction xs)
  case Nil
  then show ?case by simp
next
  case (Cons x xs)
  have "(\<exists>ys. mapE f xs = Inr ys) \<longleftrightarrow> list_all Q xs"
    by (rule Cons.IH) (simp add: Cons.prems)
  moreover have "(\<exists>y. f x = Inr y) \<longleftrightarrow> Q x" by (simp add: Cons.prems)
  ultimately show ?case by (auto simp: bindE_Inr_iff)
qed

lemma mapEi_success:
  assumes "\<And>i x. x \<in> set xs \<Longrightarrow> (\<exists>y. f i x = Inr y) \<longleftrightarrow> Q x"
  shows "(\<exists>ys. mapEi f i xs = Inr ys) \<longleftrightarrow> list_all Q xs"
  using assms
proof (induction xs arbitrary: i)
  case Nil
  then show ?case by simp
next
  case (Cons x xs)
  have "(\<exists>ys. mapEi f (Suc i) xs = Inr ys) \<longleftrightarrow> list_all Q xs"
    by (rule Cons.IH) (simp add: Cons.prems)
  moreover have "(\<exists>y. f i x = Inr y) \<longleftrightarrow> Q x" by (simp add: Cons.prems)
  ultimately show ?case by (auto simp: bindE_Inr_iff)
qed

lemma entryType_not_plain:
  assumes "parenthesizedReference e"
  shows "entryType e \<noteq> TSTypeReference n None"
proof (cases e)
  case (LiteralEntry members)
  then show ?thesis by (cases "onlyIndexSignature members") (auto split: if_splits)
next
  case (ReferenceEntry ty)
  then show ?thesis using assms by auto
qed

lemma finishObject_not_plain:
  assumes "list_all parenthesizedSpread ms"
  shows "finishObject ms \<noteq> TSTypeReference n None"
proof -
  let ?its = "fold (\<lambda>m acc. pushMember acc m) ms []"
  have refs: "list_all parenthesizedReference ?its"
    using fold_pushMember_refs [of "[]" ms] assms by simp
  show ?thesis
  proof (cases "length ?its = 1")
    case True
    then obtain e where e: "?its = [e]" by (cases ?its) auto
    then have "parenthesizedReference e" using refs by simp
    then show ?thesis using entryType_not_plain [of e] e
      by (auto simp: finishObject_def)
  next
    case False
    then show ?thesis by (simp add: finishObject_def Let_def)
  qed
qed

lemma migrateType_plain:
  assumes "migrateType arg = Inr x"
  shows "(\<exists>n. x = TSTypeReference n None) \<longleftrightarrow> isPlainName arg"
proof (cases arg)
  case (GenericTypeAnnotation ident ps)
  show ?thesis
  proof (cases "ps = None \<or> ps = Some []")
    case True
    then show ?thesis using assms GenericTypeAnnotation migrateGeneric_None [of "migrateQualifiedIdentifier ident"]
      by auto
  next
    case False
    then show ?thesis using assms GenericTypeAnnotation migrateGeneric_Some
      by (auto simp: bindE_Inr_iff)
  qed
next
  case (ObjectTypeAnnotation a b c d)
  then obtain ms where ms: "mapE migrateFlowMember (sort_key memberLine (a @ b @ c @ d)) = Inr ms"
    and x: "x = finishObject ms"
    using assms by (auto simp: bindE_Inr_iff)
  have "list_all parenthesizedSpread ms"
    by (rule mapE_list_all [OF ms]) (rule migrateFlowMember_parenthesized)
  then show ?thesis using finishObject_not_plain [of ms] x ObjectTypeAnnotation by simp
next
  case (TypeofTypeAnnotation a)
  then show ?thesis using migrateType_kind [OF assms] by auto
qed (use assms in \<open>auto simp: bindE_Inr_iff finishUnion_eq\<close>)

lemma migrateType_function:
  assumes "migrateType v = Inr x"
  shows "tsKind x = ''TSFunctionType'' \<longleftrightarrow> isFunctionTypeAnnotation v"
  using migrateType_kind [OF assms] by (cases v) auto

lemma typeof_success:
  "(\<exists>ts. (case x of TSTypeReference typeName typeParameters \<Rightarrow>
            (if typeParameters \<noteq> None then Inl UnexpectedTypeofTypeParameters
             else Inr (TSTypeQuery typeName))
          | _ \<Rightarrow> Inl (UnexpectedASTNode (tsKind x))) = Inr ts) \<longleftrightarrow> (\<exists>n. x = TSTypeReference n None)"
  by (cases x) auto

lemma method_success:
  "(\<exists>r. (case x of TSFunctionType typeParameters parameters typeAnnotation \<Rightarrow>
            Inr (f typeParameters parameters typeAnnotation)
          | _ \<Rightarrow> Inl (UnexpectedASTNode (tsKind x))) = Inr r) \<longleftrightarrow> tsKind x = ''TSFunctionType''"
  by (cases x) auto


lemma bindE_success: "(\<exists>y. bindE m (\<lambda>x. Inr (g x)) = Inr y) \<longleftrightarrow> (\<exists>x. m = Inr x)"
  by (cases m) auto

lemma option_success:
  "(\<exists>r. (case opt of None \<Rightarrow> Inr None | Some b \<Rightarrow> bindE (f b) (\<lambda>ty. Inr (Some ty))) = Inr r) \<longleftrightarrow>
   (case opt of None \<Rightarrow> True | Some b \<Rightarrow> \<exists>y. f b = Inr y)"
  by (cases opt) (auto simp: bindE_Inr_iff)

lemma supported_iff:
  fixes t :: flowType and p :: functionTypeParam and tp :: typeParameter and m :: objectMember
  shows "(\<exists>ts. migrateType t = Inr ts) \<longleftrightarrow> supportedType t"
    and "(\<forall>i. (\<exists>r. migrateFunctionParam i p = Inr r) \<longleftrightarrow> supportedParam p) \<and>
         ((\<exists>r. migrateFunctionRest p = Inr r) \<longleftrightarrow> supportedParam p)"
    and "(\<exists>r. migrateTypeParameter tp = Inr r) \<longleftrightarrow> supportedTypeParameter tp"
    and "(\<exists>r. migrateFlowMember m = Inr r) \<longleftrightarrow> supportedMember m"
proof (induction t and p and tp and m)
  case (FunctionTypeAnnotation tps ps rest ret)
  have a: "(\<exists>r. (case tps of None \<Rightarrow> Inr None
            | Some l \<Rightarrow> bindE (mapE migrateTypeParameter l) (\<lambda>r. Inr (Some r))) = Inr r) \<longleftrightarrow>
        (case tps of None \<Rightarrow> True | Some l \<Rightarrow> list_all supportedTypeParameter l)"
  proof (cases tps)
    case None
    then show ?thesis by simp
  next
    case (Some l)
    have "(\<exists>ys. mapE migrateTypeParameter l = Inr ys) \<longleftrightarrow> list_all supportedTypeParameter l"
      by (rule mapE_success) (use Some FunctionTypeAnnotation.IH(1) in auto)
    then show ?thesis using Some by (simp add: bindE_success)
  qed
  have b: "(\<exists>ys. mapEi migrateFunctionParam 0 ps = Inr ys) \<longleftrightarrow> list_all supportedParam ps"
    by (rule mapEi_success) (use FunctionTypeAnnotation.IH(2) in auto)
  have c: "(\<exists>r. (case rest of None \<Rightarrow> Inr []
            | Some flowRest \<Rightarrow> bindE (migrateFunctionRest flowRest) (\<lambda>r. Inr [r])) = Inr r) \<longleftrightarrow>
        (case rest of None \<Rightarrow> True | Some r \<Rightarrow> supportedParam r)"
    using FunctionTypeAnnotation.IH(3) by (cases rest) (auto simp: bindE_success)
  have d: "(\<exists>ts. migrateType ret = Inr ts) \<longleftrightarrow> supportedType ret"
    by (rule FunctionTypeAnnotation.IH(4))
  show ?case
    using a b c d by (simp add: bindE_Inr_iff) blast
next
  case (GenericTypeAnnotation ident ps)
  show ?case
  proof (cases ps)
    case None
    then show ?thesis by simp
  next
    case (Some l)
    have "(\<exists>ys. mapE migrateType l = Inr ys) \<longleftrightarrow> list_all supportedType l"
      by (rule mapE_success) (use Some GenericTypeAnnotation.IH in auto)
    then show ?thesis using Some by (cases l) (auto simp: bindE_Inr_iff)
  qed
next
  case (IntersectionTypeAnnotation types)
  have "(\<exists>ys. mapE migrateType types = Inr ys) \<longleftrightarrow> list_all supportedType types"
    by (rule mapE_success) (use IntersectionTypeAnnotation.IH in auto)
  then show ?case by (simp add: bindE_success)
next
  case (TupleTypeAnnotation types)
  have "(\<exists>ys. mapE migrateType types = Inr ys) \<longleftrightarrow> list_all supportedType types"
    by (rule mapE_success) (use TupleTypeAnnotation.IH in auto)
  then show ?case by (simp add: bindE_success)
next
  case (UnionTypeAnnotation types)
  have "(\<exists>ys. mapE migrateType types = Inr ys) \<longleftrightarrow> list_all supportedType types"
    by (rule mapE_success) (use UnionTypeAnnotation.IH in auto)
  then show ?case by (simp add: bindE_success)
next
  case (ObjectTypeAnnotation a b c d)
  have "(\<exists>ys. mapE migrateFlowMember (sort_key memberLine (a @ b @ c @ d)) = Inr ys) \<longleftrightarrow>
        list_all supportedMember (sort_key memberLine (a @ b @ c @ d))"
  proof (rule mapE_success)
    fix x assume "x \<in> set (sort_key memberLine (a @ b @ c @ d))"
    then consider "x \<in> set a" | "x \<in> set b" | "x \<in> set c" | "x \<in> set d" by auto
    then show "(\<exists>y. migrateFlowMember x = Inr y) \<longleftrightarrow> supportedMember x"
      by cases (simp_all add: ObjectTypeAnnotation.IH)
  qed
  moreover have "list_all supportedMember (sort_key memberLine (a @ b @ c @ d)) \<longleftrightarrow>
        list_all supportedMember (a @ b @ c @ d)"
    by (simp add: list_all_iff)
  ultimately show ?case by (simp add: bindE_success)
next
  case (TypeofTypeAnnotation arg)
  show ?case
  proof (cases "migrateType arg")
    case (Inl e)
    then show ?thesis using TypeofTypeAnnotation.IH by auto
  next
    case (Inr x)
    then have "supportedType arg" using TypeofTypeAnnotation.IH by auto
    then show ?thesis using Inr typeof_success [of x] migrateType_plain [OF Inr]
      by simp
  qed
next
  case (ObjectTypeProperty l key v opt var kind proto static isMethod)
  show ?case
  proof (cases "migrateType v")
    case (Inl e)
    then show ?thesis using ObjectTypeProperty.IH by (auto simp: bindE_Inr_iff)
  next
    case (Inr x)
    then have "supportedType v" using ObjectTypeProperty.IH by auto
    then show ?thesis
      using Inr migrateType_function [OF Inr]
        method_success [of x "\<lambda>a b c. TSMethodSignature key a b c
           (case key of KeyIdentifier _ \<Rightarrow> False | KeyStringLiteral _ \<Rightarrow> True) opt"]
      by (auto simp: bindE_Inr_iff)
  qed
next
  case (TypeParameter name var bound dflt)
  then show ?case
    by (cases bound; cases dflt) (auto simp: bindE_Inr_iff)
qed (auto simp: bindE_Inr_iff)


lemma mapE_Inl: "mapE f xs = Inl e \<Longrightarrow> \<exists>x \<in> set xs. f x = Inl e"
  by (induction xs) (auto simp: bindE_Inl_iff)

lemma mapEi_Inl: "mapEi f i xs = Inl e \<Longrightarrow> \<exists>x \<in> set xs. \<exists>j. f j x = Inl e"
  by (induction xs arbitrary: i) (auto simp: bindE_Inl_iff)

lemma migration_errors:
  fixes t :: flowType and p :: functionTypeParam and tp :: typeParameter and m :: objectMember
  shows "migrateType t = Inl e \<Longrightarrow> unsupportedConstructError e"
    and "(\<forall>i. migrateFunctionParam i p = Inl e \<longrightarrow> unsupportedConstructError e) \<and>
         (migrateFunctionRest p = Inl e \<longrightarrow> unsupportedConstructError e)"
    and "migrateTypeParameter tp = Inl e \<Longrightarrow> unsupportedConstructError e"
    and "migrateFlowMember m = Inl e \<Longrightarrow> unsupportedConstructError e"
proof (induction t and p and tp and m)
  case (FunctionTypeAnnotation tps ps rest ret)
  from FunctionTypeAnnotation.prems consider
      l where "tps = Some l" "mapE migrateTypeParameter l = Inl e"
    | "mapEi migrateFunctionParam 0 ps = Inl e"
    | r where "rest = Some r" "migrateFunctionRest r = Inl e"
    | "migrateType ret = Inl e"
    by (auto simp: bindE_Inl_iff split: option.splits)
  then show ?case
  proof cases
    case 1
    then show ?thesis using mapE_Inl [of migrateTypeParameter l e] FunctionTypeAnnotation.IH(1) by auto
  next
    case 2
    then show ?thesis using mapEi_Inl [of migrateFunctionParam 0 ps e] FunctionTypeAnnotation.IH(2) by auto
  next
    case 3
    then show ?thesis using FunctionTypeAnnotation.IH(3) by auto
  next
    case 4
    then show ?thesis using FunctionTypeAnnotation.IH(4) by auto
  qed
next
  case (GenericTypeAnnotation ident ps)
  then obtain l where "ps = Some l" "mapE migrateType l = Inl e"
    by (auto simp: bindE_Inl_iff split: option.splits if_splits)
  then show ?case using mapE_Inl [of migrateType l e] GenericTypeAnnotation.IH by auto
next
  case (IntersectionTypeAnnotation types)
  then have "mapE migrateType types = Inl e" by (auto simp: bindE_Inl_iff)
  then show ?case using mapE_Inl [of migrateType types e] IntersectionTypeAnnotation.IH by auto
next
  case (TupleTypeAnnotation types)
  then have "mapE migrateType types = Inl e" by (auto simp: bindE_Inl_iff)
  then show ?case using mapE_Inl [of migrateType types e] TupleTypeAnnotation.IH by auto
next
  case (UnionTypeAnnotation types)
  then have "mapE migrateType types = Inl e" by (auto simp: bindE_Inl_iff)
  then show ?case using mapE_Inl [of migrateType types e] UnionTypeAnnotation.IH by auto
next
  case (ObjectTypeAnnotation a b c d)
  then have "mapE migrateFlowMember (sort_key memberLine (a @ b @ c @ d)) = Inl e"
    by (auto simp: bindE_Inl_iff)
  then obtain x where "x \<in> set (a @ b @ c @ d)" "migrateFlowMember x = Inl e"
    using mapE_Inl [of migrateFlowMember "sort_key memberLine (a @ b @ c @ d)" e] by auto
  then show ?case using ObjectTypeAnnotation.IH by auto
next
  case (TypeofTypeAnnotation arg)
  show ?case
  proof (cases "migrateType arg")
    case (Inl e')
    then show ?thesis using TypeofTypeAnnotation by auto
  next
    case (Inr x)
    then show ?thesis using TypeofTypeAnnotation.prems by (cases x) (auto split: if_splits)
  qed
next
  case (ObjectTypeProperty l key v opt var kind proto static isMethod)
  show ?case
  proof (cases "migrateType v")
    case (Inl e')
    then show ?thesis using ObjectTypeProperty by (auto simp: bindE_Inl_iff split: if_splits)
  next
    case (Inr x)
    then show ?thesis using ObjectTypeProperty.prems
      by (cases x) (auto simp: bindE_Inl_iff split: if_splits)
  qed
next
  case (TypeParameter name var bound dflt)
  then show ?case
    by (cases bound; cases dflt) (auto simp: bindE_Inl_iff)
qed (auto simp: bindE_Inl_iff split: if_splits)

text \<open>
  Claim C9. \<open>migrateType\<close> is defined on every origin type, by recursion that
  terminates. On a tree without an unsupported construct it returns a node, of one of
  the target kinds enumerated for the origin's kind; on a tree with one it throws one of
  the migration's own errors. No kind falls through: the kinds outside the union reach
  the \<open>default\<close> branch and throw.
\<close>

theorem migrateType_exhaustive:
  "(supportedType t \<longrightarrow> (\<exists>ts. migrateType t = Inr ts \<and> tsKind ts \<in> set (targetKinds t))) \<and>
   (\<not> supportedType t \<longrightarrow> (\<exists>e. migrateType t = Inl e \<and> unsupportedConstructError e))"
proof (cases "migrateType t")
  case (Inl e)
  then show ?thesis using supported_iff(1) [of t] migration_errors(1) [of t e] by auto
next
  case (Inr ts)
  then show ?thesis using supported_iff(1) [of t] migrateType_kind [of t ts] by auto
qed

theorem migrateType_exhaustive_witness:
  "supportedType (ObjectTypeAnnotation []
      [ObjectTypeIndexer 1 (Some ''k'') (GenericTypeAnnotation (Id ''UserId'') None)
         StringTypeAnnotation None False] [] []) \<and>
   (\<exists>ts. migrateType (ObjectTypeAnnotation []
      [ObjectTypeIndexer 1 (Some ''k'') (GenericTypeAnnotation (Id ''UserId'') None)
         StringTypeAnnotation None False] [] []) = Inr ts \<and>
      tsKind ts \<in> {''TSTypeLiteral'', ''TSTypeReference'', ''TSParenthesizedType'',
                    ''TSIntersectionType''}) \<and>
   \<not> supportedType (ArrayTypeAnnotation (InterfaceTypeAnnotation (ObjectTypeAnnotation [] [] [] []))) \<and>
   (\<exists>e. migrateType (ArrayTypeAnnotation (InterfaceTypeAnnotation (ObjectTypeAnnotation [] [] [] []))) =
        Inl e \<and> unsupportedConstructError e)"
  using migrateType_exhaustive [of "ObjectTypeAnnotation []
      [ObjectTypeIndexer 1 (Some ''k'') (GenericTypeAnnotation (Id ''UserId'') None)
         StringTypeAnnotation None False] [] []"]
    migrateType_exhaustive [of "ArrayTypeAnnotation (InterfaceTypeAnnotation (ObjectTypeAnnotation [] [] [] []))"]
  by simp

section \<open>Indexers\<close>

lemma migrateType_string_number:
  assumes "migrateType k = Inr ts"
  shows "ts = TSStringKeyword \<longleftrightarrow> k = StringTypeAnnotation"
    and "ts = TSNumberKeyword \<longleftrightarrow> k = NumberTypeAnnotation"
  using migrateType_kind [OF assms] assms by (cases k; auto)+

lemma mapE_append:
  "mapE f (xs @ ys) = bindE (mapE f xs) (\<lambda>a. bindE (mapE f ys) (\<lambda>b. Inr (a @ b)))"
proof (induction xs)
  case Nil
  then show ?case by (cases "mapE f ys") auto
next
  case (Cons x xs)
  then show ?case
    by (cases "f x"; cases "mapE f xs"; cases "mapE f ys") auto
qed

lemma pushMember_nonempty: "pushMember acc m \<noteq> []"
  by (cases m) (auto split: intersectionEntry.splits)

lemma pushMember_prefix:
  "acc2 \<noteq> [] \<Longrightarrow> pushMember (acc1 @ acc2) m = acc1 @ pushMember acc2 m"
  by (cases m) (auto simp: butlast_append split: intersectionEntry.splits)

lemma fold_pushMember_prefix:
  "acc2 \<noteq> [] \<Longrightarrow>
   fold (\<lambda>m acc. pushMember acc m) ms (acc1 @ acc2) = acc1 @ fold (\<lambda>m acc. pushMember acc m) ms acc2"
proof (induction ms arbitrary: acc2)
  case Nil
  then show ?case by simp
next
  case (Cons m ms)
  then show ?case using pushMember_nonempty [of acc2 m] by (simp add: pushMember_prefix)
qed

lemma fold_pushMember_append:
  "fold (\<lambda>m acc. pushMember acc m) (xs @ ys) acc =
   fold (\<lambda>m acc. pushMember acc m) ys (fold (\<lambda>m acc. pushMember acc m) xs acc)"
  by simp

lemma fold_pushMember_last_spread:
  assumes "ms \<noteq> []" and "last ms = SpreadMember ty"
  shows "\<exists>pre. fold (\<lambda>m acc. pushMember acc m) ms acc = pre @ [ReferenceEntry ty]"
proof -
  obtain b where ms: "ms = b @ [SpreadMember ty]"
    using assms by (metis append_butlast_last_id)
  show ?thesis unfolding ms by simp
qed


lemma mapE_last:
  "mapE f xs = Inr ys \<Longrightarrow> xs \<noteq> [] \<Longrightarrow> ys \<noteq> [] \<and> f (last xs) = Inr (last ys)"
proof (induction xs arbitrary: ys)
  case Nil
  then show ?case by simp
next
  case (Cons x xs)
  then obtain y ys' where y: "f x = Inr y" and ys': "mapE f xs = Inr ys'" and ys: "ys = y # ys'"
    by (auto simp: bindE_Inr_iff)
  show ?case
  proof (cases "xs = []")
    case True
    then show ?thesis using y ys' ys by simp
  next
    case False
    then show ?thesis using Cons.IH [OF ys' False] y ys by simp
  qed
qed

lemma mapE_hd:
  "mapE f xs = Inr ys \<Longrightarrow> xs \<noteq> [] \<Longrightarrow> ys \<noteq> [] \<and> f (hd xs) = Inr (hd ys)"
  by (cases xs) (auto simp: bindE_Inr_iff)

lemma migrateFlowMember_spread:
  "isSpread m \<Longrightarrow> migrateFlowMember m = Inr r \<Longrightarrow> \<exists>ty. r = SpreadMember ty"
  by (cases m) (auto simp: bindE_Inr_iff)

lemma migrateFlowMember_indexer:
  assumes "migrateFlowMember (ObjectTypeIndexer l ident key val variance static) = Inr mi"
  shows "\<exists>tsKey tsValue name ro. migrateType key = Inr tsKey \<and> migrateType val = Inr tsValue \<and>
           mi = ElementMember (TSIndexSignature [TSParam name None tsKey] tsValue ro)"
  using assms by (auto simp: bindE_Inr_iff tsIdentifier_def split: if_splits)

lemma entryType_ObjectMap:
  "tsKey \<noteq> TSStringKeyword \<Longrightarrow> tsKey \<noteq> TSNumberKeyword \<Longrightarrow>
   entryType (LiteralEntry [TSIndexSignature [TSParam name opt tsKey] tsValue ro]) =
     TSTypeReference (TSQualifiedName (TSIdentifier ''h'') ''ObjectMap'') (Some [tsKey, tsValue])"
  by simp

lemma finishObject_around:
  assumes "mb = [] \<or> (\<exists>ty. last mb = SpreadMember ty)"
    and "ma = [] \<or> (\<exists>ty. hd ma = SpreadMember ty)"
  shows "\<exists>A B. fold (\<lambda>m acc. pushMember acc m) (mb @ [ElementMember el] @ ma) [] =
                  A @ [LiteralEntry [el]] @ B \<and> (mb = [] \<longrightarrow> A = []) \<and> (ma = [] \<longrightarrow> B = [])"
proof -
  let ?push = "\<lambda>m acc. pushMember acc m"
  obtain A where A: "fold ?push mb [] = A" and A0: "mb = [] \<longrightarrow> A = []"
    and Alast: "A = [] \<or> (\<exists>ty. last A = ReferenceEntry ty)"
  proof (cases "mb = []")
    case True
    then show ?thesis using that [of "[]"] by simp
  next
    case False
    then obtain ty where "last mb = SpreadMember ty" using assms(1) by auto
    then obtain pre where "fold ?push mb [] = pre @ [ReferenceEntry ty]"
      using fold_pushMember_last_spread [OF False, of ty "[]"] by auto
    then show ?thesis using that [of "pre @ [ReferenceEntry ty]"] False by simp
  qed
  have step: "pushMember A (ElementMember el) = A @ [LiteralEntry [el]]"
    using Alast by auto
  obtain B where B: "fold ?push ma (A @ [LiteralEntry [el]]) = A @ [LiteralEntry [el]] @ B"
    and B0: "ma = [] \<longrightarrow> B = []"
  proof (cases ma)
    case Nil
    then show ?thesis using that [of "[]"] by simp
  next
    case (Cons m ma')
    then obtain ty where m: "m = SpreadMember ty" using assms(2) by auto
    have "fold ?push ma (A @ [LiteralEntry [el]]) =
          fold ?push ma' ((A @ [LiteralEntry [el]]) @ [ReferenceEntry ty])"
      using Cons m by simp
    also have "\<dots> = (A @ [LiteralEntry [el]]) @ fold ?push ma' [ReferenceEntry ty]"
      by (rule fold_pushMember_prefix) simp
    finally show ?thesis using that [of "fold ?push ma' [ReferenceEntry ty]"] Cons by simp
  qed
  have "fold ?push (mb @ [ElementMember el] @ ma) [] = A @ [LiteralEntry [el]] @ B"
    using A step B by simp
  then show ?thesis using A0 B0 by blast
qed

text \<open>
  Claim C8, amended. An indexer that is alone in its literal (the members of the object
  type, in source order, between one spread and the next; the whole object type when it
  has no spread) and whose key type is neither \<open>string\<close> nor \<open>number\<close> becomes
  \<open>h.ObjectMap<K, V>\<close>, applied to the migrated key and value types: the migrated object
  type itself when the indexer is its only member, a member of the intersection
  otherwise.
\<close>

theorem indexer_alone_in_literal_becomes_ObjectMap:
  assumes "sort_key memberLine (properties @ indexers @ callProperties @ internalSlots) =
             before @ [ObjectTypeIndexer l ident key val variance static] @ after"
    and "before = [] \<or> isSpread (last before)"
    and "after = [] \<or> isSpread (hd after)"
    and "key \<noteq> StringTypeAnnotation" and "key \<noteq> NumberTypeAnnotation"
    and "migrateType (ObjectTypeAnnotation properties indexers callProperties internalSlots) = Inr r"
  shows "\<exists>tsKey tsValue. migrateType key = Inr tsKey \<and> migrateType val = Inr tsValue \<and>
           (r = TSTypeReference (TSQualifiedName (TSIdentifier ''h'') ''ObjectMap'')
                  (Some [tsKey, tsValue]) \<or>
            (\<exists>types. r = TSIntersectionType types \<and>
               TSTypeReference (TSQualifiedName (TSIdentifier ''h'') ''ObjectMap'')
                 (Some [tsKey, tsValue]) \<in> set types)) \<and>
           (before = [] \<and> after = [] \<longrightarrow>
              r = TSTypeReference (TSQualifiedName (TSIdentifier ''h'') ''ObjectMap'')
                    (Some [tsKey, tsValue]))"
proof -
  let ?ix = "ObjectTypeIndexer l ident key val variance static"
  let ?push = "\<lambda>m acc. pushMember acc m"
  from assms(6) obtain ms where ms: "mapE migrateFlowMember (before @ [?ix] @ after) = Inr ms"
    and r: "r = finishObject ms"
    using assms(1) by (auto simp: bindE_Inr_iff)
  from ms obtain mb mi ma where mb: "mapE migrateFlowMember before = Inr mb"
    and mi: "migrateFlowMember ?ix = Inr mi"
    and ma: "mapE migrateFlowMember after = Inr ma"
    and split: "ms = mb @ [mi] @ ma"
    unfolding mapE_append by (auto simp: bindE_Inr_iff)
  from migrateFlowMember_indexer [OF mi] obtain tsKey tsValue name ro where
    k: "migrateType key = Inr tsKey" and v: "migrateType val = Inr tsValue"
    and el: "mi = ElementMember (TSIndexSignature [TSParam name None tsKey] tsValue ro)"
    by blast
  let ?el = "TSIndexSignature [TSParam name None tsKey] tsValue ro"
  let ?om = "TSTypeReference (TSQualifiedName (TSIdentifier ''h'') ''ObjectMap'')
               (Some [tsKey, tsValue])"
  have key: "tsKey \<noteq> TSStringKeyword" "tsKey \<noteq> TSNumberKeyword"
    using migrateType_string_number [OF k] assms(4,5) by auto
  have om: "entryType (LiteralEntry [?el]) = ?om"
    using key by simp
  have before: "mb = [] \<or> (\<exists>ty. last mb = SpreadMember ty)"
  proof (cases "before = []")
    case True
    then show ?thesis using mb by simp
  next
    case False
    then have "isSpread (last before)" using assms(2) by simp
    then show ?thesis using mapE_last [OF mb False] migrateFlowMember_spread by blast
  qed
  have after: "ma = [] \<or> (\<exists>ty. hd ma = SpreadMember ty)"
  proof (cases "after = []")
    case True
    then show ?thesis using ma by simp
  next
    case False
    then have "isSpread (hd after)" using assms(3) by simp
    then show ?thesis using mapE_hd [OF ma False] migrateFlowMember_spread by blast
  qed
  obtain A B where its: "fold ?push ms [] = A @ [LiteralEntry [?el]] @ B"
    and A0: "mb = [] \<longrightarrow> A = []" and B0: "ma = [] \<longrightarrow> B = []"
    using finishObject_around [OF before after, of ?el] split el by auto
  have r_cases: "r = ?om \<or> (\<exists>types. r = TSIntersectionType types \<and> ?om \<in> set types)"
  proof (cases "A = [] \<and> B = []")
    case True
    then show ?thesis using its om r by (simp add: finishObject_def)
  next
    case False
    then have "length (A @ [LiteralEntry [?el]] @ B) \<noteq> 1" by (cases A; cases B) auto
    then have "r = TSIntersectionType (map entryType (A @ [LiteralEntry [?el]] @ B))"
      using its r by (simp add: finishObject_def Let_def)
    then show ?thesis using om by auto
  qed
  have alone: "before = [] \<and> after = [] \<longrightarrow> r = ?om"
  proof
    assume "before = [] \<and> after = []"
    then have "mb = []" "ma = []" using mb ma by auto
    then have "A = []" "B = []" using A0 B0 by auto
    then show "r = ?om" using its om r by (simp add: finishObject_def)
  qed
  show ?thesis using k v r_cases alone by blast
qed

theorem indexer_alone_in_literal_becomes_ObjectMap_witness:
  "migrateType (ObjectTypeAnnotation [] [ObjectTypeIndexer 1 (Some ''k'') (GenericTypeAnnotation (Id ''UserId'') None) StringTypeAnnotation None False] [] []) =
     Inr (TSTypeReference (TSQualifiedName (TSIdentifier ''h'') ''ObjectMap'') (Some [TSTypeReference (TSIdentifier ''UserId'') None, TSStringKeyword])) \<and>
   migrateType (ObjectTypeAnnotation [ObjectTypeSpreadProperty 1 (GenericTypeAnnotation (Id ''A'') None)] [ObjectTypeIndexer 2 (Some ''k'') (GenericTypeAnnotation (Id ''UserId'') None) StringTypeAnnotation None False] [] []) =
     Inr (TSIntersectionType
            [TSParenthesizedType (TSTypeReference (TSIdentifier ''A'') None),
             TSTypeReference (TSQualifiedName (TSIdentifier ''h'') ''ObjectMap'') (Some [TSTypeReference (TSIdentifier ''UserId'') None, TSStringKeyword])])"
  using indexer_alone_in_literal_becomes_ObjectMap
      [of "[]" "[ObjectTypeIndexer 1 (Some ''k'') (GenericTypeAnnotation (Id ''UserId'') None) StringTypeAnnotation None False]" "[]" "[]" "[]" 1 "Some ''k''" "GenericTypeAnnotation (Id ''UserId'') None"
          StringTypeAnnotation None False "[]"
          "TSTypeReference (TSQualifiedName (TSIdentifier ''h'') ''ObjectMap'') (Some [TSTypeReference (TSIdentifier ''UserId'') None, TSStringKeyword])"]
    indexer_alone_in_literal_becomes_ObjectMap
      [of "[ObjectTypeSpreadProperty 1 (GenericTypeAnnotation (Id ''A'') None)]" "[ObjectTypeIndexer 2 (Some ''k'') (GenericTypeAnnotation (Id ''UserId'') None) StringTypeAnnotation None False]" "[]" "[]" "[ObjectTypeSpreadProperty 1 (GenericTypeAnnotation (Id ''A'') None)]" 2 "Some ''k''" "GenericTypeAnnotation (Id ''UserId'') None"
          StringTypeAnnotation None False "[]"
          "TSIntersectionType
            [TSParenthesizedType (TSTypeReference (TSIdentifier ''A'') None),
             TSTypeReference (TSQualifiedName (TSIdentifier ''h'') ''ObjectMap'') (Some [TSTypeReference (TSIdentifier ''UserId'') None, TSStringKeyword])]"]
  by (simp add: migrateGeneric_def finishObject_def tsIdentifier_def)

text \<open>
  Claim C8 as stated fails: in \<open>{[k: UserId]: string, foo: number}\<close> the indexer is keyed
  by \<open>UserId\<close> and stays a literal index signature, because the literal has a second
  member.
\<close>

theorem indexer_with_sibling_stays_index_signature:
  "migrateType (ObjectTypeAnnotation
      [ObjectTypeProperty 1 (KeyIdentifier ''foo'') NumberTypeAnnotation False None ''init''
         False False False]
      [ObjectTypeIndexer 1 (Some ''k'') (GenericTypeAnnotation (Id ''UserId'') None) StringTypeAnnotation None False] [] []) =
     Inr (TSTypeLiteral
            [TSPropertySignature (KeyIdentifier ''foo'') TSNumberKeyword False False None,
             TSIndexSignature [TSParam ''k'' None (TSTypeReference (TSIdentifier ''UserId'') None)]
               TSStringKeyword None])"
  by (simp add: migrateGeneric_def finishObject_def tsIdentifier_def)

section \<open>Type casts\<close>

lemma nestedAnyCast_any:
  "nestedAnyCast (TypeCastExpression x AnyTypeAnnotation) = Some (x, AnyTypeAnnotation)"
  by simp

lemma nestedAnyCast_none:
  assumes "\<not> castThroughObjectOrFunction expression"
    and "\<nexists>x. expression = TypeCastExpression x AnyTypeAnnotation"
  shows "nestedAnyCast expression = None"
  using assms by (cases expression rule: nestedAnyCast.cases) auto

text \<open>
  Claim C1, amended. A cast whose annotation migrates is resolved by the first of these
  that applies (casts of a cast through \<open>Object\<close> or \<open>Function\<close> aside): a cast of a cast
  to \<open>any\<close> becomes an \<open>as\<close> cast of the inner expression to the outer type, through
  \<open>(x as any)\<close> in parentheses when the cast is the value of an object property inside
  \<open>createReactClass()\<close>; a cast to \<open>any\<close> becomes \<open>x as any\<close>; a string or numeric
  literal cast to its own literal type becomes \<open>as const\<close>; a cast of a complex literal
  becomes an \<open>as\<close> cast; every other cast becomes a call of \<open>u.cast\<close> with the migrated
  type as its type argument.
\<close>

theorem cast_resolution:
  assumes "migrateType typeAnnotation = Inr tsType"
    and "\<not> castThroughObjectOrFunction expression"
  shows
    "(\<forall>x. expression = TypeCastExpression x AnyTypeAnnotation \<longrightarrow>
        visitTypeCastExpression ancestors hasU flag expression typeAnnotation =
          Inr (if parentIsObjectProperty ancestors \<and> isInsideCreateReactClass ancestors
               then TSAsExpression (ParenthesizedExpression (TSAsExpression x TSAnyKeyword)) tsType
               else TSAsExpression x tsType, flag)) \<and>
     ((\<nexists>x. expression = TypeCastExpression x AnyTypeAnnotation) \<longrightarrow>
        (typeAnnotation = AnyTypeAnnotation \<longrightarrow>
           visitTypeCastExpression ancestors hasU flag expression typeAnnotation =
             Inr (TSAsExpression expression TSAnyKeyword, flag)) \<and>
        (typeAnnotation \<noteq> AnyTypeAnnotation \<and> isSelfLiteralCast expression typeAnnotation \<longrightarrow>
           visitTypeCastExpression ancestors hasU flag expression typeAnnotation =
             Inr (TSAsExpression expression (TSTypeReference (TSIdentifier ''const'') None), flag)) \<and>
        (typeAnnotation \<noteq> AnyTypeAnnotation \<and> \<not> isSelfLiteralCast expression typeAnnotation \<and>
         isComplexLiteral expression \<longrightarrow>
           visitTypeCastExpression ancestors hasU flag expression typeAnnotation =
             Inr (TSAsExpression expression tsType, flag)) \<and>
        (typeAnnotation \<noteq> AnyTypeAnnotation \<and> \<not> isSelfLiteralCast expression typeAnnotation \<and>
         \<not> isComplexLiteral expression \<longrightarrow>
           visitTypeCastExpression ancestors hasU flag expression typeAnnotation =
             Inr (CallExpression (MemberExpression (Identifier ''u'') (Identifier ''cast''))
                    [expression] (Some [tsType]),
                  \<not> hasU \<or> flag)))"
proof (intro conjI allI impI)
  fix x assume "expression = TypeCastExpression x AnyTypeAnnotation"
  then show "visitTypeCastExpression ancestors hasU flag expression typeAnnotation =
          Inr (if parentIsObjectProperty ancestors \<and> isInsideCreateReactClass ancestors
               then TSAsExpression (ParenthesizedExpression (TSAsExpression x TSAnyKeyword)) tsType
               else TSAsExpression x tsType, flag)"
    using assms(1) by (simp add: visitTypeCastExpression_def)
next
  assume "\<nexists>x. expression = TypeCastExpression x AnyTypeAnnotation"
  then have n: "nestedAnyCast expression = None"
    using nestedAnyCast_none [OF assms(2)] by simp
  {
    assume "typeAnnotation = AnyTypeAnnotation"
    then show "visitTypeCastExpression ancestors hasU flag expression typeAnnotation =
             Inr (TSAsExpression expression TSAnyKeyword, flag)"
      using n by (simp add: visitTypeCastExpression_def)
  next
    assume "typeAnnotation \<noteq> AnyTypeAnnotation \<and> isSelfLiteralCast expression typeAnnotation"
    then show "visitTypeCastExpression ancestors hasU flag expression typeAnnotation =
             Inr (TSAsExpression expression (TSTypeReference (TSIdentifier ''const'') None), flag)"
      using n by (simp add: visitTypeCastExpression_def)
  next
    assume "typeAnnotation \<noteq> AnyTypeAnnotation \<and> \<not> isSelfLiteralCast expression typeAnnotation \<and>
         isComplexLiteral expression"
    then show "visitTypeCastExpression ancestors hasU flag expression typeAnnotation =
             Inr (TSAsExpression expression tsType, flag)"
      using n assms(1) by (simp add: visitTypeCastExpression_def)
  next
    assume "typeAnnotation \<noteq> AnyTypeAnnotation \<and> \<not> isSelfLiteralCast expression typeAnnotation \<and>
         \<not> isComplexLiteral expression"
    then show "visitTypeCastExpression ancestors hasU flag expression typeAnnotation =
             Inr (CallExpression (MemberExpression (Identifier ''u'') (Identifier ''cast''))
                    [expression] (Some [tsType]),
                  \<not> hasU \<or> flag)"
      using n assms(1) by (auto simp: visitTypeCastExpression_def importUtils_def)
  }
qed

theorem cast_resolution_witness:
  "visitTypeCastExpression [NodeOfType ''ExpressionStatement''] False False
     (TypeCastExpression (Identifier ''x'') AnyTypeAnnotation)
     (GenericTypeAnnotation (Id ''Foo'') None) =
     Inr (TSAsExpression (Identifier ''x'') (TSTypeReference (TSIdentifier ''Foo'') None), False) \<and>
   visitTypeCastExpression [NodeOfType ''ExpressionStatement''] False False
     (Identifier ''x'') AnyTypeAnnotation =
     Inr (TSAsExpression (Identifier ''x'') TSAnyKeyword, False) \<and>
   visitTypeCastExpression [NodeOfType ''ExpressionStatement''] False False
     (StringLiteral ''ok'') (StringLiteralTypeAnnotation ''ok'') =
     Inr (TSAsExpression (StringLiteral ''ok'') (TSTypeReference (TSIdentifier ''const'') None),
          False) \<and>
   visitTypeCastExpression [NodeOfType ''ExpressionStatement''] False False
     (ArrayExpression []) (GenericTypeAnnotation (Id ''Foo'') None) =
     Inr (TSAsExpression (ArrayExpression []) (TSTypeReference (TSIdentifier ''Foo'') None),
          False) \<and>
   visitTypeCastExpression [NodeOfType ''ExpressionStatement''] False False
     (CallExpression (Identifier ''someFunctionCall'') [] None)
     (GenericTypeAnnotation (Id ''Foo'') None) =
     Inr (CallExpression (MemberExpression (Identifier ''u'') (Identifier ''cast''))
            [CallExpression (Identifier ''someFunctionCall'') [] None]
            (Some [TSTypeReference (TSIdentifier ''Foo'') None]),
          True)"
  using cast_resolution
      [of "GenericTypeAnnotation (Id ''Foo'') None" "TSTypeReference (TSIdentifier ''Foo'') None"
          "TypeCastExpression (Identifier ''x'') AnyTypeAnnotation"
          "[NodeOfType ''ExpressionStatement'']" False False]
    cast_resolution
      [of AnyTypeAnnotation TSAnyKeyword "Identifier ''x''"
          "[NodeOfType ''ExpressionStatement'']" False False]
    cast_resolution
      [of "StringLiteralTypeAnnotation ''ok''" "TSLiteralType (LitString ''ok'')"
          "StringLiteral ''ok''" "[NodeOfType ''ExpressionStatement'']" False False]
    cast_resolution
      [of "GenericTypeAnnotation (Id ''Foo'') None" "TSTypeReference (TSIdentifier ''Foo'') None"
          "ArrayExpression []" "[NodeOfType ''ExpressionStatement'']" False False]
    cast_resolution
      [of "GenericTypeAnnotation (Id ''Foo'') None" "TSTypeReference (TSIdentifier ''Foo'') None"
          "CallExpression (Identifier ''someFunctionCall'') [] None"
          "[NodeOfType ''ExpressionStatement'']" False False]
  by (simp add: migrateGeneric_def parentIsObjectProperty_def)

text \<open>
  Claim C1 as stated fails: as the value of an object property inside
  \<open>createReactClass()\<close>, \<open>((x: any): Foo)\<close> becomes \<open>((x as any) as Foo)\<close>, not
  \<open>(x as Foo)\<close>.
\<close>

theorem cast_inside_createReactClass_keeps_any:
  "visitTypeCastExpression
     [NodeOfType ''ObjectProperty'', NodeOfType ''ObjectExpression'',
      CallExpressionNode (Some ''createReactClass'')] False False
     (TypeCastExpression (Identifier ''x'') AnyTypeAnnotation)
     (GenericTypeAnnotation (Id ''Foo'') None) =
     Inr (TSAsExpression
            (ParenthesizedExpression (TSAsExpression (Identifier ''x'') TSAnyKeyword))
            (TSTypeReference (TSIdentifier ''Foo'') None), False) \<and>
   visitTypeCastExpression
     [NodeOfType ''ObjectProperty'', NodeOfType ''ObjectExpression'',
      CallExpressionNode (Some ''createReactClass'')] False False
     (TypeCastExpression (Identifier ''x'') AnyTypeAnnotation)
     (GenericTypeAnnotation (Id ''Foo'') None) \<noteq>
     Inr (TSAsExpression (Identifier ''x'') (TSTypeReference (TSIdentifier ''Foo'') None), False)"
  by (simp add: visitTypeCastExpression_def migrateGeneric_def parentIsObjectProperty_def)

text \<open>
  The first test asks for type parameters on \<open>Object\<close> and \<open>Function\<close>, so the plain
  \<open>((x: Object): Foo)\<close> of the source's comment is not resolved by the first strategy:
  it falls to the last one, with the inner cast still in place as the argument.
\<close>

lemma cast_through_plain_Object:
  "visitTypeCastExpression [NodeOfType ''ExpressionStatement''] False False
     (TypeCastExpression (Identifier ''x'') (GenericTypeAnnotation (Id ''Object'') None))
     (GenericTypeAnnotation (Id ''Foo'') None) =
     Inr (CallExpression (MemberExpression (Identifier ''u'') (Identifier ''cast''))
            [TypeCastExpression (Identifier ''x'') (GenericTypeAnnotation (Id ''Object'') None)]
            (Some [TSTypeReference (TSIdentifier ''Foo'') None]),
          True)"
  by (simp add: visitTypeCastExpression_def migrateGeneric_def importUtils_def)

section \<open>Optional parameters\<close>

lemma makeRequiredPattern_clear: "makeRequiredPattern (clearOptionalLeft left) = makeRequiredPattern left"
  by (cases left) simp

lemma exitParam_flag: "fst (exitParam optional p) = (optional \<and> hasAbsenceMarker p)"
  by (cases p) (auto simp: Let_def)

lemma exitParam_False:
  "snd (exitParam False p) = (if hasAbsenceMarker p then makeRequired p else p)"
  by (cases p) (auto simp: Let_def makeRequiredPattern_clear)

lemma exitParam_unmarked: "\<not> hasAbsenceMarker p \<Longrightarrow> snd (exitParam optional p) = p"
  by (cases p) auto

lemma exitParam_True_marked:
  "hasAbsenceMarker p \<Longrightarrow> hasAbsenceMarker (snd (exitParam True p))"
  by (cases p) (auto simp: Let_def)

lemma makeRequired_not_optional: "\<not> isOptionalParam (makeRequired p)"
proof (cases p)
  case (Param pat)
  then show ?thesis by (cases pat) simp
next
  case (AssignmentPattern left right a)
  then show ?thesis by simp
qed

lemma optional_is_marked: "isOptionalParam p \<Longrightarrow> hasAbsenceMarker p"
  by (cases p) auto

lemma exitLoop_step:
  "exitLoop optional (p # rest) =
     snd (exitParam optional p) # exitLoop (optional \<and> hasAbsenceMarker p) rest"
  using exitParam_flag [of optional p] by (simp add: case_prod_unfold)

lemma exitLoop_append:
  "exitLoop optional (xs @ ys) =
     exitLoop optional xs @ exitLoop (optional \<and> list_all hasAbsenceMarker xs) ys"
proof (induction xs arbitrary: optional)
  case Nil
  then show ?case by simp
next
  case (Cons x xs)
  show ?case
    unfolding append_Cons exitLoop_step Cons.IH by (simp add: conj_assoc)
qed

lemma exitLoop_unmarked:
  "list_all (\<lambda>p. \<not> hasAbsenceMarker p) ys \<Longrightarrow> exitLoop optional ys = ys"
proof (induction ys arbitrary: optional)
  case Nil
  then show ?case by simp
next
  case (Cons y ys)
  then show ?case unfolding exitLoop_step by (simp add: exitParam_unmarked)
qed

lemma exitLoop_False_marked:
  "list_all hasAbsenceMarker ys \<Longrightarrow> exitLoop False ys = map makeRequired ys"
proof (induction ys)
  case Nil
  then show ?case by simp
next
  case (Cons y ys)
  then show ?case unfolding exitLoop_step by (simp add: exitParam_False)
qed

lemma exitLoop_True_marked:
  "list_all hasAbsenceMarker ys \<Longrightarrow> exitLoop True ys = map (\<lambda>p. snd (exitParam True p)) ys"
proof (induction ys)
  case Nil
  then show ?case by simp
next
  case (Cons y ys)
  then show ?case unfolding exitLoop_step by simp
qed

lemma exitLoop_False_not_optional:
  "list_all (\<lambda>p. \<not> isOptionalParam p) (exitLoop False ys)"
proof (induction ys)
  case Nil
  then show ?case by simp
next
  case (Cons y ys)
  have "\<not> isOptionalParam (snd (exitParam False y))"
    using makeRequired_not_optional [of y] optional_is_marked [of y]
    by (auto simp: exitParam_False)
  then show ?case unfolding exitLoop_step using Cons by simp
qed

lemma noOptionalBeforeRequired_snoc:
  "noOptionalBeforeRequired (xs @ [x]) \<longleftrightarrow>
     noOptionalBeforeRequired xs \<and>
     (hasAbsenceMarker x \<or> list_all (\<lambda>p. \<not> isOptionalParam p) xs)"
  by (induction xs) auto

lemma exitLoop_invariant: "noOptionalBeforeRequired (rev (exitLoop optional ys))"
proof (induction ys arbitrary: optional)
  case Nil
  then show ?case by simp
next
  case (Cons y ys)
  have "hasAbsenceMarker (snd (exitParam optional y)) \<or>
        list_all (\<lambda>p. \<not> isOptionalParam p) (rev (exitLoop (optional \<and> hasAbsenceMarker y) ys))"
  proof (cases "optional \<and> hasAbsenceMarker y")
    case True
    then show ?thesis using exitParam_True_marked [of y] by simp
  next
    case False
    then have "(optional \<and> hasAbsenceMarker y) = False" by simp
    then show ?thesis using exitLoop_False_not_optional [of ys] by (simp only: list_all_rev simp_thms)
  qed
  then show ?case
    unfolding exitLoop_step by (simp add: noOptionalBeforeRequired_snoc Cons.IH)
qed



lemma mapE_list_all2: "mapE f xs = Inr ys \<Longrightarrow> list_all2 (\<lambda>x y. f x = Inr y) xs ys"
proof (induction xs arbitrary: ys)
  case Nil
  then show ?case by simp
next
  case (Cons x xs)
  then obtain y ys' where "f x = Inr y" "mapE f xs = Inr ys'" "ys = y # ys'"
    by (auto simp: bindE_Inr_iff)
  then show ?case using Cons.IH [of ys'] by simp
qed

lemma mapE_length: "mapE f xs = Inr ys \<Longrightarrow> length ys = length xs"
  using mapE_list_all2 [of f xs ys] by (simp add: list_all2_lengthD)

text \<open>
  The mark a parameter has when the declaration is exited: the visitor of its annotation
  has marked every identifier whose type accepts \<open>void\<close>.
\<close>

lemma visited_mark:
  "fst (voidToOptional applies (nullableToUnion applies (optional, ty))) =
     (if applies \<and> acceptsVoid (TypeAnnotation ty) then Some True else optional)"
  by (cases ty) simp_all

lemma visitTypeAnnotation_mark:
  assumes "visitTypeAnnotation False (Pattern k optional a) = Inr (Pattern k' optional' a')"
  shows "k' = k \<and> optional' = (if isIdentifierPattern k \<and> acceptsVoid a then Some True else optional)"
proof (cases a)
  case NoAnnotation
  then show ?thesis using assms by auto
next
  case (TypeAnnotation ty)
  then show ?thesis
    using assms visited_mark [of "isIdentifierPattern k" optional ty]
    by (auto simp: Let_def case_prod_unfold bindE_Inr_iff)
next
  case (TSTypeAnnotation ts)
  then show ?thesis using assms by auto
qed

lemma acceptsVoid_anyIfAbsent: "acceptsVoid (anyIfAbsent a) = acceptsVoid a"
  by (cases a) simp_all

lemma visitParam_marker:
  assumes "visitParam (enterParam isTestFile p) = Inr v"
  shows "hasAbsenceMarker v = omissible p"
proof (cases p)
  case (Param pat)
  obtain k optional a where pat: "pat = Pattern k optional a" by (cases pat)
  define a1 where "a1 = (if isTestFile then anyIfAbsent a else a)"
  from assms Param pat obtain pat' where
    v: "v = Param pat'" and "visitTypeAnnotation False (Pattern k optional a1) = Inr pat'"
    by (auto simp: bindE_Inr_iff a1_def)
  moreover obtain k' optional' a' where "pat' = Pattern k' optional' a'" by (cases pat')
  ultimately have "k' = k \<and>
      optional' = (if isIdentifierPattern k \<and> acceptsVoid a1 then Some True else optional)"
    and v': "v = Param (Pattern k' optional' a')"
    using visitTypeAnnotation_mark [of k optional a1 k' optional' a'] by simp_all
  moreover have "acceptsVoid a1 = acceptsVoid a"
    by (simp add: a1_def acceptsVoid_anyIfAbsent)
  ultimately show ?thesis using Param pat by auto
next
  case (AssignmentPattern left right a)
  then show ?thesis using assms by (auto simp: bindE_Inr_iff)
qed

lemma visited_markers:
  assumes "mapE visitParam (map (enterParam isTestFile) ps) = Inr vs"
  shows "list_all hasAbsenceMarker vs = list_all omissible ps"
    and "list_all (\<lambda>p. \<not> hasAbsenceMarker p) vs = list_all (\<lambda>p. \<not> omissible p) ps"
proof -
  have "list_all2 (\<lambda>p v. visitParam (enterParam isTestFile p) = Inr v) ps vs"
    using mapE_list_all2 [OF assms] by (simp add: list_all2_map1)
  then have r: "list_all2 (\<lambda>p v. hasAbsenceMarker v = omissible p) ps vs"
    by (rule list_all2_mono) (rule visitParam_marker)
  then show "list_all hasAbsenceMarker vs = list_all omissible ps"
    by (induction rule: list_all2_induct) simp_all
  from r show "list_all (\<lambda>p. \<not> hasAbsenceMarker p) vs = list_all (\<lambda>p. \<not> omissible p) ps"
    by (induction rule: list_all2_induct) simp_all
qed

lemma undefinedUnioned_addUndefined: "undefinedUnioned a (addUndefined a)"
proof (cases a)
  case (TSTypeAnnotation ty)
  then show ?thesis by (cases ty) simp_all
qed simp_all

lemma requiredPattern_makeRequired:
  "requiredPattern pat (makeRequiredPattern pat)"
  "requiredPattern (clearOptionalLeft pat) (makeRequiredPattern pat)"
proof -
  obtain k optional a where pat: "pat = Pattern k optional a" by (cases pat)
  show "requiredPattern pat (makeRequiredPattern pat)"
    by (simp add: pat undefinedUnioned_addUndefined)
  show "requiredPattern (clearOptionalLeft pat) (makeRequiredPattern pat)"
    by (simp add: pat undefinedUnioned_addUndefined)
qed

lemma required_marked:
  "hasAbsenceMarker v \<Longrightarrow> requiredWithUndefined (snd (exitParam True v)) (makeRequired v)"
  by (cases v) (auto simp: Let_def requiredPattern_makeRequired)

lemma exit_all_marked:
  assumes "list_all hasAbsenceMarker vs"
  shows "exitFunctionDeclaration vs = map (\<lambda>p. snd (exitParam True p)) vs"
proof -
  have "list_all hasAbsenceMarker (rev vs)" using assms by (simp add: list_all_iff)
  then show ?thesis
    by (simp add: exitFunctionDeclaration_def exitLoop_True_marked rev_map)
qed

lemma exit_none_marked:
  assumes "list_all (\<lambda>p. \<not> hasAbsenceMarker p) vs"
  shows "exitFunctionDeclaration vs = vs"
proof -
  have "list_all (\<lambda>p. \<not> hasAbsenceMarker p) (rev vs)" using assms by (simp add: list_all_iff)
  then show ?thesis
    by (simp add: exitFunctionDeclaration_def exitLoop_unmarked)
qed

lemma exit_marked_then_unmarked:
  assumes "list_all hasAbsenceMarker pre"
    and "post \<noteq> []"
    and "list_all (\<lambda>p. \<not> hasAbsenceMarker p) post"
  shows "exitFunctionDeclaration (pre @ post) = map makeRequired pre @ post"
proof -
  have unmarked: "list_all (\<lambda>p. \<not> hasAbsenceMarker p) (rev post)"
    using assms(3) by (simp add: list_all_iff)
  have "\<not> list_all hasAbsenceMarker (rev post)"
    using assms(2,3) by (cases post) (auto simp: list_all_iff)
  then have "exitLoop True (rev post @ rev pre) = rev post @ exitLoop False (rev pre)"
    unfolding exitLoop_append by (simp add: exitLoop_unmarked [OF unmarked])
  moreover have "exitLoop False (rev pre) = map makeRequired (rev pre)"
    using assms(1) by (intro exitLoop_False_marked) (simp add: list_all_iff)
  ultimately show ?thesis
    by (simp add: exitFunctionDeclaration_def rev_map)
qed

lemma rewriteFunctionParams_invariant:
  "case rewriteFunctionParams isTestFile params of Inl e \<Rightarrow> True
   | Inr out \<Rightarrow> noOptionalBeforeRequired out"
  by (cases "mapE visitParam (map (enterParam isTestFile) params)")
    (simp_all add: rewriteFunctionParams_def exitFunctionDeclaration_def exitLoop_invariant)

text \<open>
  Claim C3, amended. Take the parameters of a function declaration, \<open>p1..pk\<close> that the
  caller may leave out (each has an optional mark or a default, or is an identifier
  whose type is nullable or a union with \<open>void\<close>, which the visitor of the annotation
  turns into an optional mark) followed by \<open>p(k+1)..pn\<close>, at least one, that the caller
  may not leave out. When the traversal of the declaration succeeds, its output marks no
  parameter optional. \<open>p(k+1)..pn\<close> come out as they do as a list of their own. \<open>p1..pk\<close>
  come out as they do as a list of their own (where they stay optional), made required:
  the optional mark is removed and \<open>undefined\<close> is unioned into the TypeScript annotation
  of each that has one. Whatever the list, the output never has an optional parameter
  before one without optional mark and without default.
\<close>

theorem optional_before_required_made_required:
  assumes "rewriteFunctionParams isTestFile (pre @ post) = Inr out"
    and "list_all omissible pre"
    and "post \<noteq> []"
    and "list_all (\<lambda>p. \<not> omissible p) post"
  shows "(\<exists>pre' post'.
            rewriteFunctionParams isTestFile pre = Inr pre' \<and>
            rewriteFunctionParams isTestFile post = Inr post' \<and>
            list_all2 requiredWithUndefined pre' (take (length pre) out) \<and>
            drop (length pre) out = post') \<and>
         length out = length pre + length post \<and>
         list_all (\<lambda>p. \<not> isOptionalParam p) out \<and>
         (case rewriteFunctionParams isTestFile params of Inl e \<Rightarrow> True
          | Inr out' \<Rightarrow> noOptionalBeforeRequired out')"
proof -
  from assms(1) obtain visited where
    visited: "mapE visitParam (map (enterParam isTestFile) (pre @ post)) = Inr visited"
    and out: "out = exitFunctionDeclaration visited"
    by (auto simp: rewriteFunctionParams_def bindE_Inr_iff)
  from visited obtain vpre vpost where
    vpre: "mapE visitParam (map (enterParam isTestFile) pre) = Inr vpre"
    and vpost: "mapE visitParam (map (enterParam isTestFile) post) = Inr vpost"
    and split: "visited = vpre @ vpost"
    by (auto simp: mapE_append bindE_Inr_iff)
  have mpre: "list_all hasAbsenceMarker vpre"
    using visited_markers(1) [OF vpre] assms(2) by simp
  have mpost: "list_all (\<lambda>p. \<not> hasAbsenceMarker p) vpost"
    using visited_markers(2) [OF vpost] assms(4) by simp
  have lpre: "length vpre = length pre" and lpost: "length vpost = length post"
    using mapE_length [OF vpre] mapE_length [OF vpost] by simp_all
  have "vpost \<noteq> []" using lpost assms(3) by auto
  then have eq: "out = map makeRequired vpre @ vpost"
    unfolding out split by (rule exit_marked_then_unmarked [OF mpre _ mpost])
  have a: "rewriteFunctionParams isTestFile pre = Inr (map (\<lambda>p. snd (exitParam True p)) vpre)"
    by (simp add: rewriteFunctionParams_def vpre exit_all_marked [OF mpre])
  have b: "rewriteFunctionParams isTestFile post = Inr vpost"
    by (simp add: rewriteFunctionParams_def vpost exit_none_marked [OF mpost])
  have t: "take (length pre) out = map makeRequired vpre" and d: "drop (length pre) out = vpost"
    using lpre by (simp_all add: eq)
  have "list_all2 (\<lambda>x y. requiredWithUndefined (snd (exitParam True x)) (makeRequired y)) vpre vpre"
    using mpre by (simp add: list_all2_same list_all_iff required_marked)
  then have c: "list_all2 requiredWithUndefined (map (\<lambda>p. snd (exitParam True p)) vpre)
      (take (length pre) out)"
    unfolding t by (simp add: list_all2_map1 list_all2_map2)
  have e: "list_all (\<lambda>p. \<not> isOptionalParam p) out"
    unfolding eq using mpost makeRequired_not_optional optional_is_marked
    by (auto simp: list_all_iff)
  have f: "length out = length pre + length post"
    by (simp add: eq lpre lpost)
  show ?thesis
    using a b c d e f rewriteFunctionParams_invariant [of isTestFile params] by blast
qed

theorem optional_before_required_made_required_witness:
  "rewriteFunctionParams False
     ([Param (Pattern (IdentifierPattern ''a'') (Some True) (TypeAnnotation (GenericTypeAnnotation (Id ''T'') None))),
       AssignmentPattern (Pattern (IdentifierPattern ''b'') None (TypeAnnotation (NullableTypeAnnotation StringTypeAnnotation))) (NumericLiteral 1) NoAnnotation,
       Param (Pattern (IdentifierPattern ''c'') None (TypeAnnotation (UnionTypeAnnotation [NumberTypeAnnotation, VoidTypeAnnotation])))] @
      [Param (Pattern (IdentifierPattern ''d'') None (TypeAnnotation (GenericTypeAnnotation (Id ''U'') None)))]) =
   Inr [Param (Pattern (IdentifierPattern ''a'') None (TSTypeAnnotation (TSUnionType [(TSTypeReference (TSIdentifier ''T'') None), TSUndefinedKeyword]))),
           AssignmentPattern (Pattern (IdentifierPattern ''b'') None (TSTypeAnnotation (TSUnionType [TSStringKeyword, TSNullKeyword, TSUndefinedKeyword]))) (NumericLiteral 1) NoAnnotation,
           Param (Pattern (IdentifierPattern ''c'') None (TSTypeAnnotation (TSUnionType [TSNumberKeyword, TSUndefinedKeyword]))),
           Param (Pattern (IdentifierPattern ''d'') None (TSTypeAnnotation (TSTypeReference (TSIdentifier ''U'') None)))] \<and>
   list_all omissible
      [Param (Pattern (IdentifierPattern ''a'') (Some True) (TypeAnnotation (GenericTypeAnnotation (Id ''T'') None))),
       AssignmentPattern (Pattern (IdentifierPattern ''b'') None (TypeAnnotation (NullableTypeAnnotation StringTypeAnnotation))) (NumericLiteral 1) NoAnnotation,
       Param (Pattern (IdentifierPattern ''c'') None (TypeAnnotation (UnionTypeAnnotation [NumberTypeAnnotation, VoidTypeAnnotation])))] \<and>
   [Param (Pattern (IdentifierPattern ''d'') None (TypeAnnotation (GenericTypeAnnotation (Id ''U'') None)))] \<noteq> [] \<and>
   list_all (\<lambda>p. \<not> omissible p)
      [Param (Pattern (IdentifierPattern ''d'') None (TypeAnnotation (GenericTypeAnnotation (Id ''U'') None)))] \<and>
   (\<exists>pre' post'.
      rewriteFunctionParams False
      [Param (Pattern (IdentifierPattern ''a'') (Some True) (TypeAnnotation (GenericTypeAnnotation (Id ''T'') None))),
       AssignmentPattern (Pattern (IdentifierPattern ''b'') None (TypeAnnotation (NullableTypeAnnotation StringTypeAnnotation))) (NumericLiteral 1) NoAnnotation,
       Param (Pattern (IdentifierPattern ''c'') None (TypeAnnotation (UnionTypeAnnotation [NumberTypeAnnotation, VoidTypeAnnotation])))] = Inr pre' \<and>
      rewriteFunctionParams False
      [Param (Pattern (IdentifierPattern ''d'') None (TypeAnnotation (GenericTypeAnnotation (Id ''U'') None)))] = Inr post' \<and>
      list_all2 requiredWithUndefined pre'
        (take (length
      [Param (Pattern (IdentifierPattern ''a'') (Some True) (TypeAnnotation (GenericTypeAnnotation (Id ''T'') None))),
       AssignmentPattern (Pattern (IdentifierPattern ''b'') None (TypeAnnotation (NullableTypeAnnotation StringTypeAnnotation))) (NumericLiteral 1) NoAnnotation,
       Param (Pattern (IdentifierPattern ''c'') None (TypeAnnotation (UnionTypeAnnotation [NumberTypeAnnotation, VoidTypeAnnotation])))])
      [Param (Pattern (IdentifierPattern ''a'') None (TSTypeAnnotation (TSUnionType [(TSTypeReference (TSIdentifier ''T'') None), TSUndefinedKeyword]))),
           AssignmentPattern (Pattern (IdentifierPattern ''b'') None (TSTypeAnnotation (TSUnionType [TSStringKeyword, TSNullKeyword, TSUndefinedKeyword]))) (NumericLiteral 1) NoAnnotation,
           Param (Pattern (IdentifierPattern ''c'') None (TSTypeAnnotation (TSUnionType [TSNumberKeyword, TSUndefinedKeyword]))),
           Param (Pattern (IdentifierPattern ''d'') None (TSTypeAnnotation (TSTypeReference (TSIdentifier ''U'') None)))]) \<and>
      drop (length
      [Param (Pattern (IdentifierPattern ''a'') (Some True) (TypeAnnotation (GenericTypeAnnotation (Id ''T'') None))),
       AssignmentPattern (Pattern (IdentifierPattern ''b'') None (TypeAnnotation (NullableTypeAnnotation StringTypeAnnotation))) (NumericLiteral 1) NoAnnotation,
       Param (Pattern (IdentifierPattern ''c'') None (TypeAnnotation (UnionTypeAnnotation [NumberTypeAnnotation, VoidTypeAnnotation])))])
      [Param (Pattern (IdentifierPattern ''a'') None (TSTypeAnnotation (TSUnionType [(TSTypeReference (TSIdentifier ''T'') None), TSUndefinedKeyword]))),
           AssignmentPattern (Pattern (IdentifierPattern ''b'') None (TSTypeAnnotation (TSUnionType [TSStringKeyword, TSNullKeyword, TSUndefinedKeyword]))) (NumericLiteral 1) NoAnnotation,
           Param (Pattern (IdentifierPattern ''c'') None (TSTypeAnnotation (TSUnionType [TSNumberKeyword, TSUndefinedKeyword]))),
           Param (Pattern (IdentifierPattern ''d'') None (TSTypeAnnotation (TSTypeReference (TSIdentifier ''U'') None)))] = post') \<and>
   length
      [Param (Pattern (IdentifierPattern ''a'') None (TSTypeAnnotation (TSUnionType [(TSTypeReference (TSIdentifier ''T'') None), TSUndefinedKeyword]))),
           AssignmentPattern (Pattern (IdentifierPattern ''b'') None (TSTypeAnnotation (TSUnionType [TSStringKeyword, TSNullKeyword, TSUndefinedKeyword]))) (NumericLiteral 1) NoAnnotation,
           Param (Pattern (IdentifierPattern ''c'') None (TSTypeAnnotation (TSUnionType [TSNumberKeyword, TSUndefinedKeyword]))),
           Param (Pattern (IdentifierPattern ''d'') None (TSTypeAnnotation (TSTypeReference (TSIdentifier ''U'') None)))] =
   length
      [Param (Pattern (IdentifierPattern ''a'') (Some True) (TypeAnnotation (GenericTypeAnnotation (Id ''T'') None))),
       AssignmentPattern (Pattern (IdentifierPattern ''b'') None (TypeAnnotation (NullableTypeAnnotation StringTypeAnnotation))) (NumericLiteral 1) NoAnnotation,
       Param (Pattern (IdentifierPattern ''c'') None (TypeAnnotation (UnionTypeAnnotation [NumberTypeAnnotation, VoidTypeAnnotation])))] +
   length
      [Param (Pattern (IdentifierPattern ''d'') None (TypeAnnotation (GenericTypeAnnotation (Id ''U'') None)))] \<and>
   list_all (\<lambda>p. \<not> isOptionalParam p)
      [Param (Pattern (IdentifierPattern ''a'') None (TSTypeAnnotation (TSUnionType [(TSTypeReference (TSIdentifier ''T'') None), TSUndefinedKeyword]))),
           AssignmentPattern (Pattern (IdentifierPattern ''b'') None (TSTypeAnnotation (TSUnionType [TSStringKeyword, TSNullKeyword, TSUndefinedKeyword]))) (NumericLiteral 1) NoAnnotation,
           Param (Pattern (IdentifierPattern ''c'') None (TSTypeAnnotation (TSUnionType [TSNumberKeyword, TSUndefinedKeyword]))),
           Param (Pattern (IdentifierPattern ''d'') None (TSTypeAnnotation (TSTypeReference (TSIdentifier ''U'') None)))] \<and>
   (case rewriteFunctionParams False
      [Param (Pattern (IdentifierPattern ''d'') None (TypeAnnotation (GenericTypeAnnotation (Id ''U'') None))),
       Param (Pattern (IdentifierPattern ''a'') (Some True) (TypeAnnotation (GenericTypeAnnotation (Id ''T'') None)))] of Inl e \<Rightarrow> True
    | Inr out' \<Rightarrow> noOptionalBeforeRequired out')"
proof -
  have h1: "rewriteFunctionParams False
     ([Param (Pattern (IdentifierPattern ''a'') (Some True) (TypeAnnotation (GenericTypeAnnotation (Id ''T'') None))),
       AssignmentPattern (Pattern (IdentifierPattern ''b'') None (TypeAnnotation (NullableTypeAnnotation StringTypeAnnotation))) (NumericLiteral 1) NoAnnotation,
       Param (Pattern (IdentifierPattern ''c'') None (TypeAnnotation (UnionTypeAnnotation [NumberTypeAnnotation, VoidTypeAnnotation])))] @
      [Param (Pattern (IdentifierPattern ''d'') None (TypeAnnotation (GenericTypeAnnotation (Id ''U'') None)))]) =
   Inr [Param (Pattern (IdentifierPattern ''a'') None (TSTypeAnnotation (TSUnionType [(TSTypeReference (TSIdentifier ''T'') None), TSUndefinedKeyword]))),
           AssignmentPattern (Pattern (IdentifierPattern ''b'') None (TSTypeAnnotation (TSUnionType [TSStringKeyword, TSNullKeyword, TSUndefinedKeyword]))) (NumericLiteral 1) NoAnnotation,
           Param (Pattern (IdentifierPattern ''c'') None (TSTypeAnnotation (TSUnionType [TSNumberKeyword, TSUndefinedKeyword]))),
           Param (Pattern (IdentifierPattern ''d'') None (TSTypeAnnotation (TSTypeReference (TSIdentifier ''U'') None)))]"
    by code_simp
  have h2: "list_all omissible
      [Param (Pattern (IdentifierPattern ''a'') (Some True) (TypeAnnotation (GenericTypeAnnotation (Id ''T'') None))),
       AssignmentPattern (Pattern (IdentifierPattern ''b'') None (TypeAnnotation (NullableTypeAnnotation StringTypeAnnotation))) (NumericLiteral 1) NoAnnotation,
       Param (Pattern (IdentifierPattern ''c'') None (TypeAnnotation (UnionTypeAnnotation [NumberTypeAnnotation, VoidTypeAnnotation])))]"
    by simp
  have h3: "[Param (Pattern (IdentifierPattern ''d'') None (TypeAnnotation (GenericTypeAnnotation (Id ''U'') None)))] \<noteq> []"
    by simp
  have h4: "list_all (\<lambda>p. \<not> omissible p)
      [Param (Pattern (IdentifierPattern ''d'') None (TypeAnnotation (GenericTypeAnnotation (Id ''U'') None)))]"
    by simp
  show ?thesis
    by (rule conjI [OF h1 conjI [OF h2 conjI [OF h3 conjI [OF h4
      optional_before_required_made_required [OF h1 h2 h3 h4, of
      "[Param (Pattern (IdentifierPattern ''d'') None (TypeAnnotation (GenericTypeAnnotation (Id ''U'') None))),
       Param (Pattern (IdentifierPattern ''a'') (Some True) (TypeAnnotation (GenericTypeAnnotation (Id ''T'') None)))]"]]]]])
qed

text \<open>
  The same list, part by part: \<open>function f(a?: T, b: ?string = 1, c: number | void, d: U)\<close>
  comes out as \<open>function f(a: T | undefined, b: string | null | undefined = 1,
  c: number | undefined, d: U)\<close>; on their own the first three would stay optional.
\<close>

lemma rewriteFunctionParams_example:
  "rewriteFunctionParams False
      [Param (Pattern (IdentifierPattern ''a'') (Some True) (TypeAnnotation (GenericTypeAnnotation (Id ''T'') None))),
       AssignmentPattern (Pattern (IdentifierPattern ''b'') None (TypeAnnotation (NullableTypeAnnotation StringTypeAnnotation))) (NumericLiteral 1) NoAnnotation,
       Param (Pattern (IdentifierPattern ''c'') None (TypeAnnotation (UnionTypeAnnotation [NumberTypeAnnotation, VoidTypeAnnotation])))] =
     Inr [Param (Pattern (IdentifierPattern ''a'') (Some True) (TSTypeAnnotation (TSTypeReference (TSIdentifier ''T'') None))),
           AssignmentPattern (Pattern (IdentifierPattern ''b'') (Some False) (TSTypeAnnotation (TSUnionType [TSStringKeyword, TSNullKeyword]))) (NumericLiteral 1) NoAnnotation,
           Param (Pattern (IdentifierPattern ''c'') (Some True) (TSTypeAnnotation (TSUnionType [TSNumberKeyword])))] \<and>
   rewriteFunctionParams False
      [Param (Pattern (IdentifierPattern ''d'') None (TypeAnnotation (GenericTypeAnnotation (Id ''U'') None)))] =
     Inr [Param (Pattern (IdentifierPattern ''d'') None (TSTypeAnnotation (TSTypeReference (TSIdentifier ''U'') None)))] \<and>
   rewriteFunctionParams False
      [Param (Pattern (IdentifierPattern ''a'') (Some True) (TypeAnnotation (GenericTypeAnnotation (Id ''T'') None))),
       AssignmentPattern (Pattern (IdentifierPattern ''b'') None (TypeAnnotation (NullableTypeAnnotation StringTypeAnnotation))) (NumericLiteral 1) NoAnnotation,
       Param (Pattern (IdentifierPattern ''c'') None (TypeAnnotation (UnionTypeAnnotation [NumberTypeAnnotation, VoidTypeAnnotation]))),
       Param (Pattern (IdentifierPattern ''d'') None (TypeAnnotation (GenericTypeAnnotation (Id ''U'') None)))] =
     Inr [Param (Pattern (IdentifierPattern ''a'') None (TSTypeAnnotation (TSUnionType [(TSTypeReference (TSIdentifier ''T'') None), TSUndefinedKeyword]))),
           AssignmentPattern (Pattern (IdentifierPattern ''b'') None (TSTypeAnnotation (TSUnionType [TSStringKeyword, TSNullKeyword, TSUndefinedKeyword]))) (NumericLiteral 1) NoAnnotation,
           Param (Pattern (IdentifierPattern ''c'') None (TSTypeAnnotation (TSUnionType [TSNumberKeyword, TSUndefinedKeyword]))),
           Param (Pattern (IdentifierPattern ''d'') None (TSTypeAnnotation (TSTypeReference (TSIdentifier ''U'') None)))]"
  by code_simp

text \<open>
  Claim C3 as stated fails: in \<open>function f(a?: T, b: U)\<close> the parameter \<open>a\<close> carries an
  absence marker and is followed by \<open>b\<close>, which carries none; the output does not mark
  \<open>a\<close> optional.
\<close>

theorem optional_before_required_not_kept_optional:
  "hasAbsenceMarker (Param (Pattern (IdentifierPattern ''a'') (Some True) (TypeAnnotation (GenericTypeAnnotation (Id ''T'') None)))) \<and>
   \<not> hasAbsenceMarker (Param (Pattern (IdentifierPattern ''b'') None (TypeAnnotation (GenericTypeAnnotation (Id ''U'') None)))) \<and>
   rewriteFunctionParams False
     [Param (Pattern (IdentifierPattern ''a'') (Some True) (TypeAnnotation (GenericTypeAnnotation (Id ''T'') None))),
      Param (Pattern (IdentifierPattern ''b'') None (TypeAnnotation (GenericTypeAnnotation (Id ''U'') None)))] =
     Inr [Param (Pattern (IdentifierPattern ''a'') None (TSTypeAnnotation (TSUnionType [(TSTypeReference (TSIdentifier ''T'') None), TSUndefinedKeyword]))),
          Param (Pattern (IdentifierPattern ''b'') None (TSTypeAnnotation (TSTypeReference (TSIdentifier ''U'') None)))] \<and>
   \<not> isOptionalParam (Param (Pattern (IdentifierPattern ''a'') None (TSTypeAnnotation (TSUnionType [(TSTypeReference (TSIdentifier ''T'') None), TSUndefinedKeyword]))))"
  by code_simp

text \<open>
  A parameter without absence marker whose type is nullable is marked optional by the
  visitor of its annotation: \<open>function f(a?: T, b: ?U)\<close> comes out as
  \<open>function f(a?: T, b?: U | null)\<close>, both parameters optional. In a test file a
  parameter without annotation has the annotation \<open>any\<close> when the declaration is exited:
  \<open>function f(x?, y)\<close> comes out as \<open>function f(x: any | undefined, y: any)\<close>.
\<close>

lemma nullable_parameter_is_marked_optional:
  "rewriteFunctionParams False
     [Param (Pattern (IdentifierPattern ''a'') (Some True) (TypeAnnotation (GenericTypeAnnotation (Id ''T'') None))),
      Param (Pattern (IdentifierPattern ''b'') None (TypeAnnotation (NullableTypeAnnotation (GenericTypeAnnotation (Id ''U'') None))))] =
     Inr [Param (Pattern (IdentifierPattern ''a'') (Some True) (TSTypeAnnotation (TSTypeReference (TSIdentifier ''T'') None))),
          Param (Pattern (IdentifierPattern ''b'') (Some True) (TSTypeAnnotation (TSUnionType [(TSTypeReference (TSIdentifier ''U'') None), TSNullKeyword])))] \<and>
   rewriteFunctionParams True
     [Param (Pattern (IdentifierPattern ''x'') (Some True) NoAnnotation),
      Param (Pattern (IdentifierPattern ''y'') None NoAnnotation)] =
     Inr [Param (Pattern (IdentifierPattern ''x'') None (TSTypeAnnotation (TSUnionType [TSAnyKeyword, TSUndefinedKeyword]))),
          Param (Pattern (IdentifierPattern ''y'') None (TSTypeAnnotation TSAnyKeyword))]"
  by code_simp

section \<open>The orchestrator's pool\<close>

lemma ceil_div_pos: "0 < B \<Longrightarrow> 0 < n \<Longrightarrow> (n + B - 1) div B = Suc ((n - 1) div (B::nat))"
proof -
  assume B: "0 < B" and n: "0 < n"
  have e: "n + B - 1 = (n - 1) + B" using n by simp
  have "((n - 1) + B) div B = (n - 1) div B + 1" using B by (intro div_add_self2) simp
  then show ?thesis unfolding e by (simp only: Suc_eq_plus1)
qed

lemma ceil_div_zero: "0 < B \<Longrightarrow> (n + B - 1) div B = 0 \<longleftrightarrow> n = (0::nat)"
proof (cases "n = 0")
  case True
  assume "0 < B"
  then show ?thesis using True by simp
next
  case False
  assume "0 < B"
  then have "(n + B - 1) div B = Suc ((n - 1) div B)" using False ceil_div_pos [of B n] by blast
  then show ?thesis using False by (simp only: nat.distinct)
qed

lemma ceil_div_step:
  assumes "0 < B" and "0 < n"
  shows "(n + B - 1) div B = Suc ((n - min B n + B - 1) div (B::nat))"
proof (cases "n < B")
  case True
  then have "(n - 1) div B = 0" using assms by simp
  moreover have "n - min B n + B - 1 = B - 1" using True by (simp add: min_def)
  moreover have "(B - 1) div B = 0" using assms by simp
  ultimately show ?thesis using ceil_div_pos [OF assms] by (simp only:)
next
  case False
  then have "n - min B n + B - 1 = n - 1" by (simp add: min_def)
  then show ?thesis using ceil_div_pos [OF assms] by (simp only:)
qed

lemma BATCH_pos: "0 < BATCH"
  by (simp add: BATCH_def)

lemma batchCount_Nil: "batchCount files = 0 \<longleftrightarrow> files = []"
  unfolding batchCount_def using ceil_div_zero [OF BATCH_pos, of "length files"] by simp

lemma batchCount_pop:
  assumes "files \<noteq> []" and "length rest = length files - min BATCH (length files)"
  shows "batchCount files = Suc (batchCount rest)"
  unfolding batchCount_def assms(2)
  using ceil_div_step [OF BATCH_pos, of "length files"] assms(1) by simp

lemma popFiles_length:
  "n \<le> length files \<Longrightarrow> length (snd (popFiles n files batch)) = length files - n"
  by (induction n files batch rule: popFiles.induct) auto

lemma popBatch_None: "popBatch files = None \<longleftrightarrow> files = []"
  by (simp add: popBatch_def)

lemma popBatch_Some:
  assumes "popBatch files = Some (batch, rest)"
  shows "files \<noteq> []" and "length rest = length files - min BATCH (length files)"
proof -
  show ne: "files \<noteq> []" using assms by (auto simp: popBatch_def)
  have "popFiles (min BATCH (length files)) files [] = (batch, rest)"
    using assms ne by (simp add: popBatch_def)
  then have "rest = snd (popFiles (min BATCH (length files)) files [])" by simp
  then show "length rest = length files - min BATCH (length files)"
    by (simp only: popFiles_length [OF min.cobounded2])
qed

lemma spawn_workers:
  "length (snd (spawn n files ws)) = length ws + min n (batchCount files)"
proof (induction n arbitrary: files ws)
  case 0
  then show ?case by simp
next
  case (Suc n)
  show ?case
  proof (cases "popBatch files")
    case None
    then have "batchCount files = 0" using batchCount_Nil [of files] by (simp add: popBatch_None)
    then show ?thesis using None by simp
  next
    case (Some a)
    obtain batch rest where a: "a = (batch, rest)" by (cases a)
    have "batchCount files = Suc (batchCount rest)"
      using popBatch_Some [of files batch rest] Some a batchCount_pop by simp
    moreover have "spawn (Suc n) files ws = spawn n rest (ws @ [Processing batch])"
      using Some a by simp
    ultimately show ?thesis using Suc.IH [of rest "ws @ [Processing batch]"] by simp
  qed
qed

lemma length_filter_update:
  "i < length xs \<Longrightarrow>
   length (filter P (xs[i := y])) + (if P (xs ! i) then 1 else 0) =
   length (filter P xs) + (if P y then 1 else 0)"
proof (induction xs arbitrary: i)
  case Nil
  then show ?case by simp
next
  case (Cons x xs)
  then show ?case by (cases i) auto
qed

lemma all_filtered: "length (filter P xs) = length xs \<longleftrightarrow> list_all P xs"
proof (induction xs)
  case Nil
  then show ?case by simp
next
  case (Cons x xs)
  have "length (filter P xs) \<noteq> Suc (length xs)"
    using length_filter_le [of P xs] by linarith
  then show ?case using Cons by auto
qed

lemma runPrimaryAsync_sel:
  "workerCount (runPrimaryAsync cpus files) = cpus"
  "reports (runPrimaryAsync cpus files) = []"
  "merged (runPrimaryAsync cpus files) = None"
  "workers (runPrimaryAsync cpus files) = snd (spawn cpus files [])"
  by (simp_all add: runPrimaryAsync_def case_prod_unfold Let_def)

lemma spawn_not_killed: "Killed \<notin> set ws \<Longrightarrow> Killed \<notin> set (snd (spawn n files ws))"
proof (induction n arbitrary: files ws)
  case 0
  then show ?case by simp
next
  case (Suc n)
  then show ?case by (cases "popBatch files") (auto simp: case_prod_unfold)
qed

lemma consistent_initial: "0 < cpus \<Longrightarrow> consistent (runPrimaryAsync cpus files)"
proof -
  assume cpus: "0 < cpus"
  have "filter (\<lambda>w. w = Killed) (snd (spawn cpus files [])) = []"
    using spawn_not_killed [of "[]" cpus files] by (auto simp: filter_empty_conv)
  then show ?thesis
    using cpus spawn_workers [of cpus files "[]"] by (simp add: consistent_def runPrimaryAsync_sel)
qed

lemma deliver_frame:
  "workerCount (deliver reportOf i s) = workerCount s"
  "length (workers (deliver reportOf i s)) = length (workers s)"
  by (auto simp: deliver_def onNext_def onReport_def finish_def Let_def
      split: worker.splits option.splits)

lemma consistent_deliver:
  assumes "consistent s"
  shows "consistent (deliver reportOf i s)"
proof (cases "i < length (workers s)")
  case False
  then show ?thesis using assms by (simp add: deliver_def)
next
  case True
  let ?k = "\<lambda>ws. length (filter (\<lambda>w. w = Killed) ws)"
  have le: "?k (workers s) \<le> length (workers s)" by simp
  show ?thesis
  proof (cases "workers s ! i")
    case (Processing batch)
    have "?k ((workers s)[i := w]) = ?k (workers s)" if "w \<noteq> Killed" for w
      using length_filter_update [OF True, of "\<lambda>w. w = Killed" w] Processing that by simp
    then show ?thesis using assms True Processing
      by (auto simp: consistent_def deliver_def onNext_def split: option.splits)
  next
    case ReportRequested
    have k: "?k ((workers s)[i := Killed]) = Suc (?k (workers s))"
      using length_filter_update [OF True, of "\<lambda>w. w = Killed" Killed] ReportRequested by simp
    have "?k ((workers s)[i := Killed]) \<le> length (workers s)"
      using length_filter_le [of "\<lambda>w. w = Killed" "(workers s)[i := Killed]"] by simp
    then have "Suc (length (reports s)) \<le> workerCount s"
      using assms k by (simp add: consistent_def)
    then show ?thesis using assms True ReportRequested k
      by (auto simp: consistent_def deliver_def onReport_def finish_def Let_def)
  next
    case Killed
    then show ?thesis using assms True by (simp add: deliver_def)
  qed
qed

lemma consistent_run: "consistent s \<Longrightarrow> consistent (run reportOf schedule s)"
  unfolding run_def by (induction schedule arbitrary: s) (simp_all add: consistent_deliver)

lemma run_frame:
  "workerCount (run reportOf schedule s) = workerCount s"
  "length (workers (run reportOf schedule s)) = length (workers s)"
  unfolding run_def by (induction schedule arbitrary: s) (simp_all add: deliver_frame)

text \<open>
  Claim C4 against the code. The primary forks one worker for each execution unit and
  stops when the batches run out: \<open>min cpus (batchCount files)\<close> workers. \<open>finish\<close> (the
  merge and the summary) is run by the handler of \<open>report\<close> when the reports are as
  many as the execution units. So with at least as many batches as units it runs exactly
  when every worker has reported and been killed; with fewer batches than units it never
  runs, in whatever order the workers answer and however long the run.
\<close>

theorem finish_runs_only_for_a_full_pool:
  "length (workers (runPrimaryAsync cpus files)) = min cpus (batchCount files) \<and>
   (batchCount files < cpus \<longrightarrow>
      merged (run reportOf schedule (runPrimaryAsync cpus files)) = None) \<and>
   (0 < cpus \<and> cpus \<le> batchCount files \<longrightarrow>
      (merged (run reportOf schedule (runPrimaryAsync cpus files)) \<noteq> None) =
      list_all (\<lambda>w. w = Killed) (workers (run reportOf schedule (runPrimaryAsync cpus files))))"
proof (intro conjI impI)
  let ?s = "run reportOf schedule (runPrimaryAsync cpus files)"
  show n: "length (workers (runPrimaryAsync cpus files)) = min cpus (batchCount files)"
    using spawn_workers [of cpus files "[]"] by (simp add: runPrimaryAsync_sel)
  {
    assume few: "batchCount files < cpus"
    then have "consistent ?s" by (intro consistent_run consistent_initial) simp
    moreover have "length (workers ?s) < workerCount ?s"
      using few n by (simp add: run_frame runPrimaryAsync_sel)
    ultimately have "length (reports ?s) \<noteq> workerCount ?s"
      using length_filter_le [of "\<lambda>w. w = Killed" "workers ?s"]
      unfolding consistent_def by linarith
    then show "merged ?s = None"
      using \<open>consistent ?s\<close> by (simp add: consistent_def)
  }
  {
    assume full: "0 < cpus \<and> cpus \<le> batchCount files"
    then have c: "consistent ?s" by (intro consistent_run consistent_initial) simp
    have "length (workers ?s) = workerCount ?s"
      using full n by (simp add: run_frame runPrimaryAsync_sel)
    then have "(merged ?s \<noteq> None) =
        (length (filter (\<lambda>w. w = Killed) (workers ?s)) = length (workers ?s))"
      using c by (simp add: consistent_def)
    then show "(merged ?s \<noteq> None) = list_all (\<lambda>w. w = Killed) (workers ?s)"
      by (simp only: all_filtered)
  }
qed

theorem finish_runs_only_for_a_full_pool_witness:
  "batchCount [''a.js''] < 2 \<and>
   list_all (\<lambda>w. w = Killed)
     (workers (run (\<lambda>i. mergeReports []) [0, 0] (runPrimaryAsync 2 [''a.js'']))) \<and>
   merged (run (\<lambda>i. mergeReports []) [0, 0] (runPrimaryAsync 2 [''a.js''])) = None \<and>
   (0::nat) < 1 \<and> 1 \<le> batchCount [''a.js'', ''b.js'', ''c.js''] \<and>
   merged (run (\<lambda>i. mergeReports []) [0, 0] (runPrimaryAsync 1 [''a.js'', ''b.js'', ''c.js''])) \<noteq>
     None"
proof -
  have b1: "batchCount [''a.js''] = 1" and b3: "batchCount [''a.js'', ''b.js'', ''c.js''] = 1"
    by (simp_all add: batchCount_def BATCH_def)
  have w1: "workers (run (\<lambda>i. mergeReports []) [0, 0] (runPrimaryAsync 2 [''a.js''])) = [Killed]"
    by code_simp
  have w3: "workers (run (\<lambda>i. mergeReports []) [0, 0]
              (runPrimaryAsync 1 [''a.js'', ''b.js'', ''c.js''])) = [Killed]"
    by code_simp
  have few: "batchCount [''a.js''] < 2"
    by (simp add: b1)
  have full: "(0::nat) < 1 \<and> 1 \<le> batchCount [''a.js'', ''b.js'', ''c.js'']"
    by (simp add: b3)
  have m1: "merged (run (\<lambda>i. mergeReports []) [0, 0] (runPrimaryAsync 2 [''a.js''])) = None"
    using finish_runs_only_for_a_full_pool
        [of 2 "[''a.js'']" "\<lambda>i. mergeReports []" "[0, 0]"] few
    by blast
  have "(merged (run (\<lambda>i. mergeReports []) [0, 0]
            (runPrimaryAsync 1 [''a.js'', ''b.js'', ''c.js''])) \<noteq> None) =
        list_all (\<lambda>w. w = Killed) (workers (run (\<lambda>i. mergeReports []) [0, 0]
            (runPrimaryAsync 1 [''a.js'', ''b.js'', ''c.js''])))"
    using finish_runs_only_for_a_full_pool
        [of 1 "[''a.js'', ''b.js'', ''c.js'']" "\<lambda>i. mergeReports []" "[0, 0]"] full
    by blast
  then have m3: "merged (run (\<lambda>i. mergeReports []) [0, 0]
            (runPrimaryAsync 1 [''a.js'', ''b.js'', ''c.js''])) \<noteq> None"
    unfolding w3 by simp
  have k1: "list_all (\<lambda>w. w = Killed)
     (workers (run (\<lambda>i. mergeReports []) [0, 0] (runPrimaryAsync 2 [''a.js''])))"
    unfolding w1 by simp
  show ?thesis
    using few full m1 m3 k1 by blast
qed

text \<open>
  The failing run of claim C4: two execution units and one file, hence one batch and one
  worker. The worker asks for its next batch, gets none, reports and is killed; every
  spawned worker has then reported, and there is no merged report.
\<close>

theorem one_batch_on_two_units_is_never_merged:
  "batchCount [''a.js''] = 1 \<and>
   workers (runPrimaryAsync 2 [''a.js'']) = [Processing [''a.js'']] \<and>
   workers (run (\<lambda>i. mergeReports []) [0, 0] (runPrimaryAsync 2 [''a.js''])) = [Killed] \<and>
   reports (run (\<lambda>i. mergeReports []) [0, 0] (runPrimaryAsync 2 [''a.js''])) =
     [mergeReports []] \<and>
   merged (run (\<lambda>i. mergeReports []) [0, 0] (runPrimaryAsync 2 [''a.js''])) = None"
  by code_simp

section \<open>A query of the oracle that fails\<close>














text \<open>
  An answer of the oracle sets the annotation of a parameter and nothing else: the
  optional marks are those the traversal has left.
\<close>

lemma answer_keeps_marks:
  assumes "answer exec parse jsFilePath (q, l, p) = Inr (l', p')"
  shows "l' = l \<and> isOptionalParam p' = isOptionalParam p \<and>
         hasAbsenceMarker p' = hasAbsenceMarker p"
proof -
  have m: "isOptionalParam (setTypeAnnotation a p) = isOptionalParam p \<and>
           hasAbsenceMarker (setTypeAnnotation a p) = hasAbsenceMarker p" for a
  proof (cases p)
    case (Param pat)
    then show ?thesis by (cases pat) simp
  next
    case (AssignmentPattern left right a0)
    then show ?thesis by simp
  qed
  show ?thesis
  proof (cases q)
    case None
    then show ?thesis using assms by simp
  next
    case (Some loc)
    then show ?thesis
      using assms m by (auto simp: bindE_Inr_iff split: option.splits)
  qed
qed














text \<open>
  The same declaration in a test file: the traversal gives the parameter the annotation
  \<open>any\<close>, which no usable answer leaves and the answer \<open>string\<close> replaces. And a file
  that also holds \<open>type T = interface {}\<close>: the traversal throws, so the file is logged
  and not written, whatever the oracle answers.
\<close>

lemma processFile_examples:
  "processFile (\<lambda>f l. Inr ''(unknown)'') (\<lambda>s. if s = ''type T = string'' then Inr StringTypeAnnotation else Inl (SyntaxError s))
      (\<lambda>f. Inr \<lparr>nodes = [FunctionDeclaration [(\<lparr>line = 3, column = 11\<rparr>, Param (Pattern (IdentifierPattern ''x'') None NoAnnotation))]], hasJsx = False\<rparr>) ''a.test.js'' =
     Written ''a.test.ts'' \<lparr>nodes = [FunctionDeclaration [(\<lparr>line = 3, column = 11\<rparr>, Param (Pattern (IdentifierPattern ''x'') None (TSTypeAnnotation TSAnyKeyword)))]], hasJsx = False\<rparr> \<and>
   processFile (\<lambda>f l. Inr ''string'') (\<lambda>s. if s = ''type T = string'' then Inr StringTypeAnnotation else Inl (SyntaxError s))
      (\<lambda>f. Inr \<lparr>nodes = [FunctionDeclaration [(\<lparr>line = 3, column = 11\<rparr>, Param (Pattern (IdentifierPattern ''x'') None NoAnnotation))]], hasJsx = False\<rparr>) ''a.test.js'' =
     Written ''a.test.ts'' \<lparr>nodes = [FunctionDeclaration [(\<lparr>line = 3, column = 11\<rparr>, Param (Pattern (IdentifierPattern ''x'') None (TSTypeAnnotation TSStringKeyword)))]], hasJsx = False\<rparr> \<and>
   processFile (\<lambda>f l. Inr ''(unknown)'') (\<lambda>s. if s = ''type T = string'' then Inr StringTypeAnnotation else Inl (SyntaxError s))
      (\<lambda>f. Inr \<lparr>nodes = [FunctionDeclaration [(\<lparr>line = 3, column = 11\<rparr>, Param (Pattern (IdentifierPattern ''x'') None NoAnnotation))], TypeAlias ''T'' None (InterfaceTypeAnnotation (ObjectTypeAnnotation [] [] [] []))], hasJsx = False\<rparr>) ''a.js'' =
     Logged (UnsupportedASTNode ''InterfaceTypeAnnotation'')"
  by code_simp

end
